theory Spec2Isabelle
  imports Complex_Main
begin

section \<open>Conventions of the embedding\<close>

text \<open>
  The two source files are \<^verbatim>\<open>miniapps/plasma/transport_solver.cpp\<close> and
  \<^verbatim>\<open>examples/ginkgo/ex1lor.cpp\<close>.

  \<^item> A C++ \<^verbatim>\<open>double\<close> is a \<^typ>\<open>real\<close>: arithmetic is exact, so rounding,
    overflow and NaN are outside the model.
  \<^item> An \<^verbatim>\<open>mfem::Vector\<close> is a \<^typ>\<open>real list\<close>, \<^verbatim>\<open>v(i)\<close> is \<open>v ! i\<close>
    and an assignment \<^verbatim>\<open>v(i) = e\<close> is \<open>v[i := e]\<close>. The library checks an
    index only in debug builds; an entry point of the model that would read or
    write out of range returns \<open>Inl OutOfBounds\<close> instead.
  \<^item> A \<^verbatim>\<open>for (int d = 0; d < n; d++)\<close> loop is a \<open>fold\<close> over \<open>[0..<n]\<close>.
  \<^item> A pointer to a library object is a \<^typ>\<open>nat option\<close>: \<open>None\<close> is
    \<^verbatim>\<open>NULL\<close>, \<open>Some a\<close> the object at address \<open>a\<close>.
  \<^item> In \<^verbatim>\<open>transport_solver.cpp\<close>, a failed \<^verbatim>\<open>MFEM_VERIFY\<close> and a dereferenced null
    pointer end the call: the model returns \<open>Inl\<close> of an \<open>error\<close>. That file
    has no call of \<^verbatim>\<open>mfem_error\<close>.
  \<^item> \<^verbatim>\<open>main\<close> of \<^verbatim>\<open>ex1lor.cpp\<close> is the value it returns together with the list
    of what it asks of the library, in order.
  \<^item> The local \<^verbatim>\<open>dim\<close> of the source is \<open>sdim\<close> (\<open>dim\<close> is a constant of
    the library).
  \<^item> Member names lose the trailing underscore of the source (\<^verbatim>\<open>dt_\<close> becomes
    \<open>dt\<close>) and, where two classes share a name, carry the class as a prefix.
\<close>

datatype error =
    VerifyFailed string
  | NullPointer
  | OutOfBounds

type_synonym Vector = "real list"

section \<open>Euler flux and the Riemann solver (transport\_solver.cpp)\<close>

text \<open>\<^verbatim>\<open>const Vector den_vel(state.GetData() + 1, dim)\<close>: a view of the state.\<close>

definition den_vel :: "Vector \<Rightarrow> nat \<Rightarrow> real" where
  "den_vel state d = state ! (1 + d)"

definition ComputePressure :: "Vector \<Rightarrow> nat \<Rightarrow> real \<Rightarrow> real" where
  "ComputePressure state sdim specific_heat_ratio =
     (let den = state ! 0;
          den_energy = state ! (1 + sdim);
          den_vel2 = fold (\<lambda>d acc. acc + den_vel state d * den_vel state d) [0..<sdim] 0;
          den_vel2 = den_vel2 / den
      in (specific_heat_ratio - 1) * (den_energy - 0.5 * den_vel2))"

text \<open>The physicality check; its printing to \<^verbatim>\<open>cout\<close> is left out.\<close>

definition StateIsPhysical :: "Vector \<Rightarrow> nat \<Rightarrow> real \<Rightarrow> bool" where
  "StateIsPhysical state sdim specific_heat_ratio =
     (let den = state ! 0;
          den_energy = state ! (1 + sdim)
      in if den < 0 then False
         else if den_energy \<le> 0 then False
         else
           (let den_vel2 = fold (\<lambda>i acc. acc + den_vel state i * den_vel state i) [0..<sdim] 0;
                den_vel2 = den_vel2 / den;
                pres = (specific_heat_ratio - 1) * (den_energy - 0.5 * den_vel2)
            in if pres \<le> 0 then False else True))"

text \<open>
  \<^verbatim>\<open>ComputeFlux\<close> fills the \<^verbatim>\<open>DenseMatrix\<close> \<open>flux\<close>; the matrix is a function of
  row and column, an entry the loops do not write keeps its old value.
\<close>

type_synonym DenseMatrix = "nat \<Rightarrow> nat \<Rightarrow> real"

definition set_entry :: "DenseMatrix \<Rightarrow> nat \<Rightarrow> nat \<Rightarrow> real \<Rightarrow> DenseMatrix" where
  "set_entry m i j v = m(i := (m i)(j := v))"

definition ComputeFlux :: "Vector \<Rightarrow> nat \<Rightarrow> real \<Rightarrow> DenseMatrix \<Rightarrow> DenseMatrix" where
  "ComputeFlux state sdim specific_heat_ratio flux =
     (let den = state ! 0;
          den_energy = state ! (1 + sdim);
          pres = ComputePressure state sdim specific_heat_ratio;
          flux = fold (\<lambda>d flux.
                   (let flux = set_entry flux 0 d (den_vel state d);
                        flux = fold (\<lambda>i flux.
                                 set_entry flux (1 + i) d (den_vel state i * den_vel state d / den))
                               [0..<sdim] flux
                    in set_entry flux (1 + d) d (flux (1 + d) d + pres)))
                 [0..<sdim] flux;
          H = (den_energy + pres) / den
      in fold (\<lambda>d flux. set_entry flux (1 + sdim) d (den_vel state d * H)) [0..<sdim] flux)"

definition ComputeFluxDotN :: "Vector \<Rightarrow> Vector \<Rightarrow> real \<Rightarrow> Vector \<Rightarrow> Vector" where
  "ComputeFluxDotN state nor specific_heat_ratio fluxN =
     (let sdim = length nor;
          den = state ! 0;
          den_energy = state ! (1 + sdim);
          pres = ComputePressure state sdim specific_heat_ratio;
          den_velN = fold (\<lambda>d acc. acc + den_vel state d * nor ! d) [0..<sdim] 0;
          fluxN = fluxN[0 := den_velN];
          fluxN = fold (\<lambda>d fluxN.
                    fluxN[1 + d := den_velN * den_vel state d / den + pres * nor ! d])
                  [0..<sdim] fluxN;
          H = (den_energy + pres) / den
      in fluxN[1 + sdim := den_velN * H])"

definition ComputeMaxCharSpeed :: "Vector \<Rightarrow> nat \<Rightarrow> real \<Rightarrow> real" where
  "ComputeMaxCharSpeed state sdim specific_heat_ratio =
     (let den = state ! 0;
          den_vel2 = fold (\<lambda>d acc. acc + den_vel state d * den_vel state d) [0..<sdim] 0;
          den_vel2 = den_vel2 / den;
          pres = ComputePressure state sdim specific_heat_ratio;
          sound = sqrt (specific_heat_ratio * pres / den);
          vel = sqrt (den_vel2 / den)
      in vel + sound)"

text \<open>
  The solver object: \<^verbatim>\<open>flux1_\<close> and \<^verbatim>\<open>flux2_\<close> are member vectors that
  \<^verbatim>\<open>Eval\<close> overwrites, built with \<^verbatim>\<open>num_equation\<close> entries.
\<close>

record RiemannSolver =
  num_equation :: nat
  specific_heat_ratio :: real
  flux1 :: Vector
  flux2 :: Vector

text \<open>
  \<^verbatim>\<open>Eval\<close> returns the wave speed, the vector \<open>flux\<close> it wrote into and the
  solver with its two scratch vectors. Every index the body uses is in range
  exactly when \<open>Eval_in_range\<close> holds. The two \<^verbatim>\<open>MFEM_ASSERT\<close> lines are
  compiled only in debug builds and are not part of the function.
\<close>

definition Eval_in_range :: "RiemannSolver \<Rightarrow> Vector \<Rightarrow> Vector \<Rightarrow> Vector \<Rightarrow> Vector \<Rightarrow> bool" where
  "Eval_in_range rs state1 state2 nor flux =
     (length nor + 2 \<le> length (flux1 rs) \<and> length nor + 2 \<le> length (flux2 rs) \<and>
      length nor + 2 \<le> length state1 \<and> length nor + 2 \<le> length state2 \<and>
      num_equation rs \<le> length (flux1 rs) \<and> num_equation rs \<le> length (flux2 rs) \<and>
      num_equation rs \<le> length state1 \<and> num_equation rs \<le> length state2 \<and>
      num_equation rs \<le> length flux)"

definition Eval ::
  "RiemannSolver \<Rightarrow> Vector \<Rightarrow> Vector \<Rightarrow> Vector \<Rightarrow> Vector \<Rightarrow> error + (real \<times> Vector \<times> RiemannSolver)" where
  "Eval rs state1 state2 nor flux =
     (if \<not> Eval_in_range rs state1 state2 nor flux then Inl OutOfBounds
      else
       (let sdim = length nor;
            maxE1 = ComputeMaxCharSpeed state1 sdim (specific_heat_ratio rs);
            maxE2 = ComputeMaxCharSpeed state2 sdim (specific_heat_ratio rs);
            maxE = max maxE1 maxE2;
            f1 = ComputeFluxDotN state1 nor (specific_heat_ratio rs) (flux1 rs);
            f2 = ComputeFluxDotN state2 nor (specific_heat_ratio rs) (flux2 rs);
            normag = fold (\<lambda>i acc. acc + nor ! i * nor ! i) [0..<sdim] 0;
            normag = sqrt normag;
            flux = fold (\<lambda>i flux.
                     flux[i := 0.5 * (f1 ! i + f2 ! i)
                               - 0.5 * maxE * (state2 ! i - state1 ! i) * normag])
                   [0..<num_equation rs] flux
        in Inr (maxE, flux, rs\<lparr>flux1 := f1, flux2 := f2\<rparr>)))"


subsection \<open>Closed forms of what the loops compute\<close>

text \<open>
  The value of the momentum contracted with the normal, and the entries that
  \<^verbatim>\<open>ComputeFluxDotN\<close> and \<^verbatim>\<open>ComputeFlux\<close> leave behind, written without
  loops. They are related to the code by the lemmas \<open>ComputeFluxDotN_nth\<close> and
  \<open>ComputeFlux_entry\<close> below.
\<close>

definition den_velN :: "Vector \<Rightarrow> Vector \<Rightarrow> real" where
  "den_velN state nor = (\<Sum>d<length nor. den_vel state d * nor ! d)"

definition FluxDotN_entry :: "Vector \<Rightarrow> Vector \<Rightarrow> real \<Rightarrow> nat \<Rightarrow> real" where
  "FluxDotN_entry state nor g k =
     (if k = 0 then den_velN state nor
      else if k \<le> length nor then
        den_velN state nor * den_vel state (k - 1) / state ! 0
          + ComputePressure state (length nor) g * nor ! (k - 1)
      else den_velN state nor * ((state ! (1 + length nor) + ComputePressure state (length nor) g) / state ! 0))"

definition Flux_entry :: "Vector \<Rightarrow> nat \<Rightarrow> real \<Rightarrow> nat \<Rightarrow> nat \<Rightarrow> real" where
  "Flux_entry state sdim g k d =
     (if k = 0 then den_vel state d
      else if k \<le> sdim then
        den_vel state (k - 1) * den_vel state d / state ! 0
          + (if k = 1 + d then ComputePressure state sdim g else 0)
      else den_vel state d * ((state ! (1 + sdim) + ComputePressure state sdim g) / state ! 0))"

subsection \<open>The local Lax-Friedrichs flux as the specification words it\<close>

text \<open>
  Written from the specification, not from \<^verbatim>\<open>Eval\<close>: the characteristic speed
  \<open>|v| + sqrt (gamma * p / rho)\<close> with \<open>v = den_vel / den\<close>; the Euler flux of
  \<^verbatim>\<open>ComputeFlux\<close> contracted with the normal; the Euclidean norm of the normal; and
  the flux \<open>0.5 * (F(state1).nor + F(state2).nor) - 0.5 * maxE * (state2 - state1) * ||nor||\<close>.
\<close>

definition spec_char_speed :: "Vector \<Rightarrow> nat \<Rightarrow> real \<Rightarrow> real" where
  "spec_char_speed state sdim g =
     sqrt (\<Sum>d<sdim. (den_vel state d / state ! 0)\<^sup>2)
       + sqrt (g * ComputePressure state sdim g / state ! 0)"

definition spec_flux_dot_nor :: "Vector \<Rightarrow> Vector \<Rightarrow> real \<Rightarrow> nat \<Rightarrow> real" where
  "spec_flux_dot_nor state nor g i =
     (\<Sum>d<length nor. ComputeFlux state (length nor) g (\<lambda>r c. 0) i d * nor ! d)"

definition spec_norm :: "Vector \<Rightarrow> real" where
  "spec_norm nor = sqrt (\<Sum>d<length nor. (nor ! d)\<^sup>2)"

definition spec_rusanov_flux :: "real \<Rightarrow> Vector \<Rightarrow> Vector \<Rightarrow> Vector \<Rightarrow> nat \<Rightarrow> real" where
  "spec_rusanov_flux g state1 state2 nor i =
     0.5 * (spec_flux_dot_nor state1 nor g i + spec_flux_dot_nor state2 nor g i)
       - 0.5 * max (spec_char_speed state1 (length nor) g) (spec_char_speed state2 (length nor) g)
           * (state2 ! i - state1 ! i) * spec_norm nor"

section \<open>DGAdvectionDiffusionTDO (transport\_solver.cpp)\<close>

text \<open>
  What a member function asks of the library is recorded as a list of calls, each
  the member it is made on and the method, in the order of the source.
\<close>

type_synonym ptr = "nat option"

type_synonym call = "string \<times> string"

text \<open>The \<^verbatim>\<open>height\<close> and \<^verbatim>\<open>width\<close> of \<^verbatim>\<open>mfem::Operator\<close>, the base class.\<close>

record Operator =
  height :: nat
  width :: nat

text \<open>A finite element space, as far as the code reads it: its two sizes.\<close>

record ParFiniteElementSpace =
  VSize :: nat
  TrueVSize :: nat

text \<open>
  The members the claims are about. A product coefficient is its scalar factor
  (\<^verbatim>\<open>SetAConst\<close> stores it), \<open>None\<close> while the pointer is \<^verbatim>\<open>NULL\<close>; of the
  vectors \<^verbatim>\<open>RHS_\<close> and \<^verbatim>\<open>X_\<close> this record has the size, which the constructor
  and \<^verbatim>\<open>Update\<close> set.
\<close>

record DGAdvectionDiffusionTDO = Operator +
  ad_imex :: bool
  ad_dt :: real
  ad_dtNegVCoef :: "real option"
  ad_dtdCoef :: "real option"
  ad_dtDCoef :: "real option"
  ad_a :: ptr
  ad_b :: ptr
  ad_s :: ptr
  ad_k :: ptr
  ad_q_exp :: ptr
  ad_q_imp :: ptr
  ad_RHS :: nat
  ad_X :: nat

definition DGAdvectionDiffusionTDO_ctor ::
  "ParFiniteElementSpace \<Rightarrow> bool \<Rightarrow> DGAdvectionDiffusionTDO" where
  "DGAdvectionDiffusionTDO_ctor fes imex_arg =
     \<lparr>height = VSize fes, width = VSize fes,
      ad_imex = imex_arg,
      ad_dt = - 1,
      ad_dtNegVCoef = None, ad_dtdCoef = None, ad_dtDCoef = None,
      ad_a = None, ad_b = None, ad_s = None, ad_k = None,
      ad_q_exp = None, ad_q_imp = None,
      ad_RHS = TrueVSize fes, ad_X = TrueVSize fes\<rparr>"

definition DGAdvectionDiffusionTDO_ExplicitMult ::
  "DGAdvectionDiffusionTDO \<Rightarrow> error + call list" where
  "DGAdvectionDiffusionTDO_ExplicitMult this =
     (if \<not> ad_imex this
      then Inl (VerifyFailed ''Unexpected call to ExplicitMult for non-IMEX method!'')
      else Inr ([(''pgf_'', ''ExchangeFaceNbrData'')]
                @ (if ad_q_exp this \<noteq> None then [(''rhs_'', ''= *q_exp_'')]
                   else [(''rhs_'', ''= 0.0'')])
                @ (if ad_k this \<noteq> None then [(''k_'', ''AddMult'')] else [])
                @ [(''rhs_'', ''ParallelAssemble''), (''M_solver_'', ''Mult''),
                   (''fx_gf'', ''MakeRef''), (''fx_gf'', ''= X_'')]))"

text \<open>
  \<^verbatim>\<open>ImplicitSolve\<close> writes the member vectors \<^verbatim>\<open>rhs_\<close>, \<^verbatim>\<open>RHS_\<close> and \<^verbatim>\<open>X_\<close>
  and reassembles the forms behind \<^verbatim>\<open>s_\<close> or \<^verbatim>\<open>b_\<close>, and \<^verbatim>\<open>a_\<close>, on every
  call. What the vectors hold and the matrices the forms were last assembled to
  (\<open>None\<close> before the first assembly) are a record of their own, which
  \<^verbatim>\<open>ImplicitSolve\<close> takes and returns beside the operator.
\<close>

record DGAdvectionDiffusionTDO_data =
  ad_rhs_data :: Vector
  ad_RHS_data :: Vector
  ad_X_data :: Vector
  ad_a_matrix :: "DenseMatrix option"
  ad_b_matrix :: "DenseMatrix option"
  ad_s_matrix :: "DenseMatrix option"

text \<open>
  What \<^verbatim>\<open>ImplicitSolve\<close> gets from the library, which is not part of the source,
  as parameters: the vector of \<^verbatim>\<open>*q_imp_\<close>; what \<^verbatim>\<open>rhs_.ParallelAssemble(RHS_)\<close>
  and \<^verbatim>\<open>fes_->Dof_TrueDof_Matrix()->Mult(u, X_)\<close> write; the matrix a form gives
  on \<^verbatim>\<open>Assemble\<close>, \<^verbatim>\<open>Finalize\<close> and \<^verbatim>\<open>ParallelAssemble\<close>, with the coefficients
  as the operator holds them then; what \<^verbatim>\<open>M->Mult(a, x, b, y)\<close> writes to \<open>y\<close>;
  and what the two solvers, preconditioned with the \<^verbatim>\<open>HypreBoomerAMG\<close> of the
  matrix, write on \<^verbatim>\<open>Mult\<close>.
\<close>

record library =
  lib_q_imp :: Vector
  lib_ParallelAssemble :: "Vector \<Rightarrow> Vector"
  lib_Dof_TrueDof_Mult :: "Vector \<Rightarrow> Vector"
  lib_Assemble :: "string \<Rightarrow> DGAdvectionDiffusionTDO \<Rightarrow> DenseMatrix"
  lib_Mult :: "DenseMatrix \<Rightarrow> real \<Rightarrow> Vector \<Rightarrow> real \<Rightarrow> Vector \<Rightarrow> Vector"
  lib_CGSolver :: "DenseMatrix \<Rightarrow> Vector \<Rightarrow> Vector"
  lib_GMRESSolver :: "DenseMatrix \<Rightarrow> Vector \<Rightarrow> Vector"

text \<open>
  The three parts of \<^verbatim>\<open>ImplicitSolve\<close>, in the order of the source. First the
  guarded update of the time step: \<^verbatim>\<open>SetAConst(dt)\<close> on each of the three
  coefficients that is allocated, and \<^verbatim>\<open>dt_ = dt\<close>. The logging line before it
  is left out.
\<close>

definition ImplicitSolve_time_step ::
  "real \<Rightarrow> DGAdvectionDiffusionTDO \<Rightarrow> DGAdvectionDiffusionTDO \<times> call list" where
  "ImplicitSolve_time_step dt this =
     (if \<bar>dt - ad_dt this\<bar> > 0.0001 * ad_dt this
      then (this\<lparr>ad_dtdCoef := map_option (\<lambda>a. dt) (ad_dtdCoef this),
                 ad_dtDCoef := map_option (\<lambda>a. dt) (ad_dtDCoef this),
                 ad_dtNegVCoef := map_option (\<lambda>a. dt) (ad_dtNegVCoef this),
                 ad_dt := dt\<rparr>,
            (if ad_dtdCoef this \<noteq> None then [(''dtdCoef_'', ''SetAConst'')] else [])
            @ (if ad_dtDCoef this \<noteq> None then [(''dtDCoef_'', ''SetAConst'')] else [])
            @ (if ad_dtNegVCoef this \<noteq> None then [(''dtNegVCoef_'', ''SetAConst'')] else []))
      else (this, []))"

text \<open>
  Then the right-hand side: \<^verbatim>\<open>rhs_\<close> is overwritten with \<^verbatim>\<open>*q_imp_\<close> or with
  zeros, \<^verbatim>\<open>RHS_\<close> with its assembly, \<^verbatim>\<open>X_\<close> with the image of \<open>u\<close>, and the
  product of the reassembled \<^verbatim>\<open>s_\<close> (or \<^verbatim>\<open>b_\<close>) with \<^verbatim>\<open>X_\<close> is taken off
  \<^verbatim>\<open>RHS_\<close>.
\<close>

definition ImplicitSolve_rhs ::
  "library \<Rightarrow> Vector \<Rightarrow> DGAdvectionDiffusionTDO \<Rightarrow> DGAdvectionDiffusionTDO_data
     \<Rightarrow> DGAdvectionDiffusionTDO_data \<times> call list" where
  "ImplicitSolve_rhs lib u this mem =
     (let mem = mem\<lparr>ad_rhs_data :=
                      (if ad_q_imp this \<noteq> None then lib_q_imp lib
                       else map (\<lambda>x. 0) (ad_rhs_data mem))\<rparr>;
          mem = mem\<lparr>ad_RHS_data := lib_ParallelAssemble lib (ad_rhs_data mem)\<rparr>;
          mem = mem\<lparr>ad_X_data := lib_Dof_TrueDof_Mult lib u\<rparr>;
          calls =
            (if ad_q_imp this \<noteq> None then [(''rhs_'', ''= *q_imp_'')]
             else [(''rhs_'', ''= 0.0'')])
            @ [(''rhs_'', ''ParallelAssemble''), (''fes_'', ''Dof_TrueDof_Matrix()->Mult'')]
      in if ad_imex this
         then (if ad_s this \<noteq> None
               then (let S = lib_Assemble lib ''s_'' this
                     in (mem\<lparr>ad_s_matrix := Some S,
                              ad_RHS_data :=
                                lib_Mult lib S (- 1) (ad_X_data mem) 1 (ad_RHS_data mem)\<rparr>,
                         calls @ [(''s_'', ''Assemble''), (''s_'', ''Finalize''),
                                  (''s_'', ''ParallelAssemble''), (''S'', ''Mult'')]))
               else (mem, calls))
         else (if ad_b this \<noteq> None
               then (let B = lib_Assemble lib ''b_'' this
                     in (mem\<lparr>ad_b_matrix := Some B,
                              ad_RHS_data :=
                                lib_Mult lib B (- 1) (ad_X_data mem) 1 (ad_RHS_data mem)\<rparr>,
                         calls @ [(''b_'', ''Assemble''), (''b_'', ''Finalize''),
                                  (''b_'', ''ParallelAssemble''), (''B'', ''Mult'')]))
               else (mem, calls)))"

text \<open>
  Last the solve: \<^verbatim>\<open>a_->Assemble()\<close> dereferences \<^verbatim>\<open>a_\<close> without a test; the
  solution overwrites \<^verbatim>\<open>X_\<close> and is copied to \<^verbatim>\<open>dudt\<close>, the third component of
  the result.
\<close>

definition DGAdvectionDiffusionTDO_ImplicitSolve ::
  "library \<Rightarrow> real \<Rightarrow> Vector \<Rightarrow> DGAdvectionDiffusionTDO \<Rightarrow> DGAdvectionDiffusionTDO_data
     \<Rightarrow> error + (DGAdvectionDiffusionTDO \<times> DGAdvectionDiffusionTDO_data \<times> Vector \<times> call list)" where
  "DGAdvectionDiffusionTDO_ImplicitSolve lib dt u this mem =
     (let (this, calls1) = ImplicitSolve_time_step dt this;
          (mem, calls2) = ImplicitSolve_rhs lib u this mem
      in case ad_a this of
           None \<Rightarrow> Inl NullPointer
         | Some a \<Rightarrow>
             (let A = lib_Assemble lib ''a_'' this;
                  mem = mem\<lparr>ad_a_matrix := Some A,
                            ad_X_data :=
                              (if ad_imex this then lib_CGSolver lib A (ad_RHS_data mem)
                               else lib_GMRESSolver lib A (ad_RHS_data mem))\<rparr>
              in Inr (this, mem, ad_X_data mem,
                      [(''pgf_'', ''ExchangeFaceNbrData'')] @ calls1 @ calls2
                      @ [(''a_'', ''Assemble''), (''a_'', ''Finalize''),
                         (''a_'', ''ParallelAssemble'')]
                      @ (if ad_imex this then [(''A_solver'', ''CGSolver::Mult'')]
                         else [(''A_solver'', ''GMRESSolver::Mult'')])
                      @ [(''dudt_gf'', ''MakeRef''), (''dudt_gf'', ''= X_'')])))"

text \<open>
  \<^verbatim>\<open>Update\<close> reads the two sizes of \<^verbatim>\<open>*fes_\<close> as they are at the call;
  \<^verbatim>\<open>a_->Update()\<close> dereferences \<^verbatim>\<open>a_\<close> without a test.
\<close>

definition DGAdvectionDiffusionTDO_Update ::
  "ParFiniteElementSpace \<Rightarrow> DGAdvectionDiffusionTDO \<Rightarrow> error + (DGAdvectionDiffusionTDO \<times> call list)" where
  "DGAdvectionDiffusionTDO_Update fes this =
     (let this = this\<lparr>height := VSize fes, width := VSize fes\<rparr>;
          calls = [(''m_'', ''Update''), (''m_'', ''Assemble''), (''m_'', ''Finalize'')]
      in case ad_a this of
           None \<Rightarrow> Inl NullPointer
         | Some a \<Rightarrow>
             Inr (this\<lparr>ad_RHS := TrueVSize fes, ad_X := TrueVSize fes\<rparr>,
                  calls
                  @ [(''a_'', ''Update'')]
                  @ (if ad_b this \<noteq> None then [(''b_'', ''Update'')] else [])
                  @ (if ad_s this \<noteq> None then [(''s_'', ''Update'')] else [])
                  @ (if ad_k this \<noteq> None
                     then [(''k_'', ''Update''), (''k_'', ''Assemble''), (''k_'', ''Finalize'')]
                     else [])
                  @ (if ad_q_exp this \<noteq> None
                     then [(''q_exp_'', ''Update''), (''q_exp_'', ''Assemble'')] else [])
                  @ (if ad_q_imp this \<noteq> None
                     then [(''q_imp_'', ''Update''), (''q_imp_'', ''Assemble'')] else [])
                  @ [(''rhs_'', ''Update'')]))"

text \<open>
  The forms the operator owns and has allocated: \<^verbatim>\<open>m_\<close> and \<^verbatim>\<open>rhs_\<close> are
  members, the others are behind pointers.
\<close>

definition DGAdvectionDiffusionTDO_owned :: "DGAdvectionDiffusionTDO \<Rightarrow> string list" where
  "DGAdvectionDiffusionTDO_owned this =
     [''m_'', ''rhs_'']
     @ (if ad_a this \<noteq> None then [''a_''] else [])
     @ (if ad_b this \<noteq> None then [''b_''] else [])
     @ (if ad_s this \<noteq> None then [''s_''] else [])
     @ (if ad_k this \<noteq> None then [''k_''] else [])
     @ (if ad_q_exp this \<noteq> None then [''q_exp_''] else [])
     @ (if ad_q_imp this \<noteq> None then [''q_imp_''] else [])"

subsection \<open>An example library and operator\<close>

text \<open>
  A library on vectors of any size whose matrices are diagonal: every form
  assembles to \<open>(1 + dt_) I\<close>, and both solvers divide by the diagonal.
\<close>

definition example_library :: library where
  "example_library =
     \<lparr>lib_q_imp = [1, 1],
      lib_ParallelAssemble = (\<lambda>v. v),
      lib_Dof_TrueDof_Mult = (\<lambda>v. v),
      lib_Assemble = (\<lambda>form this i j. if i = j then 1 + ad_dt this else 0),
      lib_Mult = (\<lambda>M a x b y. map (\<lambda>i. a * M i i * x ! i + b * y ! i) [0..<length y]),
      lib_CGSolver = (\<lambda>A v. map (\<lambda>i. v ! i / A i i) [0..<length v]),
      lib_GMRESSolver = (\<lambda>A v. map (\<lambda>i. v ! i / A i i) [0..<length v])\<rparr>"

text \<open>
  A new operator on a space of two unknowns that has been given \<^verbatim>\<open>dtdCoef_\<close>,
  \<^verbatim>\<open>a_\<close>, \<^verbatim>\<open>b_\<close> and \<^verbatim>\<open>q_imp_\<close>, and vectors that hold fives.
\<close>

definition example_DGAdvectionDiffusionTDO :: DGAdvectionDiffusionTDO where
  "example_DGAdvectionDiffusionTDO =
     (DGAdvectionDiffusionTDO_ctor \<lparr>VSize = 2, TrueVSize = 2\<rparr> False)
       \<lparr>ad_dtdCoef := Some (- 1), ad_a := Some 1, ad_b := Some 2, ad_q_imp := Some 3\<rparr>"

definition example_data :: DGAdvectionDiffusionTDO_data where
  "example_data =
     \<lparr>ad_rhs_data = [5, 5], ad_RHS_data = [5, 5], ad_X_data = [5, 5],
      ad_a_matrix = None, ad_b_matrix = None, ad_s_matrix = None\<rparr>"

section \<open>DiffusionTDO (transport\_solver.cpp)\<close>

text \<open>
  The matrix \<^verbatim>\<open>M_\<close> is named by the factor \<^verbatim>\<open>dtNuCoef_\<close> had when \<^verbatim>\<open>m_\<close> was
  assembled into it, the preconditioner \<^verbatim>\<open>amg_\<close> by the matrix it was built
  from, the solver by its class and its matrix; \<open>None\<close> is \<^verbatim>\<open>NULL\<close>.
\<close>

datatype solver_kind = HyprePCG | HypreGMRES

record DiffusionTDO =
  df_dt :: real
  df_dg_sigma :: real
  df_dtNuCoef :: real
  df_M :: "real option"
  df_amg :: "real option"
  df_solver :: "(solver_kind \<times> real) option"

definition DiffusionTDO_ctor :: "real \<Rightarrow> DiffusionTDO" where
  "DiffusionTDO_ctor dg_sigma =
     \<lparr>df_dt = 0, df_dg_sigma = dg_sigma, df_dtNuCoef = 0,
      df_M = None, df_amg = None, df_solver = None\<rparr>"

text \<open>The three \<^verbatim>\<open>if\<close> blocks of \<^verbatim>\<open>initSolver\<close>, in the order of the source.\<close>

definition initSolver_newM :: "real \<Rightarrow> DiffusionTDO \<Rightarrow> bool" where
  "initSolver_newM dt this = (\<bar>dt - df_dt this\<bar> > 0.0001 * dt)"

definition initSolver_matrix :: "real \<Rightarrow> DiffusionTDO \<Rightarrow> DiffusionTDO \<times> call list" where
  "initSolver_matrix dt this =
     (if initSolver_newM dt this
      then (this\<lparr>df_dt := dt, df_dtNuCoef := dt, df_M := Some dt\<rparr>,
            [(''dtNuCoef_'', ''SetAConst''), (''m_'', ''Assemble''), (''m_'', ''Finalize'')]
            @ (if df_M this \<noteq> None then [(''M_'', ''delete'')] else [])
            @ [(''M_'', ''= m_.ParallelAssemble()'')])
      else (this, []))"

definition initSolver_amg :: "bool \<Rightarrow> DiffusionTDO \<Rightarrow> error + (DiffusionTDO \<times> call list)" where
  "initSolver_amg newM this =
     (if df_amg this = None \<or> newM
      then (case df_M this of
              None \<Rightarrow> Inl NullPointer
            | Some m \<Rightarrow>
                Inr (this\<lparr>df_amg := Some m\<rparr>,
                     (if df_amg this \<noteq> None then [(''amg_'', ''delete'')] else [])
                     @ [(''amg_'', ''= new HypreBoomerAMG(*M_)'')]))
      else Inr (this, []))"

definition initSolver_solver :: "bool \<Rightarrow> DiffusionTDO \<Rightarrow> error + (DiffusionTDO \<times> call list)" where
  "initSolver_solver newM this =
     (if df_solver this = None \<or> newM
      then (case (df_M this, df_amg this) of
              (Some m, Some p) \<Rightarrow>
                (if df_dg_sigma this = - 1
                 then Inr (this\<lparr>df_solver := Some (HyprePCG, m)\<rparr>,
                           (if df_solver this \<noteq> None then [(''solver_'', ''delete'')] else [])
                           @ [(''solver_'', ''= new HyprePCG(*M_)'')])
                 else Inr (this\<lparr>df_solver := Some (HypreGMRES, m)\<rparr>,
                           (if df_solver this \<noteq> None then [(''solver_'', ''delete'')] else [])
                           @ [(''solver_'', ''= new HypreGMRES(*M_)'')]))
            | _ \<Rightarrow> Inl NullPointer)
      else Inr (this, []))"

definition DiffusionTDO_initSolver ::
  "real \<Rightarrow> DiffusionTDO \<Rightarrow> error + (DiffusionTDO \<times> call list)" where
  "DiffusionTDO_initSolver dt this =
     (let newM = initSolver_newM dt this;
          (this, calls1) = initSolver_matrix dt this
      in case initSolver_amg newM this of
           Inl e \<Rightarrow> Inl e
         | Inr (this, calls2) \<Rightarrow>
             (case initSolver_solver newM this of
                Inl e \<Rightarrow> Inl e
              | Inr (this, calls3) \<Rightarrow> Inr (this, calls1 @ calls2 @ calls3)))"

text \<open>
  \<^verbatim>\<open>M_\<close>, \<^verbatim>\<open>amg_\<close>, \<^verbatim>\<open>solver_\<close> and \<^verbatim>\<open>dt_\<close> are assigned in the constructor
  and in \<^verbatim>\<open>initSolver\<close> only, and \<^verbatim>\<open>ImplicitSolve\<close> calls \<^verbatim>\<open>initSolver(dt)\<close>
  at every step. The states an operator goes through are those of a run of calls
  of \<^verbatim>\<open>initSolver\<close>, one step size after the other; the run stops at the
  first call that fails.
\<close>

fun initSolver_steps :: "real list \<Rightarrow> DiffusionTDO \<Rightarrow> error + DiffusionTDO" where
  "initSolver_steps [] this = Inr this"
| "initSolver_steps (dt # dts) this =
     (case DiffusionTDO_initSolver dt this of
        Inl e \<Rightarrow> Inl e
      | Inr (this', calls) \<Rightarrow> initSolver_steps dts this')"

section \<open>The operators of DGTransportTDO (transport\_solver.cpp)\<close>

subsection \<open>NLOperator, the base class of the per-species operators\<close>

text \<open>
  \<^verbatim>\<open>y1Coef_\<close> is the array of the sum coefficients \<open>y + beta * k\<close>, each held as
  its \<open>beta\<close> (\<^verbatim>\<open>SetBeta\<close> stores it); \<^verbatim>\<open>blf_\<close> is the array of the five
  gradient forms. The operator reads the sizes of its space \<^verbatim>\<open>fes_\<close> as they are
  at the call.
\<close>

record NLOperator = Operator +
  nl_dt :: real
  nl_y1Coef :: "real list"
  nl_blf :: "ptr list"

definition NLOperator_SetTimeStep ::
  "real \<Rightarrow> 'a NLOperator_scheme \<Rightarrow> error + 'a NLOperator_scheme" where
  "NLOperator_SetTimeStep dt this =
     (if length (nl_y1Coef this) < 5 then Inl OutOfBounds
      else Inr (this\<lparr>nl_dt := dt,
                     nl_y1Coef := fold (\<lambda>i y1Coef. y1Coef[i := dt]) [0..<5] (nl_y1Coef this)\<rparr>))"

definition blf_name :: "nat \<Rightarrow> string" where
  "blf_name i = [''blf_[0]'', ''blf_[1]'', ''blf_[2]'', ''blf_[3]'', ''blf_[4]''] ! i"

definition NLOperator_Update ::
  "ParFiniteElementSpace \<Rightarrow> 'a NLOperator_scheme \<Rightarrow> error + ('a NLOperator_scheme \<times> call list)" where
  "NLOperator_Update fes this =
     (if length (nl_blf this) < 5 then Inl OutOfBounds
      else Inr (this\<lparr>height := VSize fes, width := 5 * VSize fes\<rparr>,
                concat (map (\<lambda>i. if nl_blf this ! i \<noteq> None then [(blf_name i, ''Update'')] else [])
                            [0..<5])))"

text \<open>A grid function behind a pointer is updated when the pointer is not null.\<close>

definition Update_if :: "ptr \<Rightarrow> string \<Rightarrow> call list" where
  "Update_if p name = (if p \<noteq> None then [(name, ''Update'')] else [])"

subsection \<open>The five per-species operators\<close>

text \<open>
  Each record adds the product coefficients \<^verbatim>\<open>SetTimeStep\<close> rescales, held as
  their scalar factor, and the grid functions the operator owns.
\<close>

record NeutralDensityOp = NLOperator +
  nd_dtDCoef :: real
  nd_dtdSizdnnCoef :: real
  nd_dtdSizdniCoef :: real
  nd_DGF :: ptr
  nd_SGF :: ptr

definition NeutralDensityOp_SetTimeStep :: "real \<Rightarrow> NeutralDensityOp \<Rightarrow> error + NeutralDensityOp" where
  "NeutralDensityOp_SetTimeStep dt this =
     (case NLOperator_SetTimeStep dt this of
        Inl e \<Rightarrow> Inl e
      | Inr this \<Rightarrow>
          Inr (this\<lparr>nd_dtDCoef := dt, nd_dtdSizdnnCoef := dt, nd_dtdSizdniCoef := dt\<rparr>))"

definition NeutralDensityOp_Update ::
  "ParFiniteElementSpace \<Rightarrow> NeutralDensityOp \<Rightarrow> error + (NeutralDensityOp \<times> call list)" where
  "NeutralDensityOp_Update fes this =
     (case NLOperator_Update fes this of
        Inl e \<Rightarrow> Inl e
      | Inr (this, calls) \<Rightarrow>
          Inr (this, calls @ Update_if (nd_DGF this) ''DGF_'' @ Update_if (nd_SGF this) ''SGF_''))"

record IonDensityOp = NLOperator +
  id_dtDCoef :: real
  id_ViCoef_dt :: real
  id_dtViCoef :: real
  id_negdtdSizdnnCoef :: real
  id_negdtdSizdniCoef :: real
  id_DPerpGF :: ptr
  id_AGF :: ptr
  id_SGF :: ptr

definition IonDensityOp_SetTimeStep :: "real \<Rightarrow> IonDensityOp \<Rightarrow> error + IonDensityOp" where
  "IonDensityOp_SetTimeStep dt this =
     (case NLOperator_SetTimeStep dt this of
        Inl e \<Rightarrow> Inl e
      | Inr this \<Rightarrow>
          Inr (this\<lparr>id_dtDCoef := dt,
                    id_ViCoef_dt := dt,
                    id_dtViCoef := dt,
                    id_negdtdSizdnnCoef := - dt,
                    id_negdtdSizdniCoef := - dt\<rparr>))"

definition IonDensityOp_Update ::
  "ParFiniteElementSpace \<Rightarrow> IonDensityOp \<Rightarrow> error + (IonDensityOp \<times> call list)" where
  "IonDensityOp_Update fes this =
     (case NLOperator_Update fes this of
        Inl e \<Rightarrow> Inl e
      | Inr (this, calls) \<Rightarrow>
          Inr (this, calls @ Update_if (id_DPerpGF this) ''DPerpGF_''
                       @ Update_if (id_AGF this) ''AGF_''
                       @ Update_if (id_SGF this) ''SGF_''))"

record IonMomentumOp = NLOperator +
  im_dtEtaCoef :: real
  im_miniViCoef_dt :: real
  im_dtminiViCoef :: real
  im_EtaParaGF :: ptr
  im_EtaPerpGF :: ptr
  im_MomParaGF :: ptr
  im_SGF :: ptr

definition IonMomentumOp_SetTimeStep :: "real \<Rightarrow> IonMomentumOp \<Rightarrow> error + IonMomentumOp" where
  "IonMomentumOp_SetTimeStep dt this =
     (case NLOperator_SetTimeStep dt this of
        Inl e \<Rightarrow> Inl e
      | Inr this \<Rightarrow>
          Inr (this\<lparr>im_dtEtaCoef := dt, im_miniViCoef_dt := dt, im_dtminiViCoef := dt\<rparr>))"

definition IonMomentumOp_Update ::
  "ParFiniteElementSpace \<Rightarrow> IonMomentumOp \<Rightarrow> error + (IonMomentumOp \<times> call list)" where
  "IonMomentumOp_Update fes this =
     (case NLOperator_Update fes this of
        Inl e \<Rightarrow> Inl e
      | Inr (this, calls) \<Rightarrow>
          Inr (this, calls @ Update_if (im_EtaParaGF this) ''EtaParaGF_''
                       @ Update_if (im_EtaPerpGF this) ''EtaPerpGF_''
                       @ Update_if (im_MomParaGF this) ''MomParaGF_''
                       @ Update_if (im_SGF this) ''SGF_''))"

text \<open>
  The two pressure operators allocate \<^verbatim>\<open>ChiParaGF_\<close> and \<^verbatim>\<open>ChiPerpGF_\<close> in their
  constructors and update them without a test.
\<close>

record IonStaticPressureOp = NLOperator +
  ip_dtChiCoef :: real
  ip_ChiParaGF :: ptr
  ip_ChiPerpGF :: ptr

definition IonStaticPressureOp_SetTimeStep ::
  "real \<Rightarrow> IonStaticPressureOp \<Rightarrow> error + IonStaticPressureOp" where
  "IonStaticPressureOp_SetTimeStep dt this =
     (case NLOperator_SetTimeStep dt this of
        Inl e \<Rightarrow> Inl e
      | Inr this \<Rightarrow> Inr (this\<lparr>ip_dtChiCoef := dt\<rparr>))"

definition IonStaticPressureOp_Update ::
  "ParFiniteElementSpace \<Rightarrow> IonStaticPressureOp \<Rightarrow> error + (IonStaticPressureOp \<times> call list)" where
  "IonStaticPressureOp_Update fes this =
     (case NLOperator_Update fes this of
        Inl e \<Rightarrow> Inl e
      | Inr (this, calls) \<Rightarrow>
          (if ip_ChiParaGF this = None \<or> ip_ChiPerpGF this = None then Inl NullPointer
           else Inr (this, calls @ [(''ChiParaGF_'', ''Update''), (''ChiPerpGF_'', ''Update'')])))"

record ElectronStaticPressureOp = NLOperator +
  ep_grad_Te1Coef :: real
  ep_dtChiCoef :: real
  ep_dtdChiGradTCoef :: real
  ep_ChiParaGF :: ptr
  ep_ChiPerpGF :: ptr

definition ElectronStaticPressureOp_SetTimeStep ::
  "real \<Rightarrow> ElectronStaticPressureOp \<Rightarrow> error + ElectronStaticPressureOp" where
  "ElectronStaticPressureOp_SetTimeStep dt this =
     (case NLOperator_SetTimeStep dt this of
        Inl e \<Rightarrow> Inl e
      | Inr this \<Rightarrow>
          Inr (this\<lparr>ep_grad_Te1Coef := dt, ep_dtChiCoef := dt, ep_dtdChiGradTCoef := - dt\<rparr>))"

definition ElectronStaticPressureOp_Update ::
  "ParFiniteElementSpace \<Rightarrow> ElectronStaticPressureOp
     \<Rightarrow> error + (ElectronStaticPressureOp \<times> call list)" where
  "ElectronStaticPressureOp_Update fes this =
     (case NLOperator_Update fes this of
        Inl e \<Rightarrow> Inl e
      | Inr (this, calls) \<Rightarrow>
          (if ep_ChiParaGF this = None \<or> ep_ChiPerpGF this = None then Inl NullPointer
           else Inr (this, calls @ [(''ChiParaGF_'', ''Update''), (''ChiPerpGF_'', ''Update'')])))"

text \<open>
  An entry of \<^verbatim>\<open>op_\<close> points to one of the five operators or to a \<^verbatim>\<open>DummyOp\<close>,
  which adds no member and overrides neither function beyond the base class. The
  three functions below are the virtual calls.
\<close>

datatype species_op =
    NeutralDensity NeutralDensityOp
  | IonDensity IonDensityOp
  | IonMomentum IonMomentumOp
  | IonStaticPressure IonStaticPressureOp
  | ElectronStaticPressure ElectronStaticPressureOp
  | Dummy NLOperator

fun op_SetTimeStep :: "real \<Rightarrow> species_op \<Rightarrow> error + species_op" where
  "op_SetTimeStep dt (NeutralDensity x) = map_sum id NeutralDensity (NeutralDensityOp_SetTimeStep dt x)"
| "op_SetTimeStep dt (IonDensity x) = map_sum id IonDensity (IonDensityOp_SetTimeStep dt x)"
| "op_SetTimeStep dt (IonMomentum x) = map_sum id IonMomentum (IonMomentumOp_SetTimeStep dt x)"
| "op_SetTimeStep dt (IonStaticPressure x) =
     map_sum id IonStaticPressure (IonStaticPressureOp_SetTimeStep dt x)"
| "op_SetTimeStep dt (ElectronStaticPressure x) =
     map_sum id ElectronStaticPressure (ElectronStaticPressureOp_SetTimeStep dt x)"
| "op_SetTimeStep dt (Dummy x) = map_sum id Dummy (NLOperator_SetTimeStep dt x)"

fun op_Update :: "ParFiniteElementSpace \<Rightarrow> species_op \<Rightarrow> error + (species_op \<times> call list)" where
  "op_Update fes (NeutralDensity x) = map_sum id (map_prod NeutralDensity id) (NeutralDensityOp_Update fes x)"
| "op_Update fes (IonDensity x) = map_sum id (map_prod IonDensity id) (IonDensityOp_Update fes x)"
| "op_Update fes (IonMomentum x) = map_sum id (map_prod IonMomentum id) (IonMomentumOp_Update fes x)"
| "op_Update fes (IonStaticPressure x) =
     map_sum id (map_prod IonStaticPressure id) (IonStaticPressureOp_Update fes x)"
| "op_Update fes (ElectronStaticPressure x) =
     map_sum id (map_prod ElectronStaticPressure id) (ElectronStaticPressureOp_Update fes x)"
| "op_Update fes (Dummy x) = map_sum id (map_prod Dummy id) (NLOperator_Update fes x)"

fun op_Height :: "species_op \<Rightarrow> nat" where
  "op_Height (NeutralDensity x) = height x"
| "op_Height (IonDensity x) = height x"
| "op_Height (IonMomentum x) = height x"
| "op_Height (IonStaticPressure x) = height x"
| "op_Height (ElectronStaticPressure x) = height x"
| "op_Height (Dummy x) = height x"

text \<open>What the claims read of an operator, whatever its class.\<close>

fun op_Width :: "species_op \<Rightarrow> nat" where
  "op_Width (NeutralDensity x) = width x"
| "op_Width (IonDensity x) = width x"
| "op_Width (IonMomentum x) = width x"
| "op_Width (IonStaticPressure x) = width x"
| "op_Width (ElectronStaticPressure x) = width x"
| "op_Width (Dummy x) = width x"

fun op_dt :: "species_op \<Rightarrow> real" where
  "op_dt (NeutralDensity x) = nl_dt x"
| "op_dt (IonDensity x) = nl_dt x"
| "op_dt (IonMomentum x) = nl_dt x"
| "op_dt (IonStaticPressure x) = nl_dt x"
| "op_dt (ElectronStaticPressure x) = nl_dt x"
| "op_dt (Dummy x) = nl_dt x"

fun op_y1Coef :: "species_op \<Rightarrow> real list" where
  "op_y1Coef (NeutralDensity x) = nl_y1Coef x"
| "op_y1Coef (IonDensity x) = nl_y1Coef x"
| "op_y1Coef (IonMomentum x) = nl_y1Coef x"
| "op_y1Coef (IonStaticPressure x) = nl_y1Coef x"
| "op_y1Coef (ElectronStaticPressure x) = nl_y1Coef x"
| "op_y1Coef (Dummy x) = nl_y1Coef x"

fun op_blf :: "species_op \<Rightarrow> ptr list" where
  "op_blf (NeutralDensity x) = nl_blf x"
| "op_blf (IonDensity x) = nl_blf x"
| "op_blf (IonMomentum x) = nl_blf x"
| "op_blf (IonStaticPressure x) = nl_blf x"
| "op_blf (ElectronStaticPressure x) = nl_blf x"
| "op_blf (Dummy x) = nl_blf x"

text \<open>
  The product coefficients an operator owns whose factor \<^verbatim>\<open>SetTimeStep\<close> sets, by
  their names in the source, with their factors: first those set to \<open>dt\<close>, then
  those set to \<open>- dt\<close>.
\<close>

fun op_dt_coefs :: "species_op \<Rightarrow> (string \<times> real) list" where
  "op_dt_coefs (NeutralDensity x) =
     [(''dtDCoef_'', nd_dtDCoef x), (''dtdSizdnnCoef_'', nd_dtdSizdnnCoef x),
      (''dtdSizdniCoef_'', nd_dtdSizdniCoef x)]"
| "op_dt_coefs (IonDensity x) = [(''dtDCoef_'', id_dtDCoef x), (''dtViCoef_'', id_dtViCoef x)]"
| "op_dt_coefs (IonMomentum x) =
     [(''dtEtaCoef_'', im_dtEtaCoef x), (''dtminiViCoef_'', im_dtminiViCoef x)]"
| "op_dt_coefs (IonStaticPressure x) = [(''dtChiCoef_'', ip_dtChiCoef x)]"
| "op_dt_coefs (ElectronStaticPressure x) = [(''dtChiCoef_'', ep_dtChiCoef x)]"
| "op_dt_coefs (Dummy x) = []"

fun op_negdt_coefs :: "species_op \<Rightarrow> (string \<times> real) list" where
  "op_negdt_coefs (IonDensity x) =
     [(''negdtdSizdnnCoef_'', id_negdtdSizdnnCoef x), (''negdtdSizdniCoef_'', id_negdtdSizdniCoef x)]"
| "op_negdt_coefs (ElectronStaticPressure x) = [(''dtdChiGradTCoef_'', ep_dtdChiGradTCoef x)]"
| "op_negdt_coefs x = []"

text \<open>The grid functions an operator owns and has allocated, by name.\<close>

definition owned_if :: "ptr \<Rightarrow> string \<Rightarrow> string list" where
  "owned_if p name = (if p \<noteq> None then [name] else [])"

fun op_owned_gfs :: "species_op \<Rightarrow> string list" where
  "op_owned_gfs (NeutralDensity x) = owned_if (nd_DGF x) ''DGF_'' @ owned_if (nd_SGF x) ''SGF_''"
| "op_owned_gfs (IonDensity x) =
     owned_if (id_DPerpGF x) ''DPerpGF_'' @ owned_if (id_AGF x) ''AGF_'' @ owned_if (id_SGF x) ''SGF_''"
| "op_owned_gfs (IonMomentum x) =
     owned_if (im_EtaParaGF x) ''EtaParaGF_'' @ owned_if (im_EtaPerpGF x) ''EtaPerpGF_''
     @ owned_if (im_MomParaGF x) ''MomParaGF_'' @ owned_if (im_SGF x) ''SGF_''"
| "op_owned_gfs (IonStaticPressure x) =
     owned_if (ip_ChiParaGF x) ''ChiParaGF_'' @ owned_if (ip_ChiPerpGF x) ''ChiPerpGF_''"
| "op_owned_gfs (ElectronStaticPressure x) =
     owned_if (ep_ChiParaGF x) ''ChiParaGF_'' @ owned_if (ep_ChiPerpGF x) ''ChiPerpGF_''"
| "op_owned_gfs (Dummy x) = []"

text \<open>The gradient forms \<^verbatim>\<open>blf_[i]\<close> an operator has allocated, by name.\<close>

definition op_owned_forms :: "species_op \<Rightarrow> string list" where
  "op_owned_forms x =
     concat (map (\<lambda>i. if op_blf x ! i \<noteq> None then [blf_name i] else []) [0..<5])"

text \<open>
  The grid functions \<^verbatim>\<open>Update\<close> dereferences without a test are allocated: the
  constructors of the two pressure operators allocate them.
\<close>

fun op_gfs_allocated :: "species_op \<Rightarrow> bool" where
  "op_gfs_allocated (IonStaticPressure x) = (ip_ChiParaGF x \<noteq> None \<and> ip_ChiPerpGF x \<noteq> None)"
| "op_gfs_allocated (ElectronStaticPressure x) = (ep_ChiParaGF x \<noteq> None \<and> ep_ChiPerpGF x \<noteq> None)"
| "op_gfs_allocated x = True"

subsection \<open>CombinedOp\<close>

text \<open>
  Modelled from the spec: \<^verbatim>\<open>Array<int>::PartialSum\<close> is library code outside the two
  source files; the specification names \<^verbatim>\<open>offsets_[neq_]\<close> after it the partial sum
  of the heights, so each entry becomes the sum of the entries up to it.
\<close>

fun PartialSum_from :: "nat \<Rightarrow> nat list \<Rightarrow> nat list" where
  "PartialSum_from acc [] = []"
| "PartialSum_from acc (x # xs) = (acc + x) # PartialSum_from (acc + x) xs"

definition PartialSum :: "nat list \<Rightarrow> nat list" where
  "PartialSum xs = PartialSum_from 0 xs"

record CombinedOp = Operator +
  co_neq :: nat
  co_op :: "species_op list"
  co_offsets :: "nat list"

text \<open>The loop \<^verbatim>\<open>for (int i=0; i<neq_; i++) { op_[i]->SetTimeStep(dt); }\<close>.\<close>

fun ops_SetTimeStep :: "real \<Rightarrow> nat list \<Rightarrow> species_op list \<Rightarrow> error + species_op list" where
  "ops_SetTimeStep dt [] ops = Inr ops"
| "ops_SetTimeStep dt (i # rest) ops =
     (if length ops \<le> i then Inl OutOfBounds
      else (case op_SetTimeStep dt (ops ! i) of
              Inl e \<Rightarrow> Inl e
            | Inr x \<Rightarrow> ops_SetTimeStep dt rest (ops[i := x])))"

definition CombinedOp_SetTimeStep :: "real \<Rightarrow> CombinedOp \<Rightarrow> error + CombinedOp" where
  "CombinedOp_SetTimeStep dt this =
     (case ops_SetTimeStep dt [0..<co_neq this] (co_op this) of
        Inl e \<Rightarrow> Inl e
      | Inr ops \<Rightarrow> Inr (this\<lparr>co_op := ops\<rparr>))"

text \<open>The loop \<^verbatim>\<open>for (int i=0; i<neq_; i++) { op_[i]->Update(); }\<close>.\<close>

fun ops_Update ::
  "ParFiniteElementSpace \<Rightarrow> nat list \<Rightarrow> species_op list \<times> call list
     \<Rightarrow> error + (species_op list \<times> call list)" where
  "ops_Update fes [] (ops, calls) = Inr (ops, calls)"
| "ops_Update fes (i # rest) (ops, calls) =
     (if length ops \<le> i then Inl OutOfBounds
      else (case op_Update fes (ops ! i) of
              Inl e \<Rightarrow> Inl e
            | Inr (x, c) \<Rightarrow> ops_Update fes rest (ops[i := x], calls @ c)))"

definition CombinedOp_updateOffsets :: "CombinedOp \<Rightarrow> error + CombinedOp" where
  "CombinedOp_updateOffsets this =
     (if length (co_offsets this) < co_neq this + 1 \<or> length (co_op this) < co_neq this
      then Inl OutOfBounds
      else
       (let offsets = (co_offsets this)[0 := 0];
            offsets = fold (\<lambda>i offsets. offsets[i + 1 := op_Height (co_op this ! i)])
                        [0..<co_neq this] offsets;
            offsets = PartialSum offsets
        in Inr (this\<lparr>height := offsets ! co_neq this, width := offsets ! co_neq this,
                      co_offsets := offsets\<rparr>)))"

definition CombinedOp_Update ::
  "ParFiniteElementSpace \<Rightarrow> CombinedOp \<Rightarrow> error + (CombinedOp \<times> call list)" where
  "CombinedOp_Update fes this =
     (case ops_Update fes [0..<co_neq this] (co_op this, []) of
        Inl e \<Rightarrow> Inl e
      | Inr (ops, calls) \<Rightarrow>
          (case CombinedOp_updateOffsets (this\<lparr>co_op := ops\<rparr>) of
             Inl e \<Rightarrow> Inl e
           | Inr this \<Rightarrow> Inr (this, calls)))"

subsection \<open>DGTransportTDO\<close>

text \<open>
  \<^verbatim>\<open>yGF_\<close> and \<^verbatim>\<open>kGF_\<close> are arrays of grid functions; what \<^verbatim>\<open>ImplicitSolve\<close>
  changes of a grid function is the array its data pointer refers to, so each is
  held as that address, counted in doubles, \<open>0\<close> for \<^verbatim>\<open>NULL\<close>.
  \<^verbatim>\<open>BxyGF_\<close> and \<^verbatim>\<open>BzGF_\<close> are the two grid functions the operator allocates.
  \<open>tr_height\<close> and \<open>tr_width\<close> are the \<^verbatim>\<open>height\<close> and \<^verbatim>\<open>width\<close> the class
  inherits from \<^verbatim>\<open>Operator\<close>; they are fields of this record, since the member
  \<^verbatim>\<open>op_\<close> is an \<^verbatim>\<open>Operator\<close> with a height and a width of its own.
\<close>

record DGTransportTDO =
  tr_height :: nat
  tr_width :: nat
  tr_yGF :: "nat list"
  tr_kGF :: "nat list"
  tr_offsets :: "nat list"
  tr_op :: CombinedOp
  tr_BxyGF :: ptr
  tr_BzGF :: ptr

text \<open>
  The loop \<^verbatim>\<open>for (int i=0; i<offsets_.Size() - 1; i++) { GF[i]->MakeRef(&fes_, data + offsets_[i]); }\<close>:
  it reads \<^verbatim>\<open>GF[i]\<close> for every \<open>i\<close> below \<open>offsets_.Size() - 1\<close>.
\<close>

definition MakeRef_loop :: "nat list \<Rightarrow> nat \<Rightarrow> nat list \<Rightarrow> error + nat list" where
  "MakeRef_loop offsets data GF =
     (if length GF < length offsets - 1 then Inl OutOfBounds
      else Inr (fold (\<lambda>i GF. GF[i := data + offsets ! i]) [0..<length offsets - 1] GF))"

text \<open>
  \<^verbatim>\<open>ImplicitSolve\<close>. The arguments \<open>y\<close> and \<open>k\<close> are the addresses of the data of
  the two vectors. Between the two pairs of loops the Newton solver runs: it is
  library code that calls back into \<^verbatim>\<open>CombinedOp::Mult\<close> and the gradient, which
  re-point the grid functions themselves, so it is a parameter \<open>newton\<close> acting
  on the two arrays of bindings. The result is the operator on return together
  with the bindings the Newton solver started from. The exchanges of face
  neighbour data and the logging re-point nothing and are left out.
\<close>

definition DGTransportTDO_ImplicitSolve ::
  "(nat list \<times> nat list \<Rightarrow> nat list \<times> nat list) \<Rightarrow> real \<Rightarrow> nat \<Rightarrow> nat \<Rightarrow> DGTransportTDO
     \<Rightarrow> error + (DGTransportTDO \<times> (nat list \<times> nat list))" where
  "DGTransportTDO_ImplicitSolve newton dt y k this =
     (if tr_yGF this = [] \<or> tr_kGF this = [] then Inl OutOfBounds
      else
       (let prev_y = tr_yGF this ! 0 in
        case MakeRef_loop (tr_offsets this) y (tr_yGF this) of
          Inl e \<Rightarrow> Inl e
        | Inr yGF \<Rightarrow>
       (let prev_k = tr_kGF this ! 0 in
        case MakeRef_loop (tr_offsets this) k (tr_kGF this) of
          Inl e \<Rightarrow> Inl e
        | Inr kGF \<Rightarrow>
       (case CombinedOp_SetTimeStep dt (tr_op this) of
          Inl e \<Rightarrow> Inl e
        | Inr op \<Rightarrow>
       (let during = (yGF, kGF);
            (yGF, kGF) = newton during in
        case MakeRef_loop (tr_offsets this) prev_y yGF of
          Inl e \<Rightarrow> Inl e
        | Inr yGF \<Rightarrow>
       (case MakeRef_loop (tr_offsets this) prev_k kGF of
          Inl e \<Rightarrow> Inl e
        | Inr kGF \<Rightarrow>
            Inr (this\<lparr>tr_yGF := yGF, tr_kGF := kGF, tr_op := op\<rparr>, during)))))))"

text \<open>
  \<^verbatim>\<open>Update\<close> reads the size of \<^verbatim>\<open>ffes_\<close>; the operators below read the sizes of
  the scalar space \<^verbatim>\<open>fes_\<close>.
\<close>

definition DGTransportTDO_Update ::
  "ParFiniteElementSpace \<Rightarrow> ParFiniteElementSpace \<Rightarrow> DGTransportTDO
     \<Rightarrow> error + (DGTransportTDO \<times> call list)" where
  "DGTransportTDO_Update ffes fes this =
     (let this = this\<lparr>tr_height := VSize ffes, tr_width := VSize ffes\<rparr> in
      if tr_BxyGF this = None \<or> tr_BzGF this = None then Inl NullPointer
      else (case CombinedOp_Update fes (tr_op this) of
              Inl e \<Rightarrow> Inl e
            | Inr (op, calls) \<Rightarrow>
                Inr (this\<lparr>tr_op := op\<rparr>,
                     [(''BxyGF_'', ''Update''), (''BzGF_'', ''Update'')] @ calls
                     @ [(''newton_solver_'', ''SetOperator'')])))"

subsection \<open>An example of the five operators\<close>

text \<open>
  A \<^verbatim>\<open>CombinedOp\<close> over a space of 8 unknowns with the five physical operators, as
  their constructors leave them when no field is visualised: \<^verbatim>\<open>dt_\<close> and every
  factor are \<open>0\<close>, each operator has allocated two of its gradient forms, the two
  pressure operators their two grid functions. The addresses are arbitrary, and so
  is the initial \<open>beta\<close> of the sum coefficients, which the library chooses.
\<close>

definition example_CombinedOp :: CombinedOp where
  "example_CombinedOp =
     \<lparr>height = 40, width = 40, co_neq = 5,
      co_op =
        [NeutralDensity
           \<lparr>height = 8, width = 40, nl_dt = 0, nl_y1Coef = [1, 1, 1, 1, 1],
            nl_blf = [Some 10, Some 11, None, None, None],
            nd_dtDCoef = 0, nd_dtdSizdnnCoef = 0, nd_dtdSizdniCoef = 0,
            nd_DGF = None, nd_SGF = None\<rparr>,
         IonDensity
           \<lparr>height = 8, width = 40, nl_dt = 0, nl_y1Coef = [1, 1, 1, 1, 1],
            nl_blf = [Some 20, Some 21, None, None, None],
            id_dtDCoef = 0, id_ViCoef_dt = 0, id_dtViCoef = 0,
            id_negdtdSizdnnCoef = 0, id_negdtdSizdniCoef = 0,
            id_DPerpGF = None, id_AGF = None, id_SGF = None\<rparr>,
         IonMomentum
           \<lparr>height = 8, width = 40, nl_dt = 0, nl_y1Coef = [1, 1, 1, 1, 1],
            nl_blf = [None, Some 31, Some 32, None, None],
            im_dtEtaCoef = 0, im_miniViCoef_dt = 0, im_dtminiViCoef = 0,
            im_EtaParaGF = None, im_EtaPerpGF = None, im_MomParaGF = None, im_SGF = None\<rparr>,
         IonStaticPressure
           \<lparr>height = 8, width = 40, nl_dt = 0, nl_y1Coef = [1, 1, 1, 1, 1],
            nl_blf = [None, Some 41, None, Some 43, None],
            ip_dtChiCoef = 0, ip_ChiParaGF = Some 45, ip_ChiPerpGF = Some 46\<rparr>,
         ElectronStaticPressure
           \<lparr>height = 8, width = 40, nl_dt = 0, nl_y1Coef = [1, 1, 1, 1, 1],
            nl_blf = [None, Some 51, None, None, Some 54],
            ep_grad_Te1Coef = 0, ep_dtChiCoef = 0, ep_dtdChiGradTCoef = 0,
            ep_ChiParaGF = Some 55, ep_ChiPerpGF = Some 56\<rparr>],
      co_offsets = [0, 8, 16, 24, 32, 40]\<rparr>"

subsection \<open>An example DGTransportTDO\<close>

text \<open>
  The five grid functions of \<^verbatim>\<open>yGF_\<close> refer to the blocks of one vector at
  address 100, but for the last, which has an array of its own at 500; the grid
  functions of \<^verbatim>\<open>kGF_\<close> have no data yet (the case the source tests with
  \<^verbatim>\<open>prev_k != NULL\<close>).
\<close>

definition example_DGTransportTDO :: DGTransportTDO where
  "example_DGTransportTDO =
     \<lparr>tr_height = 40, tr_width = 40,
      tr_yGF = [100, 108, 116, 124, 500],
      tr_kGF = [0, 0, 0, 0, 0],
      tr_offsets = [0, 8, 16, 24, 32, 40],
      tr_op = example_CombinedOp,
      tr_BxyGF = Some 60, tr_BzGF = Some 61\<rparr>"

section \<open>The ex1lor driver (ex1lor.cpp)\<close>

text \<open>
  The variables that \<^verbatim>\<open>main\<close> registers with the option parser, as they stand
  after \<^verbatim>\<open>args.Parse()\<close>.
\<close>

record options =
  mesh_file :: string
  order :: int
  static_cond :: bool
  pa :: bool
  device_config :: string
  visualization :: bool
  pc_type :: string
  pc_storage_opt :: string
  pc_acc :: real
  pc_max_bs :: int

text \<open>The initial values of the variables in \<^verbatim>\<open>main\<close>.\<close>

definition default_options :: options where
  "default_options =
     \<lparr>mesh_file = ''../../data/beam-hex.mesh'',
      order = 2,
      static_cond = False,
      pa = True,
      device_config = ''cpu'',
      visualization = True,
      pc_type = ''gko:bj'',
      pc_storage_opt = ''auto'',
      pc_acc = 0.1,
      pc_max_bs = 32\<rparr>"

text \<open>\<^verbatim>\<open>bool output_mesh = false;\<close>: no option is registered for it and nothing assigns it.\<close>

definition output_mesh :: bool where
  "output_mesh = False"

text \<open>
  The outcome of \<^verbatim>\<open>args.Parse()\<close>: \<^verbatim>\<open>args.Good()\<close> fails, or the variables hold
  the parsed values.
\<close>

datatype parse_result = ParseError | Parsed options

text \<open>
  What \<^verbatim>\<open>main\<close> reads of the mesh, which the library computes: the number of
  passes of the refinement loop of step 4 (none when the computed \<^verbatim>\<open>ref_levels\<close> is
  not positive), and whether \<^verbatim>\<open>mesh->GetNodes()\<close> is non-null.
\<close>

record mesh_info =
  ref_levels :: nat
  has_nodes :: bool

datatype PCType = NONE | GKO_BLOCK_JACOBI | GKO_ILU | MFEM_GS

datatype preconditioner =
    GinkgoJacobiPreconditioner string real int
  | GinkgoIluPreconditioner
  | GSSmoother

text \<open>
  What \<^verbatim>\<open>main\<close> asks of the library and prints, in order, with the arguments that
  come from the options. \<^verbatim>\<open>args.PrintOptions(cout)\<close> is called on the parser that
  holds every registered variable. Every \<^verbatim>\<open>create()\<close> of an executor and every
  \<^verbatim>\<open>new H1_FECollection\<close>, with its order, is an event. The list of essential
  boundary dofs, the coefficients and integrators, the lines printed from values
  of the library (basis, device, sizes, times and iteration counts) and the
  \<^verbatim>\<open>delete\<close>s at the end are not recorded. \<^verbatim>\<open>mfem_error\<close> is library code; the call is
  recorded with its message, and the \<^verbatim>\<open>return 3\<close> that follows it in \<^verbatim>\<open>main\<close> is
  modelled as written.
\<close>

datatype event =
    PrintUsage
  | PrintOptions options
  | mfem_error string
  | CreateExecutor string
  | ConfigureDevice string
  | ReadMesh string
  | UniformRefinement
  | H1_FECollection int
  | OwnFEC
  | NewFiniteElementSpace
  | NewLORMesh int
  | AssembleLinearForm
  | SetAssemblyLevelPartial
  | EnableStaticCondensation
  | AssembleBilinearForm
  | FormLinearSystem
  | AssembleLORMatrix
  | NewPreconditioner preconditioner
  | pcg_solve preconditioner
  | cg_solve
  | RecoverFEMSolution
  | WriteFile string
  | SocketSend string int

text \<open>
  The chain of \<^verbatim>\<open>strcmp\<close> tests on \<^verbatim>\<open>pc_type\<close>: the choice and the flag \<^verbatim>\<open>pc\<close>,
  or \<open>None\<close> for the last \<^verbatim>\<open>else\<close>.
\<close>

definition select_pc :: "string \<Rightarrow> (PCType \<times> bool) option" where
  "select_pc t =
     (if t = ''gko:bj'' then Some (GKO_BLOCK_JACOBI, True)
      else if t = ''gko:ilu'' then Some (GKO_ILU, True)
      else if t = ''mfem:gs'' then Some (MFEM_GS, True)
      else if t = ''none'' then Some (NONE, False)
      else None)"

text \<open>Step 5: the collection, and the value of \<^verbatim>\<open>order\<close> afterwards.\<close>

definition choose_fec :: "mesh_info \<Rightarrow> int \<Rightarrow> event list \<times> int" where
  "choose_fec mesh ord =
     (if ord > 0 then ([H1_FECollection ord], ord)
      else if has_nodes mesh then ([OwnFEC], ord)
      else ([H1_FECollection 1], 1))"

text \<open>Step 11: the solve, by the choice of preconditioner.\<close>

definition solve :: "options \<Rightarrow> PCType \<Rightarrow> bool \<Rightarrow> event list" where
  "solve opts pc_choice pc =
     (if pc then
        [AssembleLORMatrix]
        @ (if pc_choice = GKO_BLOCK_JACOBI then
             [NewPreconditioner
                (GinkgoJacobiPreconditioner (pc_storage_opt opts) (pc_acc opts) (pc_max_bs opts)),
              pcg_solve
                (GinkgoJacobiPreconditioner (pc_storage_opt opts) (pc_acc opts) (pc_max_bs opts))]
           else if pc_choice = GKO_ILU then
             [NewPreconditioner GinkgoIluPreconditioner, pcg_solve GinkgoIluPreconditioner]
           else if pc_choice = MFEM_GS then
             [NewPreconditioner GSSmoother, pcg_solve GSSmoother]
           else [])
      else [cg_solve])"

text \<open>Steps 13 and 14: the files and the socket.\<close>

definition save_and_send :: "options \<Rightarrow> bool \<Rightarrow> event list" where
  "save_and_send opts pc =
     (if output_mesh then
        [WriteFile ''refined.mesh'', WriteFile ''sol.gf'']
        @ (if pc then [WriteFile ''lor-refined.mesh'', WriteFile ''lor-mat.dat''] else [])
      else [])
     @ (if visualization opts then [SocketSend ''localhost'' 19916] else [])"

text \<open>\<^verbatim>\<open>main\<close>: the value it returns and what it did.\<close>

definition main :: "mesh_info \<Rightarrow> parse_result \<Rightarrow> int \<times> event list" where
  "main mesh parsed =
     (case parsed of
        ParseError \<Rightarrow> (1, [PrintUsage])
      | Parsed opts \<Rightarrow>
          (case select_pc (pc_type opts) of
             None \<Rightarrow> (3, [PrintOptions opts, mfem_error ''Invalid Preconditioner specified''])
           | Some (pc_choice, pc) \<Rightarrow>
               (let (fec, ord) = choose_fec mesh (order opts) in
                (0,
                 [PrintOptions opts, CreateExecutor ''omp'']
                 @ (if device_config opts = ''cuda''
                    then [CreateExecutor ''omp'', CreateExecutor ''cuda''] else [])
                 @ [ConfigureDevice (device_config opts), ReadMesh (mesh_file opts)]
                 @ replicate (ref_levels mesh) UniformRefinement
                 @ fec
                 @ [NewFiniteElementSpace]
                 @ (if pc then [NewLORMesh ord, H1_FECollection 1, NewFiniteElementSpace] else [])
                 @ [AssembleLinearForm]
                 @ (if pa opts then [SetAssemblyLevelPartial] else [])
                 @ (if static_cond opts then [EnableStaticCondensation] else [])
                 @ [AssembleBilinearForm, FormLinearSystem]
                 @ solve opts pc_choice pc
                 @ [RecoverFEMSolution]
                 @ save_and_send opts pc))))"

section \<open>Properties of the loops\<close>

lemma fold_add_sum:
  "fold (\<lambda>d acc. acc + f d) [0..<n] (a::real) = a + (\<Sum>d<n. f d)"
  by (induction n arbitrary: a) (simp_all add: add.assoc)

lemma fold_update_length:
  "length (fold (\<lambda>d v. v[g d := h d]) xs v0) = length v0"
  by (induction xs arbitrary: v0) simp_all

lemma fold_update_shift_nth:
  "(fold (\<lambda>d v. v[c + d := h d]) [0..<n] v0) ! k =
     (if c \<le> k \<and> k < c + n \<and> k < length v0 then h (k - c) else v0 ! k)"
proof (induction n)
  case 0
  then show ?case by auto
next
  case (Suc n)
  let ?w = "fold (\<lambda>d v. v[c + d := h d]) [0..<n] v0"
  have len: "length ?w = length v0"
    by (rule fold_update_length)
  have step: "fold (\<lambda>d v. v[c + d := h d]) [0..<Suc n] v0 = ?w[c + n := h n]"
    by simp
  show ?case
  proof (cases "k = c + n \<and> k < length v0")
    case True
    then show ?thesis
      using len by (simp add: step)
  next
    case False
    then have "(?w[c + n := h n]) ! k = ?w ! k"
      using len by (cases "k = c + n") (simp_all add: list_update_beyond)
    with False Suc show ?thesis
      by (auto simp: step)
  qed
qed


lemma fold_update_nth:
  "(fold (\<lambda>d v. v[d := h d]) [0..<n] v0) ! k =
     (if k < n \<and> k < length v0 then h k else v0 ! k)"
  using fold_update_shift_nth [of 0 h n v0 k] by simp

lemma ComputeFluxDotN_length:
  "length (ComputeFluxDotN state nor g fluxN) = length fluxN"
  by (simp add: ComputeFluxDotN_def Let_def fold_update_length)

lemma ComputeFluxDotN_nth:
  assumes "k < length nor + 2" "length nor + 2 \<le> length fluxN"
  shows "ComputeFluxDotN state nor g fluxN ! k = FluxDotN_entry state nor g k"
proof -
  let ?n = "length nor"
  let ?vN = "fold (\<lambda>d acc. acc + den_vel state d * nor ! d) [0..<?n] 0"
  let ?p = "ComputePressure state ?n g"
  let ?h = "\<lambda>d. ?vN * den_vel state d / state ! 0 + ?p * nor ! d"
  let ?v1 = "fluxN[0 := ?vN]"
  let ?v2 = "fold (\<lambda>d (v::Vector). v[1 + d := ?h d]) [0..<?n] ?v1"
  have vN: "?vN = den_velN state nor"
    by (simp add: fold_add_sum den_velN_def)
  have unfold: "ComputeFluxDotN state nor g fluxN =
      ?v2[1 + ?n := ?vN * ((state ! (1 + ?n) + ?p) / state ! 0)]"
    by (simp add: ComputeFluxDotN_def Let_def)
  have len2: "length ?v2 = length fluxN"
    by (simp add: fold_update_length)
  have mid: "?v2 ! k = (if 1 \<le> k \<and> k < 1 + ?n \<and> k < length ?v1 then ?h (k - 1) else ?v1 ! k)"
    by (rule fold_update_shift_nth)
  have pos: "0 < length fluxN"
    using assms(2) by linarith
  show ?thesis
  proof (cases "k = 1 + ?n")
    case True
    then show ?thesis
      using assms len2 by (simp add: unfold FluxDotN_entry_def vN)
  next
    case False
    then have "ComputeFluxDotN state nor g fluxN ! k = ?v2 ! k"
      by (simp add: unfold)
    also have "\<dots> = FluxDotN_entry state nor g k"
      using False assms mid pos by (cases "k = 0") (auto simp: FluxDotN_entry_def vN)
    finally show ?thesis .
  qed
qed

lemma fold_set_entry_rows:
  "fold (\<lambda>i F. set_entry F (1 + i) d (h i)) [0..<n] F0 =
     (\<lambda>r c. if c = d \<and> 1 \<le> r \<and> r < 1 + n then h (r - 1) else F0 r c)"
proof (induction n)
  case 0
  then show ?case by (auto simp: fun_eq_iff)
next
  case (Suc n)
  let ?f = "\<lambda>i F. set_entry F (1 + i) d (h i)"
  have "fold ?f [0..<Suc n] F0 = ?f n (fold ?f [0..<n] F0)"
    by simp
  also have "\<dots> = ?f n (\<lambda>r c. if c = d \<and> 1 \<le> r \<and> r < 1 + n then h (r - 1) else F0 r c)"
    by (simp only: Suc)
  also have "\<dots> = (\<lambda>r c. if c = d \<and> 1 \<le> r \<and> r < 1 + Suc n then h (r - 1) else F0 r c)"
    by (auto simp: set_entry_def fun_eq_iff)
  finally show ?case .
qed

lemma fold_set_entry_row:
  "fold (\<lambda>d F. set_entry F r0 d (h d)) [0..<n] F0 =
     (\<lambda>r c. if r = r0 \<and> c < n then h c else F0 r c)"
proof (induction n)
  case 0
  then show ?case by (auto simp: fun_eq_iff)
next
  case (Suc n)
  let ?f = "\<lambda>d F. set_entry F r0 d (h d)"
  have "fold ?f [0..<Suc n] F0 = ?f n (fold ?f [0..<n] F0)"
    by simp
  also have "\<dots> = ?f n (\<lambda>r c. if r = r0 \<and> c < n then h c else F0 r c)"
    by (simp only: Suc)
  also have "\<dots> = (\<lambda>r c. if r = r0 \<and> c < Suc n then h c else F0 r c)"
    by (auto simp: set_entry_def fun_eq_iff)
  finally show ?case .
qed

lemma fold_columns:
  assumes "m \<le> n"
  shows "fold (\<lambda>d F.
            set_entry (fold (\<lambda>i F. set_entry F (1 + i) d (b i d)) [0..<n] (set_entry F 0 d (a d)))
              (1 + d) d
              (fold (\<lambda>i F. set_entry F (1 + i) d (b i d)) [0..<n] (set_entry F 0 d (a d)) (1 + d) d + p))
          [0..<m] F0 =
         (\<lambda>r c. if c < m \<and> r \<le> n
                then (if r = 0 then a c else b (r - 1) c + (if r = 1 + c then p else 0))
                else F0 r c)"
  using assms
proof (induction m)
  case 0
  then show ?case by (auto simp: fun_eq_iff)
next
  case (Suc m)
  then have le: "m \<le> n" and lt: "m < n" by simp_all
  let ?f = "\<lambda>d F.
            set_entry (fold (\<lambda>i F. set_entry F (1 + i) d (b i d)) [0..<n] (set_entry F 0 d (a d)))
              (1 + d) d
              (fold (\<lambda>i F. set_entry F (1 + i) d (b i d)) [0..<n] (set_entry F 0 d (a d)) (1 + d) d + p)"
  let ?G = "\<lambda>m r c. if c < m \<and> r \<le> n
                then (if r = 0 then a c else b (r - 1) c + (if r = 1 + c then p else 0))
                else F0 r c"
  have "fold ?f [0..<Suc m] F0 = ?f m (fold ?f [0..<m] F0)"
    by simp
  also have "\<dots> = ?f m (?G m)"
    by (simp only: Suc.IH [OF le])
  also have "\<dots> = ?G (Suc m)"
    using lt by (simp only: fold_set_entry_rows) (auto simp: set_entry_def fun_eq_iff)
  finally show ?case .
qed

lemma ComputeFlux_eq:
  "ComputeFlux state sdim g F0 =
     (\<lambda>r c. if r = 1 + sdim \<and> c < sdim
            then den_vel state c * ((state ! (1 + sdim) + ComputePressure state sdim g) / state ! 0)
            else if c < sdim \<and> r \<le> sdim
            then (if r = 0 then den_vel state c
                  else den_vel state (r - 1) * den_vel state c / state ! 0
                       + (if r = 1 + c then ComputePressure state sdim g else 0))
            else F0 r c)"
  unfolding ComputeFlux_def Let_def
  by (simp only: fold_columns [OF order_refl] fold_set_entry_row)

lemma ComputeFlux_entry:
  assumes "k < sdim + 2" "d < sdim"
  shows "ComputeFlux state sdim g F0 k d = Flux_entry state sdim g k d"
  using assms by (auto simp add: ComputeFlux_eq Flux_entry_def)

lemma Flux_contract:
  assumes "k < length nor + 2"
  shows "(\<Sum>d<length nor. Flux_entry state (length nor) g k d * nor ! d) = FluxDotN_entry state nor g k"
proof -
  let ?n = "length nor"
  consider "k = 0" | "1 \<le> k \<and> k \<le> ?n" | "k = ?n + 1"
    using assms by linarith
  then show ?thesis
  proof cases
    case 1
    then show ?thesis
      by (simp add: Flux_entry_def FluxDotN_entry_def den_velN_def)
  next
    case 2
    let ?p = "ComputePressure state ?n g"
    have "(\<Sum>d<?n. Flux_entry state ?n g k d * nor ! d) =
          (\<Sum>d<?n. den_vel state (k - 1) / state ! 0 * (den_vel state d * nor ! d)
                     + (if d = k - 1 then ?p * nor ! d else 0))"
      using 2 by (intro sum.cong) (auto simp: Flux_entry_def algebra_simps)
    also have "\<dots> = den_vel state (k - 1) / state ! 0 * den_velN state nor
                     + (\<Sum>d<?n. if d = k - 1 then ?p * nor ! d else 0)"
      by (simp add: sum.distrib sum_distrib_left den_velN_def)
    also have "(\<Sum>d<?n. if d = k - 1 then ?p * nor ! d else 0) = ?p * nor ! (k - 1)"
    proof -
      have "k - 1 < ?n"
        using 2 by linarith
      then show ?thesis
        by (simp add: sum.delta)
    qed
    finally show ?thesis
      using 2 by (simp add: FluxDotN_entry_def)
  next
    case 3
    let ?H = "(state ! (1 + ?n) + ComputePressure state ?n g) / state ! 0"
    have "(\<Sum>d<?n. Flux_entry state ?n g k d * nor ! d) =
          (\<Sum>d<?n. (den_vel state d * nor ! d) * ?H)"
      using 3 by (intro sum.cong) (simp_all add: Flux_entry_def)
    also have "\<dots> = den_velN state nor * ?H"
      by (simp only: sum_distrib_right den_velN_def)
    finally show ?thesis
      using 3 by (simp add: FluxDotN_entry_def)
  qed
qed

section \<open>The Riemann solver\<close>

lemma ComputeMaxCharSpeed_spec:
  "ComputeMaxCharSpeed state sdim g = spec_char_speed state sdim g"
proof -
  have "(\<Sum>d<sdim. den_vel state d * den_vel state d) / state ! 0 / state ! 0 =
        (\<Sum>d<sdim. (den_vel state d / state ! 0)\<^sup>2)"
    by (simp add: sum_divide_distrib power2_eq_square)
  then show ?thesis
    by (simp add: ComputeMaxCharSpeed_def spec_char_speed_def Let_def fold_add_sum)
qed

lemma spec_flux_dot_nor_entry:
  assumes "i < length nor + 2"
  shows "spec_flux_dot_nor state nor g i = FluxDotN_entry state nor g i"
proof -
  have "spec_flux_dot_nor state nor g i =
        (\<Sum>d<length nor. Flux_entry state (length nor) g i d * nor ! d)"
    unfolding spec_flux_dot_nor_def
    using assms by (intro sum.cong) (simp_all add: ComputeFlux_entry)
  then show ?thesis
    using assms by (simp add: Flux_contract)
qed

lemma Eval_result:
  assumes range: "Eval_in_range rs state1 state2 nor flux"
    and neq: "num_equation rs = length nor + 2"
  shows "\<exists>fl rs'. Eval rs state1 state2 nor flux =
            Inr (max (ComputeMaxCharSpeed state1 (length nor) (specific_heat_ratio rs))
                     (ComputeMaxCharSpeed state2 (length nor) (specific_heat_ratio rs)), fl, rs')
          \<and> length fl = length flux
          \<and> (\<forall>i<num_equation rs. fl ! i =
                0.5 * (FluxDotN_entry state1 nor (specific_heat_ratio rs) i
                       + FluxDotN_entry state2 nor (specific_heat_ratio rs) i)
                - 0.5 * max (ComputeMaxCharSpeed state1 (length nor) (specific_heat_ratio rs))
                            (ComputeMaxCharSpeed state2 (length nor) (specific_heat_ratio rs))
                    * (state2 ! i - state1 ! i)
                    * sqrt (\<Sum>d<length nor. nor ! d * nor ! d))"
proof -
  let ?g = "specific_heat_ratio rs"
  let ?f1 = "ComputeFluxDotN state1 nor ?g (flux1 rs)"
  let ?f2 = "ComputeFluxDotN state2 nor ?g (flux2 rs)"
  let ?maxE = "max (ComputeMaxCharSpeed state1 (length nor) ?g) (ComputeMaxCharSpeed state2 (length nor) ?g)"
  let ?normag = "sqrt (\<Sum>d<length nor. nor ! d * nor ! d)"
  let ?h = "\<lambda>i. 0.5 * (?f1 ! i + ?f2 ! i) - 0.5 * ?maxE * (state2 ! i - state1 ! i) * ?normag"
  let ?fl = "fold (\<lambda>i (v::Vector). v[i := ?h i]) [0..<num_equation rs] flux"
  have ev: "Eval rs state1 state2 nor flux = Inr (?maxE, ?fl, rs\<lparr>flux1 := ?f1, flux2 := ?f2\<rparr>)"
    using range by (simp add: Eval_def Let_def fold_add_sum)
  have len: "length ?fl = length flux"
    by (rule fold_update_length)
  have l1: "length nor + 2 \<le> length (flux1 rs)" and l2: "length nor + 2 \<le> length (flux2 rs)"
    and lf: "num_equation rs \<le> length flux"
    using range by (simp_all add: Eval_in_range_def)
  have entries: "?fl ! i = 0.5 * (FluxDotN_entry state1 nor ?g i + FluxDotN_entry state2 nor ?g i)
                - 0.5 * ?maxE * (state2 ! i - state1 ! i) * ?normag" if "i < num_equation rs" for i
  proof -
    have i2: "i < length nor + 2" using that neq by simp
    have "?fl ! i = ?h i"
      using that lf by (simp add: fold_update_nth)
    then show ?thesis
      by (simp add: ComputeFluxDotN_nth [OF i2 l1] ComputeFluxDotN_nth [OF i2 l2])
  qed
  show ?thesis
    using ev len entries by blast
qed

text \<open>
  Claim C4. For two physical states (density, energy and pressure positive) and any
  normal, not necessarily of unit length, \<^verbatim>\<open>RiemannSolver::Eval\<close> returns the larger
  of the two characteristic speeds \<open>|v| + sqrt (gamma * p / rho)\<close> and writes, in every
  component \<open>i\<close>, the local Lax-Friedrichs flux
  \<open>0.5 * (F(state1).nor + F(state2).nor)(i) - 0.5 * maxE * (state2(i) - state1(i)) * ||nor||\<close>.
  The solver is one for the Euler equations (\<open>num_equation = dim + 2\<close>) and the
  vectors are long enough for every index of the body.
\<close>

theorem Eval_rusanov_flux:
  assumes "Eval_in_range rs state1 state2 nor flux"
    and "num_equation rs = length nor + 2"
    and "0 < state1 ! 0" and "StateIsPhysical state1 (length nor) (specific_heat_ratio rs)"
    and "0 < state2 ! 0" and "StateIsPhysical state2 (length nor) (specific_heat_ratio rs)"
  shows "\<exists>fl rs'. Eval rs state1 state2 nor flux =
            Inr (max (spec_char_speed state1 (length nor) (specific_heat_ratio rs))
                     (spec_char_speed state2 (length nor) (specific_heat_ratio rs)), fl, rs')
          \<and> length fl = length flux
          \<and> (\<forall>i<num_equation rs.
                fl ! i = spec_rusanov_flux (specific_heat_ratio rs) state1 state2 nor i)"
proof -
  obtain fl rs' where ev: "Eval rs state1 state2 nor flux =
            Inr (max (ComputeMaxCharSpeed state1 (length nor) (specific_heat_ratio rs))
                     (ComputeMaxCharSpeed state2 (length nor) (specific_heat_ratio rs)), fl, rs')"
    and len: "length fl = length flux"
    and ent: "\<forall>i<num_equation rs. fl ! i =
                0.5 * (FluxDotN_entry state1 nor (specific_heat_ratio rs) i
                       + FluxDotN_entry state2 nor (specific_heat_ratio rs) i)
                - 0.5 * max (ComputeMaxCharSpeed state1 (length nor) (specific_heat_ratio rs))
                            (ComputeMaxCharSpeed state2 (length nor) (specific_heat_ratio rs))
                    * (state2 ! i - state1 ! i)
                    * sqrt (\<Sum>d<length nor. nor ! d * nor ! d)"
    using Eval_result [OF assms(1,2)] by blast
  have "fl ! i = spec_rusanov_flux (specific_heat_ratio rs) state1 state2 nor i"
    if "i < num_equation rs" for i
  proof -
    have i2: "i < length nor + 2" using that assms(2) by simp
    show ?thesis
      using ent that
      by (simp add: spec_rusanov_flux_def spec_flux_dot_nor_entry [OF i2]
          ComputeMaxCharSpeed_spec spec_norm_def power2_eq_square)
  qed
  then show ?thesis
    using ev len by (simp add: ComputeMaxCharSpeed_spec)
qed



theorem Eval_rusanov_flux_witness:
  "Eval_in_range \<lparr>num_equation = 3, specific_heat_ratio = 2, flux1 = [0, 0, 0], flux2 = [0, 0, 0]\<rparr>
      [1, 3, 9] [1, 0, 2] [2] [0, 0, 0]
   \<and> StateIsPhysical [1, 3, 9] 1 2 \<and> StateIsPhysical [1, 0, 2] 1 2
   \<and> (\<exists>fl rs'.
         Eval \<lparr>num_equation = 3, specific_heat_ratio = 2, flux1 = [0, 0, 0], flux2 = [0, 0, 0]\<rparr>
           [1, 3, 9] [1, 0, 2] [2] [0, 0, 0] = Inr (6, fl, rs')
         \<and> length fl = 3 \<and> fl ! 0 = 3 \<and> fl ! 1 = 67 / 2 \<and> fl ! 2 = 165 / 2)"
proof -
  let ?rs = "\<lparr>num_equation = 3, specific_heat_ratio = 2, flux1 = [0, 0, 0], flux2 = [0, 0, 0]\<rparr>"
  have range: "Eval_in_range ?rs [1, 3, 9] [1, 0, 2] [2] [0, 0, 0]"
    by (simp add: Eval_in_range_def)
  have neq: "num_equation ?rs = length [2::real] + 2"
    by simp
  have d1: "0 < [1, 3, 9::real] ! 0" and d2: "0 < [1, 0, 2::real] ! 0"
    by simp_all
  have p1: "StateIsPhysical [1, 3, 9] (length [2::real]) (specific_heat_ratio ?rs)"
    by (simp add: StateIsPhysical_def den_vel_def Let_def)
  have p2: "StateIsPhysical [1, 0, 2] (length [2::real]) (specific_heat_ratio ?rs)"
    by (simp add: StateIsPhysical_def den_vel_def Let_def)
  have speed: "max (spec_char_speed [1, 3, 9] 1 2) (spec_char_speed [1, 0, 2] 1 2) = 6"
    by (simp add: spec_char_speed_def ComputePressure_def den_vel_def Let_def)
  have f0: "spec_rusanov_flux 2 [1, 3, 9] [1, 0, 2] [2] 0 = 3"
    by (simp add: spec_rusanov_flux_def spec_flux_dot_nor_def spec_char_speed_def
        spec_norm_def ComputeFlux_eq ComputePressure_def den_vel_def Let_def)
  have f1: "spec_rusanov_flux 2 [1, 3, 9] [1, 0, 2] [2] 1 = 67 / 2"
    by (simp add: spec_rusanov_flux_def spec_flux_dot_nor_def spec_char_speed_def
        spec_norm_def ComputeFlux_eq ComputePressure_def den_vel_def Let_def)
  have f2: "spec_rusanov_flux 2 [1, 3, 9] [1, 0, 2] [2] 2 = 165 / 2"
    by (simp add: spec_rusanov_flux_def spec_flux_dot_nor_def spec_char_speed_def
        spec_norm_def ComputeFlux_eq ComputePressure_def den_vel_def Let_def)
  from Eval_rusanov_flux [OF range neq d1 p1 d2 p2]
  obtain fl rs' where "Eval ?rs [1, 3, 9] [1, 0, 2] [2] [0, 0, 0] = Inr (6, fl, rs')"
    and "length fl = 3"
    and "\<forall>i<3. fl ! i = spec_rusanov_flux 2 [1, 3, 9] [1, 0, 2] [2] i"
    using speed by auto
  then show ?thesis
    using range p1 p2 f0 f1 f2 by auto
qed

lemma den_velN_neg: "den_velN state (map uminus nor) = - den_velN state nor"
  by (simp add: den_velN_def sum_negf)

lemma ComputePressure_neg:
  "ComputePressure state (length (map uminus nor)) g = ComputePressure state (length nor) g"
  by simp

lemma FluxDotN_entry_neg:
  assumes "i < length nor + 2"
  shows "FluxDotN_entry state (map uminus nor) g i = - FluxDotN_entry state nor g i"
proof (cases "1 \<le> i \<and> i \<le> length nor")
  case True
  then have "i - 1 < length nor"
    by linarith
  then have "map uminus nor ! (i - 1) = - (nor ! (i - 1))"
    by simp
  then show ?thesis
    using True by (simp add: FluxDotN_entry_def den_velN_neg)
next
  case False
  then show ?thesis
    by (auto simp: FluxDotN_entry_def den_velN_neg)
qed

lemma flux_negate:
  "0.5 * (- a2 + - a1) - 0.5 * m * (x1 - x2) * n =
   - (0.5 * (a1 + a2) - 0.5 * m * (x2 - x1) * n)" for a1 :: real
  by (simp add: right_diff_distrib left_diff_distrib add_divide_distrib)

lemma normag_neg:
  "(\<Sum>d<length (map uminus nor). map uminus nor ! d * map uminus nor ! d) =
   (\<Sum>d<length nor. nor ! d * (nor ! d :: real))"
  by simp

text \<open>
  Claim C10. The flux is conservative across a face: with the two states swapped and
  the normal negated, \<^verbatim>\<open>Eval\<close> returns the same wave speed and the negated flux in
  every component.
\<close>

theorem Eval_conservative:
  assumes r1: "Eval_in_range rs state1 state2 nor flux"
    and r2: "Eval_in_range rs' state2 state1 (map uminus nor) flux'"
    and neq: "num_equation rs = length nor + 2"
    and neq': "num_equation rs' = num_equation rs"
    and shr: "specific_heat_ratio rs' = specific_heat_ratio rs"
    and "0 < state1 ! 0" and "StateIsPhysical state1 (length nor) (specific_heat_ratio rs)"
    and "0 < state2 ! 0" and "StateIsPhysical state2 (length nor) (specific_heat_ratio rs)"
  shows "\<exists>maxE fl rs1 fl' rs2.
           Eval rs state1 state2 nor flux = Inr (maxE, fl, rs1)
         \<and> Eval rs' state2 state1 (map uminus nor) flux' = Inr (maxE, fl', rs2)
         \<and> (\<forall>i<num_equation rs. fl' ! i = - (fl ! i))"
proof -
  let ?g = "specific_heat_ratio rs"
  let ?m1 = "ComputeMaxCharSpeed state1 (length nor) ?g"
  let ?m2 = "ComputeMaxCharSpeed state2 (length nor) ?g"
  let ?nrm = "sqrt (\<Sum>d<length nor. nor ! d * nor ! d)"
  have neq2: "num_equation rs' = length (map uminus nor) + 2"
    using neq neq' by simp
  obtain fl rs1 where e1: "Eval rs state1 state2 nor flux = Inr (max ?m1 ?m2, fl, rs1)"
    and ent1: "\<forall>i<num_equation rs. fl ! i =
        0.5 * (FluxDotN_entry state1 nor ?g i + FluxDotN_entry state2 nor ?g i)
        - 0.5 * max ?m1 ?m2 * (state2 ! i - state1 ! i) * ?nrm"
    using Eval_result [OF r1 neq] by blast
  obtain fl' rs2 where e2: "Eval rs' state2 state1 (map uminus nor) flux' = Inr (max ?m2 ?m1, fl', rs2)"
    and ent2: "\<forall>i<num_equation rs. fl' ! i =
        0.5 * (FluxDotN_entry state2 (map uminus nor) ?g i + FluxDotN_entry state1 (map uminus nor) ?g i)
        - 0.5 * max ?m2 ?m1 * (state1 ! i - state2 ! i) * ?nrm"
    using Eval_result [OF r2 neq2] by (auto simp: shr neq')
  have "fl' ! i = - (fl ! i)" if "i < num_equation rs" for i
  proof -
    have i2: "i < length nor + 2" using that neq by simp
    have a1: "fl ! i =
        0.5 * (FluxDotN_entry state1 nor ?g i + FluxDotN_entry state2 nor ?g i)
        - 0.5 * max ?m1 ?m2 * (state2 ! i - state1 ! i) * ?nrm"
      using ent1 that by blast
    have a2: "fl' ! i =
        0.5 * (FluxDotN_entry state2 (map uminus nor) ?g i + FluxDotN_entry state1 (map uminus nor) ?g i)
        - 0.5 * max ?m2 ?m1 * (state1 ! i - state2 ! i) * ?nrm"
      using ent2 that by blast
    show ?thesis
      unfolding a1 a2 FluxDotN_entry_neg [OF i2] max.commute [of ?m2 ?m1]
      by (rule flux_negate)
  qed
  then show ?thesis
    using e1 e2 by (auto simp: max.commute)
qed

theorem Eval_conservative_witness:
  "Eval_in_range \<lparr>num_equation = 3, specific_heat_ratio = 2, flux1 = [0, 0, 0], flux2 = [0, 0, 0]\<rparr>
      [1, 3, 9] [1, 0, 2] [2] [0, 0, 0]
   \<and> StateIsPhysical [1, 3, 9] 1 2 \<and> StateIsPhysical [1, 0, 2] 1 2
   \<and> (\<exists>rs1 rs2.
         Eval \<lparr>num_equation = 3, specific_heat_ratio = 2, flux1 = [0, 0, 0], flux2 = [0, 0, 0]\<rparr>
           [1, 3, 9] [1, 0, 2] [2] [0, 0, 0] = Inr (6, [3, 67 / 2, 165 / 2], rs1)
       \<and> Eval \<lparr>num_equation = 3, specific_heat_ratio = 2, flux1 = [0, 0, 0], flux2 = [0, 0, 0]\<rparr>
           [1, 0, 2] [1, 3, 9] [- 2] [0, 0, 0] = Inr (6, [- 3, - (67 / 2), - (165 / 2)], rs2))"
proof -
  let ?rs = "\<lparr>num_equation = 3, specific_heat_ratio = 2, flux1 = [0, 0, 0], flux2 = [0, 0, 0]\<rparr>"
  have r1: "Eval_in_range ?rs [1, 3, 9] [1, 0, 2] [2] [0, 0, 0]"
    by (simp add: Eval_in_range_def)
  have r2: "Eval_in_range ?rs [1, 0, 2] [1, 3, 9] (map uminus [2]) [0, 0, 0]"
    by (simp add: Eval_in_range_def)
  have neq: "num_equation ?rs = length [2::real] + 2"
    by simp
  have d1: "0 < [1, 3, 9::real] ! 0" and d2: "0 < [1, 0, 2::real] ! 0"
    by simp_all
  have p1: "StateIsPhysical [1, 3, 9] (length [2::real]) (specific_heat_ratio ?rs)"
    by (simp add: StateIsPhysical_def den_vel_def Let_def)
  have p2: "StateIsPhysical [1, 0, 2] (length [2::real]) (specific_heat_ratio ?rs)"
    by (simp add: StateIsPhysical_def den_vel_def Let_def)
  have e1: "Eval ?rs [1, 3, 9] [1, 0, 2] [2] [0, 0, 0] =
      Inr (6, [3, 67 / 2, 165 / 2], ?rs\<lparr>flux1 := [6, 27, 81], flux2 := [0, 4, 0]\<rparr>)"
    by (simp add: Eval_def Eval_in_range_def ComputeMaxCharSpeed_def ComputeFluxDotN_def
        ComputePressure_def den_vel_def Let_def eval_nat_numeral)
  from Eval_conservative [OF r1 r2 neq refl refl d1 p1 d2 p2]
  obtain maxE fl rs1 fl' rs2 where
    a: "Eval ?rs [1, 3, 9] [1, 0, 2] [2] [0, 0, 0] = Inr (maxE, fl, rs1)"
    and b: "Eval ?rs [1, 0, 2] [1, 3, 9] [- 2] [0, 0, 0] = Inr (maxE, fl', rs2)"
    and c: "\<forall>i<3. fl' ! i = - (fl ! i)"
    by auto
  have len: "length fl' = 3"
    using b by (auto simp: Eval_def Eval_in_range_def Let_def fold_update_length split: if_splits)
  from a e1 have m: "maxE = 6" and fl: "fl = [3, 67 / 2, 165 / 2]"
    by simp_all
  have "fl' ! 0 = - 3" "fl' ! 1 = - (67 / 2)" "fl' ! 2 = - (165 / 2)"
    using c fl by simp_all
  then have "fl' = [- 3, - (67 / 2), - (165 / 2)]"
    using len by (auto simp: list_eq_iff_nth_eq less_Suc_eq eval_nat_numeral)
  then show ?thesis
    using a b m fl r1 p1 p2 by auto
qed

section \<open>DGAdvectionDiffusionTDO\<close>

text \<open>
  Claim C7. \<^verbatim>\<open>ExplicitMult\<close> may only be called on an operator built with
  \<open>imex = true\<close>: on such an operator the \<^verbatim>\<open>MFEM_VERIFY\<close> at its entry passes and
  the call goes on to the library, so the error branch is not reached; on any other
  operator it fails with the message
  \<^verbatim>\<open>Unexpected call to ExplicitMult for non-IMEX method!\<close>. The constructor stores
  its argument in \<^verbatim>\<open>imex_\<close>.
\<close>

theorem ExplicitMult_verify_imex:
  "ad_imex (DGAdvectionDiffusionTDO_ctor fes imex_arg) = imex_arg
   \<and> (ad_imex this \<longrightarrow> (\<exists>calls. DGAdvectionDiffusionTDO_ExplicitMult this = Inr calls))
   \<and> (\<not> ad_imex this \<longrightarrow>
        DGAdvectionDiffusionTDO_ExplicitMult this =
          Inl (VerifyFailed ''Unexpected call to ExplicitMult for non-IMEX method!''))
   \<and> (DGAdvectionDiffusionTDO_ExplicitMult this =
          Inl (VerifyFailed ''Unexpected call to ExplicitMult for non-IMEX method!'')
        \<longleftrightarrow> \<not> ad_imex this)"
  by (simp add: DGAdvectionDiffusionTDO_ExplicitMult_def DGAdvectionDiffusionTDO_ctor_def)

theorem ExplicitMult_verify_imex_witness:
  "ad_imex (DGAdvectionDiffusionTDO_ctor \<lparr>VSize = 8, TrueVSize = 8\<rparr> True)
   \<and> DGAdvectionDiffusionTDO_ExplicitMult (DGAdvectionDiffusionTDO_ctor \<lparr>VSize = 8, TrueVSize = 8\<rparr> True) =
       Inr [(''pgf_'', ''ExchangeFaceNbrData''), (''rhs_'', ''= 0.0''),
            (''rhs_'', ''ParallelAssemble''), (''M_solver_'', ''Mult''),
            (''fx_gf'', ''MakeRef''), (''fx_gf'', ''= X_'')]
   \<and> \<not> ad_imex (DGAdvectionDiffusionTDO_ctor \<lparr>VSize = 8, TrueVSize = 8\<rparr> False)
   \<and> DGAdvectionDiffusionTDO_ExplicitMult (DGAdvectionDiffusionTDO_ctor \<lparr>VSize = 8, TrueVSize = 8\<rparr> False) =
       Inl (VerifyFailed ''Unexpected call to ExplicitMult for non-IMEX method!'')"
  using ExplicitMult_verify_imex [of "\<lparr>VSize = 8, TrueVSize = 8\<rparr>" True
      "DGAdvectionDiffusionTDO_ctor \<lparr>VSize = 8, TrueVSize = 8\<rparr> True"]
    ExplicitMult_verify_imex [of "\<lparr>VSize = 8, TrueVSize = 8\<rparr>" False
      "DGAdvectionDiffusionTDO_ctor \<lparr>VSize = 8, TrueVSize = 8\<rparr> False"]
  by (simp add: DGAdvectionDiffusionTDO_ExplicitMult_def DGAdvectionDiffusionTDO_ctor_def)

section \<open>The time-step guards\<close>

lemmas initSolver_defs =
  DiffusionTDO_initSolver_def initSolver_newM_def initSolver_matrix_def
  initSolver_amg_def initSolver_solver_def

lemma ImplicitSolve_time_step_pointers:
  "ad_a (fst (ImplicitSolve_time_step dt this)) = ad_a this"
  "ad_imex (fst (ImplicitSolve_time_step dt this)) = ad_imex this"
  by (simp_all add: ImplicitSolve_time_step_def)

lemma ImplicitSolve_result:
  assumes "DGAdvectionDiffusionTDO_ImplicitSolve lib dt u this mem = Inr (this', mem', dudt, calls)"
  shows "this' = fst (ImplicitSolve_time_step dt this)"
    and "ad_a this \<noteq> None"
    and "dudt = ad_X_data mem'"
    and "ad_a_matrix mem' = Some (lib_Assemble lib ''a_'' this')"
    and "calls = [(''pgf_'', ''ExchangeFaceNbrData'')]
           @ snd (ImplicitSolve_time_step dt this)
           @ snd (ImplicitSolve_rhs lib u this' mem)
           @ [(''a_'', ''Assemble''), (''a_'', ''Finalize''), (''a_'', ''ParallelAssemble'')]
           @ (if ad_imex this' then [(''A_solver'', ''CGSolver::Mult'')]
              else [(''A_solver'', ''GMRESSolver::Mult'')])
           @ [(''dudt_gf'', ''MakeRef''), (''dudt_gf'', ''= X_'')]"
proof -
  show 1: "this' = fst (ImplicitSolve_time_step dt this)"
    using assms
    by (auto simp: DGAdvectionDiffusionTDO_ImplicitSolve_def Let_def
             split: option.splits prod.splits)
  have "ad_a this' \<noteq> None"
    using assms
    by (auto simp: DGAdvectionDiffusionTDO_ImplicitSolve_def Let_def
             split: option.splits prod.splits)
  then show "ad_a this \<noteq> None"
    by (simp add: 1 ImplicitSolve_time_step_pointers)
  show "dudt = ad_X_data mem'"
    "ad_a_matrix mem' = Some (lib_Assemble lib ''a_'' this')"
    "calls = [(''pgf_'', ''ExchangeFaceNbrData'')]
           @ snd (ImplicitSolve_time_step dt this)
           @ snd (ImplicitSolve_rhs lib u this' mem)
           @ [(''a_'', ''Assemble''), (''a_'', ''Finalize''), (''a_'', ''ParallelAssemble'')]
           @ (if ad_imex this' then [(''A_solver'', ''CGSolver::Mult'')]
              else [(''A_solver'', ''GMRESSolver::Mult'')])
           @ [(''dudt_gf'', ''MakeRef''), (''dudt_gf'', ''= X_'')]"
    using assms
    by (auto simp: DGAdvectionDiffusionTDO_ImplicitSolve_def Let_def
             split: option.splits prod.splits)
qed

lemma ImplicitSolve_rhs_calls:
  "set (snd (ImplicitSolve_rhs lib u this mem))
     \<subseteq> {(''rhs_'', ''= *q_imp_''), (''rhs_'', ''= 0.0''), (''rhs_'', ''ParallelAssemble''),
        (''fes_'', ''Dof_TrueDof_Matrix()->Mult''),
        (''s_'', ''Assemble''), (''s_'', ''Finalize''), (''s_'', ''ParallelAssemble''),
        (''S'', ''Mult''),
        (''b_'', ''Assemble''), (''b_'', ''Finalize''), (''b_'', ''ParallelAssemble''),
        (''B'', ''Mult'')}"
  by (simp add: ImplicitSolve_rhs_def Let_def)

lemma ImplicitSolve_SetAConst:
  assumes "DGAdvectionDiffusionTDO_ImplicitSolve lib dt u this mem = Inr (this', mem', dudt, calls)"
    and "n \<in> {''dtdCoef_'', ''dtDCoef_'', ''dtNegVCoef_''}"
  shows "(n, ''SetAConst'') \<in> set calls
         \<longleftrightarrow> (n, ''SetAConst'') \<in> set (snd (ImplicitSolve_time_step dt this))"
proof -
  have "(n, ''SetAConst'') \<notin> set (snd (ImplicitSolve_rhs lib u this' mem))"
    using ImplicitSolve_rhs_calls [of lib u this' mem] assms(2) by auto
  then show ?thesis
    using assms(2) by (auto simp: ImplicitSolve_result(5) [OF assms(1)])
qed

lemma ImplicitSolve_guard:
  assumes "DGAdvectionDiffusionTDO_ImplicitSolve lib dt u this mem = Inr (this', mem', dudt, calls)"
  shows "if \<bar>dt - ad_dt this\<bar> > 0.0001 * ad_dt this
         then ad_dt this' = dt
            \<and> ad_dtdCoef this' = map_option (\<lambda>a. dt) (ad_dtdCoef this)
            \<and> ad_dtDCoef this' = map_option (\<lambda>a. dt) (ad_dtDCoef this)
            \<and> ad_dtNegVCoef this' = map_option (\<lambda>a. dt) (ad_dtNegVCoef this)
            \<and> ((''dtdCoef_'', ''SetAConst'') \<in> set calls \<longleftrightarrow> ad_dtdCoef this \<noteq> None)
            \<and> ((''dtDCoef_'', ''SetAConst'') \<in> set calls \<longleftrightarrow> ad_dtDCoef this \<noteq> None)
            \<and> ((''dtNegVCoef_'', ''SetAConst'') \<in> set calls \<longleftrightarrow> ad_dtNegVCoef this \<noteq> None)
         else ad_dt this' = ad_dt this
            \<and> ad_dtdCoef this' = ad_dtdCoef this
            \<and> ad_dtDCoef this' = ad_dtDCoef this
            \<and> ad_dtNegVCoef this' = ad_dtNegVCoef this
            \<and> (''dtdCoef_'', ''SetAConst'') \<notin> set calls
            \<and> (''dtDCoef_'', ''SetAConst'') \<notin> set calls
            \<and> (''dtNegVCoef_'', ''SetAConst'') \<notin> set calls"
proof -
  note s = ImplicitSolve_SetAConst [OF assms]
  have c: "(''dtdCoef_'', ''SetAConst'') \<in> set calls
             \<longleftrightarrow> (''dtdCoef_'', ''SetAConst'') \<in> set (snd (ImplicitSolve_time_step dt this))"
    "(''dtDCoef_'', ''SetAConst'') \<in> set calls
             \<longleftrightarrow> (''dtDCoef_'', ''SetAConst'') \<in> set (snd (ImplicitSolve_time_step dt this))"
    "(''dtNegVCoef_'', ''SetAConst'') \<in> set calls
             \<longleftrightarrow> (''dtNegVCoef_'', ''SetAConst'') \<in> set (snd (ImplicitSolve_time_step dt this))"
    by (rule s, simp)+
  show ?thesis
    unfolding c ImplicitSolve_result(1) [OF assms]
    by (simp add: ImplicitSolve_time_step_def)
qed

lemma ImplicitSolve_returns:
  "(\<exists>this' mem' dudt calls.
      DGAdvectionDiffusionTDO_ImplicitSolve lib dt u this mem = Inr (this', mem', dudt, calls))
   \<longleftrightarrow> ad_a this \<noteq> None"
proof
  assume "\<exists>this' mem' dudt calls.
      DGAdvectionDiffusionTDO_ImplicitSolve lib dt u this mem = Inr (this', mem', dudt, calls)"
  then show "ad_a this \<noteq> None"
    using ImplicitSolve_result(2) by blast
next
  assume "ad_a this \<noteq> None"
  then have "ad_a (fst (ImplicitSolve_time_step dt this)) \<noteq> None"
    by (simp add: ImplicitSolve_time_step_pointers)
  then show "\<exists>this' mem' dudt calls.
      DGAdvectionDiffusionTDO_ImplicitSolve lib dt u this mem = Inr (this', mem', dudt, calls)"
    by (auto simp: DGAdvectionDiffusionTDO_ImplicitSolve_def Let_def
             split: option.splits prod.splits)
qed

lemma initSolver_rebuilt:
  assumes "DiffusionTDO_initSolver dt this = Inr (this', calls)"
    and "\<bar>dt - df_dt this\<bar> > 0.0001 * dt"
  shows "df_dt this' = dt \<and> df_dtNuCoef this' = dt \<and> df_M this' = Some dt
       \<and> df_amg this' = Some dt
       \<and> df_solver this' = Some (if df_dg_sigma this = - 1 then HyprePCG else HypreGMRES, dt)
       \<and> (''dtNuCoef_'', ''SetAConst'') \<in> set calls
       \<and> (''M_'', ''= m_.ParallelAssemble()'') \<in> set calls
       \<and> (''amg_'', ''= new HypreBoomerAMG(*M_)'') \<in> set calls
       \<and> (if df_dg_sigma this = - 1 then (''solver_'', ''= new HyprePCG(*M_)'')
           else (''solver_'', ''= new HypreGMRES(*M_)'')) \<in> set calls"
  using assms
  by (auto simp: initSolver_defs Let_def split: option.splits if_splits)

lemma initSolver_kept:
  assumes "DiffusionTDO_initSolver dt this = Inr (this', calls)"
    and "\<not> \<bar>dt - df_dt this\<bar> > 0.0001 * dt"
    and "df_amg this \<noteq> None" and "df_solver this \<noteq> None"
  shows "this' = this \<and> calls = []"
  using assms
  by (auto simp: initSolver_defs Let_def split: option.splits if_splits)

lemma initSolver_fails:
  "(\<forall>this' calls. DiffusionTDO_initSolver dt this \<noteq> Inr (this', calls))
   \<longleftrightarrow> DiffusionTDO_initSolver dt this = Inl NullPointer"
  by (auto simp: initSolver_defs Let_def split: option.splits if_splits prod.splits)

lemma initSolver_new:
  "DiffusionTDO_initSolver dt (DiffusionTDO_ctor sigma) = Inl NullPointer \<longleftrightarrow> dt = 0"
  by (auto simp: initSolver_defs DiffusionTDO_ctor_def Let_def)

lemma initSolver_built:
  assumes "DiffusionTDO_initSolver dt this = Inr (this', calls)"
    and "this = DiffusionTDO_ctor (df_dg_sigma this)
         \<or> df_M this \<noteq> None \<and> df_amg this \<noteq> None \<and> df_solver this \<noteq> None"
  shows "df_M this' \<noteq> None \<and> df_amg this' \<noteq> None \<and> df_solver this' \<noteq> None
         \<and> df_dg_sigma this' = df_dg_sigma this"
proof (cases "\<bar>dt - df_dt this\<bar> > 0.0001 * dt")
  case True
  have "df_dg_sigma this' = df_dg_sigma this"
    using assms(1) by (auto simp: initSolver_defs Let_def split: option.splits if_splits)
  with initSolver_rebuilt [OF assms(1) True] show ?thesis
    by simp
next
  case False
  show ?thesis
    using assms(2)
  proof
    assume n: "this = DiffusionTDO_ctor (df_dg_sigma this)"
    have "df_dt this = 0"
      by (subst n) (simp add: DiffusionTDO_ctor_def)
    with False have "dt = 0"
      by (simp split: if_splits)
    then have "DiffusionTDO_initSolver dt this = Inl NullPointer"
      using initSolver_new [of dt "df_dg_sigma this"] n by simp
    with assms(1) show ?thesis
      by simp
  next
    assume b: "df_M this \<noteq> None \<and> df_amg this \<noteq> None \<and> df_solver this \<noteq> None"
    with initSolver_kept [OF assms(1) False] show ?thesis
      by simp
  qed
qed

lemma initSolver_steps_built:
  assumes "initSolver_steps dts this = Inr d"
    and "df_M this \<noteq> None \<and> df_amg this \<noteq> None \<and> df_solver this \<noteq> None"
  shows "df_M d \<noteq> None \<and> df_amg d \<noteq> None \<and> df_solver d \<noteq> None
         \<and> df_dg_sigma d = df_dg_sigma this"
  using assms
proof (induction dts arbitrary: this)
  case Nil
  then show ?case
    by simp
next
  case (Cons dt dts)
  from Cons.prems(1) obtain this' calls
    where r: "DiffusionTDO_initSolver dt this = Inr (this', calls)"
      and s: "initSolver_steps dts this' = Inr d"
    by (auto split: sum.splits)
  from initSolver_built [OF r] Cons.prems(2)
  have b: "df_M this' \<noteq> None \<and> df_amg this' \<noteq> None \<and> df_solver this' \<noteq> None
         \<and> df_dg_sigma this' = df_dg_sigma this"
    by blast
  with Cons.IH [OF s] show ?case
    by simp
qed

lemma initSolver_steps_ctor:
  assumes "initSolver_steps dts (DiffusionTDO_ctor sigma) = Inr d"
  shows "(dts = [] \<and> d = DiffusionTDO_ctor sigma)
         \<or> (dts \<noteq> [] \<and> df_M d \<noteq> None \<and> df_amg d \<noteq> None \<and> df_solver d \<noteq> None)"
    and "df_dg_sigma d = sigma"
proof -
  have g: "df_dg_sigma (DiffusionTDO_ctor sigma) = sigma"
    by (simp add: DiffusionTDO_ctor_def)
  have "((dts = [] \<and> d = DiffusionTDO_ctor sigma)
         \<or> (dts \<noteq> [] \<and> df_M d \<noteq> None \<and> df_amg d \<noteq> None \<and> df_solver d \<noteq> None))
        \<and> df_dg_sigma d = sigma"
  proof (cases dts)
    case Nil
    with assms have "d = DiffusionTDO_ctor sigma"
      by simp
    with Nil g show ?thesis
      by simp
  next
    case (Cons dt rest)
    from assms Cons obtain this' calls
      where r: "DiffusionTDO_initSolver dt (DiffusionTDO_ctor sigma) = Inr (this', calls)"
        and s: "initSolver_steps rest this' = Inr d"
      by (auto split: sum.splits)
    from initSolver_built [OF r] g
    have b: "df_M this' \<noteq> None \<and> df_amg this' \<noteq> None \<and> df_solver this' \<noteq> None
         \<and> df_dg_sigma this' = sigma"
      by simp
    from initSolver_steps_built [OF s] b Cons
    show ?thesis
      by simp
  qed
  then show "(dts = [] \<and> d = DiffusionTDO_ctor sigma)
         \<or> (dts \<noteq> [] \<and> df_M d \<noteq> None \<and> df_amg d \<noteq> None \<and> df_solver d \<noteq> None)"
    and "df_dg_sigma d = sigma"
    by blast+
qed

lemma initSolver_steps_returns:
  assumes "initSolver_steps dts (DiffusionTDO_ctor sigma) = Inr d"
  shows "(\<exists>d' cd. DiffusionTDO_initSolver dt d = Inr (d', cd)) \<longleftrightarrow> \<not> (dts = [] \<and> dt = 0)"
proof (cases "dts = []")
  case True
  with assms have d: "d = DiffusionTDO_ctor sigma"
    by simp
  show ?thesis
    using initSolver_new [of dt sigma] initSolver_fails [of dt d] True d by auto
next
  case False
  with initSolver_steps_ctor(1) [OF assms]
  have "df_M d \<noteq> None"
    by simp
  then have "\<exists>d' cd. DiffusionTDO_initSolver dt d = Inr (d', cd)"
    by (auto simp: initSolver_defs Let_def split: option.splits)
  with False show ?thesis
    by simp
qed

lemma initSolver_steps_guard:
  assumes "initSolver_steps dts (DiffusionTDO_ctor sigma) = Inr d"
    and "DiffusionTDO_initSolver dt d = Inr (d', cd)"
  shows "if \<bar>dt - df_dt d\<bar> > 0.0001 * dt
         then df_dt d' = dt \<and> df_dtNuCoef d' = dt \<and> df_M d' = Some dt
            \<and> df_amg d' = Some dt
            \<and> df_solver d' = Some (if sigma = - 1 then HyprePCG else HypreGMRES, dt)
            \<and> (''dtNuCoef_'', ''SetAConst'') \<in> set cd
            \<and> (''M_'', ''= m_.ParallelAssemble()'') \<in> set cd
            \<and> (''amg_'', ''= new HypreBoomerAMG(*M_)'') \<in> set cd
            \<and> (if sigma = - 1 then (''solver_'', ''= new HyprePCG(*M_)'')
                else (''solver_'', ''= new HypreGMRES(*M_)'')) \<in> set cd
         else d' = d \<and> cd = []"
proof (cases "\<bar>dt - df_dt d\<bar> > 0.0001 * dt")
  case True
  with initSolver_rebuilt [OF assms(2) True] initSolver_steps_ctor(2) [OF assms(1)]
  show ?thesis
    by simp
next
  case False
  have "\<not> (dts = [] \<and> dt = 0)"
    using initSolver_steps_returns [OF assms(1), of dt] assms(2) by blast
  moreover have "dt = 0" if "dts = []"
  proof -
    from that assms(1) have "d = DiffusionTDO_ctor sigma"
      by simp
    then have "df_dt d = 0"
      by (simp add: DiffusionTDO_ctor_def)
    with False show ?thesis
      by (simp split: if_splits)
  qed
  ultimately have "dts \<noteq> []"
    by blast
  with initSolver_steps_ctor(1) [OF assms(1)]
  have "df_amg d \<noteq> None" "df_solver d \<noteq> None"
    by simp_all
  with initSolver_kept [OF assms(2) False] False show ?thesis
    by simp
qed

text \<open>
  Claim C5. The objects that depend on the time step are rebuilt exactly when the
  step changes. In \<^verbatim>\<open>DGAdvectionDiffusionTDO::ImplicitSolve\<close>, on every call that
  returns, which are the calls with \<^verbatim>\<open>a_\<close> allocated, the stored \<^verbatim>\<open>dt_\<close> and the
  factors of those of \<^verbatim>\<open>dtdCoef_\<close>, \<^verbatim>\<open>dtDCoef_\<close> and \<^verbatim>\<open>dtNegVCoef_\<close> that are
  allocated are set to \<open>dt\<close>, by \<^verbatim>\<open>SetAConst\<close>, if \<open>|dt - dt_| > 1e-4 * dt_\<close>;
  otherwise they keep their values and \<^verbatim>\<open>SetAConst\<close> is not called. The vectors
  and the forms are written on every call, whatever the step: \<^verbatim>\<open>a_\<close> is
  assembled with the factors as they are after the update, and \<^verbatim>\<open>dudt\<close> is what
  \<^verbatim>\<open>X_\<close> holds at the end.

  In \<^verbatim>\<open>DiffusionTDO::initSolver\<close>, on an operator that has gone through any run of
  calls since its construction, a call that returns sets \<^verbatim>\<open>dt_\<close> and the factor
  of \<^verbatim>\<open>dtNuCoef_\<close> to \<open>dt\<close> and rebuilds \<^verbatim>\<open>M_\<close>, the preconditioner and the
  solver if \<open>|dt - dt_| > 1e-4 * dt\<close>; otherwise it changes nothing and asks
  nothing of the library.

  One call does not return: the first call on a new operator with \<open>dt = 0\<close>. The
  step is within the tolerance of the stored \<open>0\<close>, so \<^verbatim>\<open>M_\<close> is not assembled;
  the preconditioner block is entered all the same, because \<^verbatim>\<open>amg_\<close> is
  \<^verbatim>\<open>NULL\<close>, and dereferences \<^verbatim>\<open>M_\<close>. The blocks of the preconditioner and of the
  solver test for \<^verbatim>\<open>NULL\<close>; the block of the matrix does not.
\<close>

theorem dt_guard_rebuild:
  "(DGAdvectionDiffusionTDO_ImplicitSolve lib dt u a m = Inr (a', m', dudt, ca) \<longrightarrow>
      (if \<bar>dt - ad_dt a\<bar> > 0.0001 * ad_dt a
       then ad_dt a' = dt
          \<and> ad_dtdCoef a' = map_option (\<lambda>x. dt) (ad_dtdCoef a)
          \<and> ad_dtDCoef a' = map_option (\<lambda>x. dt) (ad_dtDCoef a)
          \<and> ad_dtNegVCoef a' = map_option (\<lambda>x. dt) (ad_dtNegVCoef a)
          \<and> ((''dtdCoef_'', ''SetAConst'') \<in> set ca \<longleftrightarrow> ad_dtdCoef a \<noteq> None)
          \<and> ((''dtDCoef_'', ''SetAConst'') \<in> set ca \<longleftrightarrow> ad_dtDCoef a \<noteq> None)
          \<and> ((''dtNegVCoef_'', ''SetAConst'') \<in> set ca \<longleftrightarrow> ad_dtNegVCoef a \<noteq> None)
       else ad_dt a' = ad_dt a
          \<and> ad_dtdCoef a' = ad_dtdCoef a
          \<and> ad_dtDCoef a' = ad_dtDCoef a
          \<and> ad_dtNegVCoef a' = ad_dtNegVCoef a
          \<and> (''dtdCoef_'', ''SetAConst'') \<notin> set ca
          \<and> (''dtDCoef_'', ''SetAConst'') \<notin> set ca
          \<and> (''dtNegVCoef_'', ''SetAConst'') \<notin> set ca)
      \<and> ad_a_matrix m' = Some (lib_Assemble lib ''a_'' a')
      \<and> dudt = ad_X_data m')
   \<and> ((\<exists>a' m' dudt ca.
          DGAdvectionDiffusionTDO_ImplicitSolve lib dt u a m = Inr (a', m', dudt, ca))
        \<longleftrightarrow> ad_a a \<noteq> None)
   \<and> (initSolver_steps dts (DiffusionTDO_ctor sigma) = Inr d \<longrightarrow>
        ((\<exists>d' cd. DiffusionTDO_initSolver dt d = Inr (d', cd)) \<longleftrightarrow> \<not> (dts = [] \<and> dt = 0))
        \<and> (DiffusionTDO_initSolver dt d = Inr (d', cd) \<longrightarrow>
             (if \<bar>dt - df_dt d\<bar> > 0.0001 * dt
              then df_dt d' = dt \<and> df_dtNuCoef d' = dt \<and> df_M d' = Some dt
                 \<and> df_amg d' = Some dt
                 \<and> df_solver d' = Some (if sigma = - 1 then HyprePCG else HypreGMRES, dt)
                 \<and> (''dtNuCoef_'', ''SetAConst'') \<in> set cd
                 \<and> (''M_'', ''= m_.ParallelAssemble()'') \<in> set cd
                 \<and> (''amg_'', ''= new HypreBoomerAMG(*M_)'') \<in> set cd
                 \<and> (if sigma = - 1 then (''solver_'', ''= new HyprePCG(*M_)'')
                     else (''solver_'', ''= new HypreGMRES(*M_)'')) \<in> set cd
              else d' = d \<and> cd = [])))
   \<and> \<not> \<bar>0 - df_dt (DiffusionTDO_ctor sigma)\<bar> > 0.0001 * 0
   \<and> DiffusionTDO_initSolver 0 (DiffusionTDO_ctor sigma) = Inl NullPointer"
proof (intro conjI impI)
  assume r: "DGAdvectionDiffusionTDO_ImplicitSolve lib dt u a m = Inr (a', m', dudt, ca)"
  show "if \<bar>dt - ad_dt a\<bar> > 0.0001 * ad_dt a
       then ad_dt a' = dt
          \<and> ad_dtdCoef a' = map_option (\<lambda>x. dt) (ad_dtdCoef a)
          \<and> ad_dtDCoef a' = map_option (\<lambda>x. dt) (ad_dtDCoef a)
          \<and> ad_dtNegVCoef a' = map_option (\<lambda>x. dt) (ad_dtNegVCoef a)
          \<and> ((''dtdCoef_'', ''SetAConst'') \<in> set ca \<longleftrightarrow> ad_dtdCoef a \<noteq> None)
          \<and> ((''dtDCoef_'', ''SetAConst'') \<in> set ca \<longleftrightarrow> ad_dtDCoef a \<noteq> None)
          \<and> ((''dtNegVCoef_'', ''SetAConst'') \<in> set ca \<longleftrightarrow> ad_dtNegVCoef a \<noteq> None)
       else ad_dt a' = ad_dt a
          \<and> ad_dtdCoef a' = ad_dtdCoef a
          \<and> ad_dtDCoef a' = ad_dtDCoef a
          \<and> ad_dtNegVCoef a' = ad_dtNegVCoef a
          \<and> (''dtdCoef_'', ''SetAConst'') \<notin> set ca
          \<and> (''dtDCoef_'', ''SetAConst'') \<notin> set ca
          \<and> (''dtNegVCoef_'', ''SetAConst'') \<notin> set ca"
    by (rule ImplicitSolve_guard [OF r])
  show "ad_a_matrix m' = Some (lib_Assemble lib ''a_'' a')"
    by (rule ImplicitSolve_result(4) [OF r])
  show "dudt = ad_X_data m'"
    by (rule ImplicitSolve_result(3) [OF r])
next
  show "(\<exists>a' m' dudt ca.
          DGAdvectionDiffusionTDO_ImplicitSolve lib dt u a m = Inr (a', m', dudt, ca))
        \<longleftrightarrow> ad_a a \<noteq> None"
    by (rule ImplicitSolve_returns)
next
  assume s: "initSolver_steps dts (DiffusionTDO_ctor sigma) = Inr d"
  show "(\<exists>d' cd. DiffusionTDO_initSolver dt d = Inr (d', cd)) \<longleftrightarrow> \<not> (dts = [] \<and> dt = 0)"
    by (rule initSolver_steps_returns [OF s])
  assume r: "DiffusionTDO_initSolver dt d = Inr (d', cd)"
  show "if \<bar>dt - df_dt d\<bar> > 0.0001 * dt
        then df_dt d' = dt \<and> df_dtNuCoef d' = dt \<and> df_M d' = Some dt
           \<and> df_amg d' = Some dt
           \<and> df_solver d' = Some (if sigma = - 1 then HyprePCG else HypreGMRES, dt)
           \<and> (''dtNuCoef_'', ''SetAConst'') \<in> set cd
           \<and> (''M_'', ''= m_.ParallelAssemble()'') \<in> set cd
           \<and> (''amg_'', ''= new HypreBoomerAMG(*M_)'') \<in> set cd
           \<and> (if sigma = - 1 then (''solver_'', ''= new HyprePCG(*M_)'')
               else (''solver_'', ''= new HypreGMRES(*M_)'')) \<in> set cd
        else d' = d \<and> cd = []"
    by (rule initSolver_steps_guard [OF s r])
next
  show "\<not> \<bar>0 - df_dt (DiffusionTDO_ctor sigma)\<bar> > 0.0001 * 0"
    by (simp add: DiffusionTDO_ctor_def)
  show "DiffusionTDO_initSolver 0 (DiffusionTDO_ctor sigma) = Inl NullPointer"
    using initSolver_new [of 0 sigma] by simp
qed

lemmas AD_ImplicitSolve_defs =
  DGAdvectionDiffusionTDO_ImplicitSolve_def ImplicitSolve_time_step_def ImplicitSolve_rhs_def
  example_library_def example_DGAdvectionDiffusionTDO_def example_data_def
  DGAdvectionDiffusionTDO_ctor_def

theorem dt_guard_rebuild_witness:
  "(\<exists>a' m' ca.
      DGAdvectionDiffusionTDO_ImplicitSolve example_library (1 / 2) [3, 4]
        example_DGAdvectionDiffusionTDO example_data = Inr (a', m', [- 7 / 3, - 10 / 3], ca)
      \<and> ad_dt example_DGAdvectionDiffusionTDO = - 1
      \<and> ad_dt a' = 1 / 2 \<and> ad_dtdCoef a' = Some (1 / 2) \<and> ad_dtDCoef a' = None
      \<and> (''dtdCoef_'', ''SetAConst'') \<in> set ca
      \<and> ad_rhs_data m' = [1, 1] \<and> ad_RHS_data m' = [- 7 / 2, - 5]
      \<and> (\<exists>a'' m'' dudt' ca'.
            DGAdvectionDiffusionTDO_ImplicitSolve example_library (50001 / 100000) [3, 4] a' m'
              = Inr (a'', m'', dudt', ca')
            \<and> ad_dt a'' = 1 / 2 \<and> ad_dtdCoef a'' = Some (1 / 2)
            \<and> (''dtdCoef_'', ''SetAConst'') \<notin> set ca'))
   \<and> initSolver_steps [2] (DiffusionTDO_ctor (- 1)) =
       Inr \<lparr>df_dt = 2, df_dg_sigma = - 1, df_dtNuCoef = 2, df_M = Some 2, df_amg = Some 2,
            df_solver = Some (HyprePCG, 2)\<rparr>
   \<and> (\<exists>cd. DiffusionTDO_initSolver 3
               \<lparr>df_dt = 2, df_dg_sigma = - 1, df_dtNuCoef = 2, df_M = Some 2, df_amg = Some 2,
                df_solver = Some (HyprePCG, 2)\<rparr> =
             Inr (\<lparr>df_dt = 3, df_dg_sigma = - 1, df_dtNuCoef = 3, df_M = Some 3, df_amg = Some 3,
                   df_solver = Some (HyprePCG, 3)\<rparr>, cd)
           \<and> (''amg_'', ''= new HypreBoomerAMG(*M_)'') \<in> set cd)
   \<and> DiffusionTDO_initSolver (20001 / 10000)
        \<lparr>df_dt = 2, df_dg_sigma = - 1, df_dtNuCoef = 2, df_M = Some 2, df_amg = Some 2,
         df_solver = Some (HyprePCG, 2)\<rparr> =
       Inr (\<lparr>df_dt = 2, df_dg_sigma = - 1, df_dtNuCoef = 2, df_M = Some 2, df_amg = Some 2,
             df_solver = Some (HyprePCG, 2)\<rparr>, [])
   \<and> DiffusionTDO_initSolver 0 (DiffusionTDO_ctor (- 1)) = Inl NullPointer"
proof -
  let ?d = "\<lparr>df_dt = 2, df_dg_sigma = - 1, df_dtNuCoef = 2, df_M = Some 2, df_amg = Some 2,
            df_solver = Some (HyprePCG, 2)\<rparr>"
  note inst = dt_guard_rebuild [where lib = example_library and dt = "1 / 2" and u = "[3, 4]"
      and a = example_DGAdvectionDiffusionTDO and m = example_data
      and dts = "[2]" and sigma = "- 1" and d = ?d]
  have a: "ad_a example_DGAdvectionDiffusionTDO \<noteq> None"
    "ad_dt example_DGAdvectionDiffusionTDO = - 1"
    "ad_dtdCoef example_DGAdvectionDiffusionTDO = Some (- 1)"
    "ad_dtDCoef example_DGAdvectionDiffusionTDO = None"
    by (simp_all add: example_DGAdvectionDiffusionTDO_def DGAdvectionDiffusionTDO_ctor_def)
  from inst [THEN conjunct2, THEN conjunct1] a(1)
  obtain a' m' dudt ca
    where r1: "DGAdvectionDiffusionTDO_ImplicitSolve example_library (1 / 2) [3, 4]
        example_DGAdvectionDiffusionTDO example_data = Inr (a', m', dudt, ca)"
    by blast
  from inst [where a' = a' and m' = m' and dudt = dudt and ca = ca, THEN conjunct1] r1 a
  have 1: "ad_dt a' = 1 / 2 \<and> ad_dtdCoef a' = Some (1 / 2) \<and> ad_dtDCoef a' = None
      \<and> (''dtdCoef_'', ''SetAConst'') \<in> set ca \<and> dudt = ad_X_data m'"
    by simp
  have 2: "ad_rhs_data m' = [1, 1]" "ad_RHS_data m' = [- 7 / 2, - 5]"
    "ad_X_data m' = [- 7 / 3, - 10 / 3]" "ad_a a' \<noteq> None"
    using r1 by (auto simp: AD_ImplicitSolve_defs Let_def)
  from dt_guard_rebuild [where lib = example_library and dt = "50001 / 100000" and u = "[3, 4]"
      and a = a' and m = m', THEN conjunct2, THEN conjunct1] 2(4)
  obtain a'' m'' dudt' ca'
    where r2: "DGAdvectionDiffusionTDO_ImplicitSolve example_library (50001 / 100000) [3, 4] a' m'
              = Inr (a'', m'', dudt', ca')"
    by blast
  from dt_guard_rebuild [where lib = example_library and dt = "50001 / 100000" and u = "[3, 4]"
      and a = a' and m = m' and a' = a'' and m' = m'' and dudt = dudt' and ca = ca',
      THEN conjunct1] r2 1
  have 3: "ad_dt a'' = 1 / 2 \<and> ad_dtdCoef a'' = Some (1 / 2)
      \<and> (''dtdCoef_'', ''SetAConst'') \<notin> set ca'"
    by simp
  have s: "initSolver_steps [2] (DiffusionTDO_ctor (- 1)) = Inr ?d"
    by (simp add: initSolver_defs DiffusionTDO_ctor_def)
  from dt_guard_rebuild [where dts = "[2]" and sigma = "- 1" and d = ?d and dt = 3,
      THEN conjunct2, THEN conjunct2, THEN conjunct1, rule_format, OF s, THEN conjunct1]
  obtain d3 cd3 where r3: "DiffusionTDO_initSolver 3 ?d = Inr (d3, cd3)"
    by auto
  from dt_guard_rebuild [where dts = "[2]" and sigma = "- 1" and d = ?d and dt = 3
      and d' = d3 and cd = cd3,
      THEN conjunct2, THEN conjunct2, THEN conjunct1, rule_format, OF s, THEN conjunct2] r3
  have 4: "df_dt d3 = 3 \<and> df_dtNuCoef d3 = 3 \<and> df_M d3 = Some 3 \<and> df_amg d3 = Some 3
      \<and> df_solver d3 = Some (HyprePCG, 3)
      \<and> (''amg_'', ''= new HypreBoomerAMG(*M_)'') \<in> set cd3"
    by simp
  have "df_dg_sigma d3 = - 1"
    using r3 by (auto simp: initSolver_defs Let_def)
  with 4 have 5: "d3 = \<lparr>df_dt = 3, df_dg_sigma = - 1, df_dtNuCoef = 3, df_M = Some 3,
      df_amg = Some 3, df_solver = Some (HyprePCG, 3)\<rparr>"
    by simp
  from dt_guard_rebuild [where dts = "[2]" and sigma = "- 1" and d = ?d
      and dt = "20001 / 10000",
      THEN conjunct2, THEN conjunct2, THEN conjunct1, rule_format, OF s, THEN conjunct1]
  obtain d4 cd4 where r4: "DiffusionTDO_initSolver (20001 / 10000) ?d = Inr (d4, cd4)"
    by auto
  from dt_guard_rebuild [where dts = "[2]" and sigma = "- 1" and d = ?d
      and dt = "20001 / 10000" and d' = d4 and cd = cd4,
      THEN conjunct2, THEN conjunct2, THEN conjunct1, rule_format, OF s, THEN conjunct2] r4
  have 6: "d4 = ?d \<and> cd4 = []"
    by simp
  have 7: "DiffusionTDO_initSolver 0 (DiffusionTDO_ctor (- 1)) = Inl NullPointer"
    using inst by blast
  show ?thesis
    using r1 a(2) 1 2 r2 3 s r3 4 5 r4 6 7 by auto
qed

section \<open>The time step of the per-species operators\<close>

lemma NLOperator_SetTimeStep_Inr:
  assumes "NLOperator_SetTimeStep dt x = Inr x'"
  shows "x' = x\<lparr>nl_dt := dt, nl_y1Coef := fold (\<lambda>i y1Coef. y1Coef[i := dt]) [0..<5] (nl_y1Coef x)\<rparr>"
    and "5 \<le> length (nl_y1Coef x)"
    and "nl_dt x' = dt"
    and "\<forall>j<5. nl_y1Coef x' ! j = dt"
    and "length (nl_y1Coef x') = length (nl_y1Coef x)"
proof -
  show 1: "x' = x\<lparr>nl_dt := dt, nl_y1Coef := fold (\<lambda>i y1Coef. y1Coef[i := dt]) [0..<5] (nl_y1Coef x)\<rparr>"
    and 2: "5 \<le> length (nl_y1Coef x)"
    using assms by (auto simp: NLOperator_SetTimeStep_def split: if_splits)
  show "nl_dt x' = dt"
    by (simp add: 1)
  show "\<forall>j<5. nl_y1Coef x' ! j = dt"
    using 2 by (simp add: 1 fold_update_nth)
  show "length (nl_y1Coef x') = length (nl_y1Coef x)"
    by (simp add: 1 fold_update_length)
qed

lemma NLOperator_SetTimeStep_returns:
  "5 \<le> length (nl_y1Coef x) \<Longrightarrow> \<exists>x'. NLOperator_SetTimeStep dt x = Inr x'"
  by (simp add: NLOperator_SetTimeStep_def)

lemma op_SetTimeStep_Inr:
  assumes "op_SetTimeStep dt x = Inr x'"
  shows "op_dt x' = dt \<and> (\<forall>j<5. op_y1Coef x' ! j = dt)
       \<and> (\<forall>c\<in>set (op_dt_coefs x'). snd c = dt)
       \<and> (\<forall>c\<in>set (op_negdt_coefs x'). snd c = - dt)
       \<and> map fst (op_dt_coefs x') = map fst (op_dt_coefs x)
       \<and> map fst (op_negdt_coefs x') = map fst (op_negdt_coefs x)"
proof (cases x)
  case (NeutralDensity a)
  then obtain b where b: "NLOperator_SetTimeStep dt a = Inr b"
    and x': "x' = NeutralDensity (b\<lparr>nd_dtDCoef := dt, nd_dtdSizdnnCoef := dt, nd_dtdSizdniCoef := dt\<rparr>)"
    using assms by (auto simp: NeutralDensityOp_SetTimeStep_def split: sum.splits)
  show ?thesis
    using NLOperator_SetTimeStep_Inr(3,4) [OF b] by (simp add: x' NeutralDensity)
next
  case (IonDensity a)
  then obtain b where b: "NLOperator_SetTimeStep dt a = Inr b"
    and x': "x' = IonDensity (b\<lparr>id_dtDCoef := dt, id_ViCoef_dt := dt, id_dtViCoef := dt,
                    id_negdtdSizdnnCoef := - dt, id_negdtdSizdniCoef := - dt\<rparr>)"
    using assms by (auto simp: IonDensityOp_SetTimeStep_def split: sum.splits)
  show ?thesis
    using NLOperator_SetTimeStep_Inr(3,4) [OF b] by (simp add: x' IonDensity)
next
  case (IonMomentum a)
  then obtain b where b: "NLOperator_SetTimeStep dt a = Inr b"
    and x': "x' = IonMomentum (b\<lparr>im_dtEtaCoef := dt, im_miniViCoef_dt := dt, im_dtminiViCoef := dt\<rparr>)"
    using assms by (auto simp: IonMomentumOp_SetTimeStep_def split: sum.splits)
  show ?thesis
    using NLOperator_SetTimeStep_Inr(3,4) [OF b] by (simp add: x' IonMomentum)
next
  case (IonStaticPressure a)
  then obtain b where b: "NLOperator_SetTimeStep dt a = Inr b"
    and x': "x' = IonStaticPressure (b\<lparr>ip_dtChiCoef := dt\<rparr>)"
    using assms by (auto simp: IonStaticPressureOp_SetTimeStep_def split: sum.splits)
  show ?thesis
    using NLOperator_SetTimeStep_Inr(3,4) [OF b] by (simp add: x' IonStaticPressure)
next
  case (ElectronStaticPressure a)
  then obtain b where b: "NLOperator_SetTimeStep dt a = Inr b"
    and x': "x' = ElectronStaticPressure
               (b\<lparr>ep_grad_Te1Coef := dt, ep_dtChiCoef := dt, ep_dtdChiGradTCoef := - dt\<rparr>)"
    using assms by (auto simp: ElectronStaticPressureOp_SetTimeStep_def split: sum.splits)
  show ?thesis
    using NLOperator_SetTimeStep_Inr(3,4) [OF b] by (simp add: x' ElectronStaticPressure)
next
  case (Dummy a)
  then obtain b where b: "NLOperator_SetTimeStep dt a = Inr b" and x': "x' = Dummy b"
    using assms by (cases "NLOperator_SetTimeStep dt a") auto
  show ?thesis
    using NLOperator_SetTimeStep_Inr(3,4) [OF b] by (simp add: x' Dummy)
qed

lemma op_SetTimeStep_returns:
  assumes "5 \<le> length (op_y1Coef x)"
  shows "\<exists>x'. op_SetTimeStep dt x = Inr x'"
  using assms
  by (cases x)
     (auto simp: NLOperator_SetTimeStep_def NeutralDensityOp_SetTimeStep_def
        IonDensityOp_SetTimeStep_def IonMomentumOp_SetTimeStep_def
        IonStaticPressureOp_SetTimeStep_def ElectronStaticPressureOp_SetTimeStep_def)

lemma op_SetTimeStep_y1Coef_length:
  assumes "op_SetTimeStep dt x = Inr x'"
  shows "length (op_y1Coef x') = length (op_y1Coef x)"
  using assms
  by (cases x)
     (auto simp: NLOperator_SetTimeStep_def NeutralDensityOp_SetTimeStep_def
        IonDensityOp_SetTimeStep_def IonMomentumOp_SetTimeStep_def
        IonStaticPressureOp_SetTimeStep_def ElectronStaticPressureOp_SetTimeStep_def
        fold_update_length split: if_splits)

lemma ops_SetTimeStep_Inr:
  assumes "ops_SetTimeStep dt idx ops = Inr ops'" and "distinct idx"
  shows "length ops' = length ops
       \<and> (\<forall>i\<in>set idx. i < length ops \<and> op_SetTimeStep dt (ops ! i) = Inr (ops' ! i))
       \<and> (\<forall>i. i \<notin> set idx \<longrightarrow> ops' ! i = ops ! i)"
  using assms
proof (induction idx arbitrary: ops)
  case Nil
  then show ?case by simp
next
  case (Cons i rest)
  from Cons.prems obtain x where i: "i < length ops"
    and x: "op_SetTimeStep dt (ops ! i) = Inr x"
    and r: "ops_SetTimeStep dt rest (ops[i := x]) = Inr ops'"
    by (auto split: if_splits sum.splits)
  from Cons.prems have d: "distinct rest" and ni: "i \<notin> set rest"
    by simp_all
  from Cons.IH [OF r d]
  have len: "length ops' = length ops"
    and upd: "\<forall>j\<in>set rest. j < length ops \<and> op_SetTimeStep dt ((ops[i := x]) ! j) = Inr (ops' ! j)"
    and keep: "\<forall>j. j \<notin> set rest \<longrightarrow> ops' ! j = (ops[i := x]) ! j"
    by simp_all
  have "ops' ! i = x"
    using keep ni i by simp
  moreover have "op_SetTimeStep dt (ops ! j) = Inr (ops' ! j)" if "j \<in> set rest" for j
  proof -
    have "j \<noteq> i" using that ni by auto
    moreover have "op_SetTimeStep dt ((ops[i := x]) ! j) = Inr (ops' ! j)"
      using upd that by blast
    ultimately show ?thesis by simp
  qed
  moreover have "ops' ! j = ops ! j" if "j \<notin> set (i # rest)" for j
    using keep that by simp
  ultimately show ?case
    using len i x upd by auto
qed

lemma ops_SetTimeStep_returns:
  assumes "\<forall>i\<in>set idx. i < length ops \<and> 5 \<le> length (op_y1Coef (ops ! i))"
  shows "\<exists>ops'. ops_SetTimeStep dt idx ops = Inr ops'"
  using assms
proof (induction idx arbitrary: ops)
  case Nil
  then show ?case by simp
next
  case (Cons i rest)
  then have i: "i < length ops" and l: "5 \<le> length (op_y1Coef (ops ! i))"
    by simp_all
  from op_SetTimeStep_returns [OF l] obtain x where x: "op_SetTimeStep dt (ops ! i) = Inr x"
    by blast
  have "\<forall>j\<in>set rest. j < length (ops[i := x]) \<and> 5 \<le> length (op_y1Coef ((ops[i := x]) ! j))"
  proof
    fix j assume j: "j \<in> set rest"
    then have "j < length ops" and "5 \<le> length (op_y1Coef (ops ! j))"
      using Cons.prems by simp_all
    then show "j < length (ops[i := x]) \<and> 5 \<le> length (op_y1Coef ((ops[i := x]) ! j))"
      using op_SetTimeStep_y1Coef_length [OF x] l by (cases "j = i") simp_all
  qed
  from Cons.IH [OF this] show ?case
    using i x by simp
qed


lemmas SetTimeStep_defs =
  CombinedOp_SetTimeStep_def NLOperator_SetTimeStep_def NeutralDensityOp_SetTimeStep_def
  IonDensityOp_SetTimeStep_def IonMomentumOp_SetTimeStep_def
  IonStaticPressureOp_SetTimeStep_def ElectronStaticPressureOp_SetTimeStep_def

text \<open>
  Claim C3, as amended. \<^verbatim>\<open>CombinedOp::SetTimeStep(dt)\<close> hands \<open>dt\<close> to the
  \<^verbatim>\<open>SetTimeStep\<close> of each of its \<^verbatim>\<open>neq_\<close> operators. After the call each operator
  has \<open>dt\<close> in \<^verbatim>\<open>dt_\<close>, \<open>dt\<close> as the \<open>beta\<close> of each of the five \<^verbatim>\<open>y1Coef_\<close>, the
  factor \<open>dt\<close> in every product coefficient named \<^verbatim>\<open>dt...\<close> but one, and the
  factor \<open>- dt\<close> in \<^verbatim>\<open>negdtdSizdnnCoef_\<close> and \<^verbatim>\<open>negdtdSizdniCoef_\<close> of the ion
  density operator and in \<^verbatim>\<open>dtdChiGradTCoef_\<close> of the electron pressure operator.
  The call returns when the arrays hold the operators and coefficients the loops
  index.
\<close>

theorem CombinedOp_SetTimeStep_factors:
  "(CombinedOp_SetTimeStep dt this = Inr this' \<longrightarrow>
      co_neq this' = co_neq this \<and> length (co_op this') = length (co_op this)
      \<and> (\<forall>i<co_neq this.
            op_dt (co_op this' ! i) = dt
          \<and> (\<forall>j<5. op_y1Coef (co_op this' ! i) ! j = dt)
          \<and> (\<forall>c\<in>set (op_dt_coefs (co_op this' ! i)). snd c = dt)
          \<and> (\<forall>c\<in>set (op_negdt_coefs (co_op this' ! i)). snd c = - dt)
          \<and> map fst (op_dt_coefs (co_op this' ! i)) = map fst (op_dt_coefs (co_op this ! i))
          \<and> map fst (op_negdt_coefs (co_op this' ! i)) = map fst (op_negdt_coefs (co_op this ! i))))
   \<and> (co_neq this \<le> length (co_op this)
        \<and> (\<forall>i<co_neq this. 5 \<le> length (op_y1Coef (co_op this ! i)))
      \<longrightarrow> (\<exists>this'. CombinedOp_SetTimeStep dt this = Inr this'))"
proof (intro conjI impI)
  assume r: "CombinedOp_SetTimeStep dt this = Inr this'"
  then obtain ops where ops: "ops_SetTimeStep dt [0..<co_neq this] (co_op this) = Inr ops"
    and t: "this' = this\<lparr>co_op := ops\<rparr>"
    by (auto simp: CombinedOp_SetTimeStep_def split: sum.splits)
  show "co_neq this' = co_neq this"
    by (simp add: t)
  from ops_SetTimeStep_Inr [OF ops]
  have len: "length ops = length (co_op this)"
    and each: "\<forall>i\<in>set [0..<co_neq this]. op_SetTimeStep dt (co_op this ! i) = Inr (ops ! i)"
    by simp_all
  show "length (co_op this') = length (co_op this)"
    by (simp add: t len)
  show "\<forall>i<co_neq this.
            op_dt (co_op this' ! i) = dt
          \<and> (\<forall>j<5. op_y1Coef (co_op this' ! i) ! j = dt)
          \<and> (\<forall>c\<in>set (op_dt_coefs (co_op this' ! i)). snd c = dt)
          \<and> (\<forall>c\<in>set (op_negdt_coefs (co_op this' ! i)). snd c = - dt)
          \<and> map fst (op_dt_coefs (co_op this' ! i)) = map fst (op_dt_coefs (co_op this ! i))
          \<and> map fst (op_negdt_coefs (co_op this' ! i)) = map fst (op_negdt_coefs (co_op this ! i))"
  proof (intro allI impI)
    fix i assume "i < co_neq this"
    then have "op_SetTimeStep dt (co_op this ! i) = Inr (ops ! i)"
      using each by simp
    from op_SetTimeStep_Inr [OF this]
    show "op_dt (co_op this' ! i) = dt
          \<and> (\<forall>j<5. op_y1Coef (co_op this' ! i) ! j = dt)
          \<and> (\<forall>c\<in>set (op_dt_coefs (co_op this' ! i)). snd c = dt)
          \<and> (\<forall>c\<in>set (op_negdt_coefs (co_op this' ! i)). snd c = - dt)
          \<and> map fst (op_dt_coefs (co_op this' ! i)) = map fst (op_dt_coefs (co_op this ! i))
          \<and> map fst (op_negdt_coefs (co_op this' ! i)) = map fst (op_negdt_coefs (co_op this ! i))"
      by (simp add: t)
  qed
next
  assume a: "co_neq this \<le> length (co_op this)
        \<and> (\<forall>i<co_neq this. 5 \<le> length (op_y1Coef (co_op this ! i)))"
  then have "\<forall>i\<in>set [0..<co_neq this]. i < length (co_op this) \<and> 5 \<le> length (op_y1Coef (co_op this ! i))"
    by auto
  from ops_SetTimeStep_returns [OF this]
  obtain ops where "ops_SetTimeStep dt [0..<co_neq this] (co_op this) = Inr ops"
    by blast
  then show "\<exists>this'. CombinedOp_SetTimeStep dt this = Inr this'"
    by (simp add: CombinedOp_SetTimeStep_def)
qed

theorem CombinedOp_SetTimeStep_factors_witness:
  "co_neq example_CombinedOp \<le> length (co_op example_CombinedOp)
   \<and> (\<exists>this'. CombinedOp_SetTimeStep (1 / 2) example_CombinedOp = Inr this'
        \<and> op_dt (co_op this' ! 0) = 1 / 2
        \<and> op_y1Coef (co_op this' ! 0) ! 4 = 1 / 2
        \<and> op_dt_coefs (co_op this' ! 0) =
            [(''dtDCoef_'', 1 / 2), (''dtdSizdnnCoef_'', 1 / 2), (''dtdSizdniCoef_'', 1 / 2)]
        \<and> op_dt (co_op this' ! 4) = 1 / 2
        \<and> op_negdt_coefs (co_op this' ! 4) = [(''dtdChiGradTCoef_'', - (1 / 2))])"
proof -
  have n: "co_neq example_CombinedOp = 5" and l: "co_neq example_CombinedOp \<le> length (co_op example_CombinedOp)"
    by (simp_all add: example_CombinedOp_def)
  have y: "\<forall>i<co_neq example_CombinedOp. 5 \<le> length (op_y1Coef (co_op example_CombinedOp ! i))"
    by (simp add: example_CombinedOp_def less_Suc_eq eval_nat_numeral)
  from CombinedOp_SetTimeStep_factors [where dt = "1 / 2" and this = example_CombinedOp, THEN conjunct2] l y
  obtain this' where r: "CombinedOp_SetTimeStep (1 / 2) example_CombinedOp = Inr this'"
    by blast
  from CombinedOp_SetTimeStep_factors [where dt = "1 / 2" and this = example_CombinedOp and this' = this',
      THEN conjunct1] r n
  have p: "\<forall>i<5. op_dt (co_op this' ! i) = 1 / 2 \<and> (\<forall>j<5. op_y1Coef (co_op this' ! i) ! j = 1 / 2)"
    by simp
  have c0: "op_dt_coefs (co_op this' ! 0) =
            [(''dtDCoef_'', 1 / 2), (''dtdSizdnnCoef_'', 1 / 2), (''dtdSizdniCoef_'', 1 / 2)]"
    and c4: "op_negdt_coefs (co_op this' ! 4) = [(''dtdChiGradTCoef_'', - (1 / 2))]"
    using r by (auto simp: example_CombinedOp_def SetTimeStep_defs eval_nat_numeral)
  show ?thesis
    using l r p c0 c4 by auto
qed

text \<open>
  The claim as first stated asks for the factor \<open>dt\<close> in every product coefficient
  that \<^verbatim>\<open>SetTimeStep\<close> rescales. With \<open>dt = 1\<close> the ion density operator ends with
  the factor \<open>- 1\<close> in two of them and the electron pressure operator in one.
\<close>

theorem SetTimeStep_factor_counterexample:
  "(case CombinedOp_SetTimeStep 1 example_CombinedOp of
      Inl e \<Rightarrow> [] | Inr t \<Rightarrow> op_negdt_coefs (co_op t ! 1)) =
     [(''negdtdSizdnnCoef_'', - 1), (''negdtdSizdniCoef_'', - 1)]
   \<and> (case CombinedOp_SetTimeStep 1 example_CombinedOp of
      Inl e \<Rightarrow> [] | Inr t \<Rightarrow> op_negdt_coefs (co_op t ! 4)) =
     [(''dtdChiGradTCoef_'', - 1)]
   \<and> (- 1 :: real) \<noteq> 1"
  by (simp add: example_CombinedOp_def SetTimeStep_defs eval_nat_numeral)

section \<open>The grid function bindings of DGTransportTDO::ImplicitSolve\<close>

lemma MakeRef_loop_Inr:
  assumes "MakeRef_loop offsets data GF = Inr GF'"
  shows "length GF' = length GF"
    and "length offsets - 1 \<le> length GF"
    and "\<forall>i<length offsets - 1. GF' ! i = data + offsets ! i"
    and "\<forall>i. length offsets - 1 \<le> i \<longrightarrow> GF' ! i = GF ! i"
proof -
  have g: "GF' = fold (\<lambda>i GF. GF[i := data + offsets ! i]) [0..<length offsets - 1] GF"
    and l: "length offsets - 1 \<le> length GF"
    using assms by (auto simp: MakeRef_loop_def split: if_splits)
  show "length GF' = length GF"
    by (simp add: g fold_update_length)
  show "length offsets - 1 \<le> length GF"
    by (rule l)
  show "\<forall>i<length offsets - 1. GF' ! i = data + offsets ! i"
    using l by (simp add: g fold_update_nth)
  show "\<forall>i. length offsets - 1 \<le> i \<longrightarrow> GF' ! i = GF ! i"
    by (simp add: g fold_update_nth)
qed

lemma MakeRef_loop_returns:
  "length offsets - 1 \<le> length GF \<Longrightarrow> \<exists>GF'. MakeRef_loop offsets data GF = Inr GF'"
  by (simp add: MakeRef_loop_def)

lemma ImplicitSolve_Inr:
  assumes "DGTransportTDO_ImplicitSolve newton dt y k this = Inr (this', during)"
  shows "\<exists>yGF1 kGF1 op yGF2 kGF2.
           MakeRef_loop (tr_offsets this) y (tr_yGF this) = Inr yGF1
         \<and> MakeRef_loop (tr_offsets this) k (tr_kGF this) = Inr kGF1
         \<and> during = (yGF1, kGF1)
         \<and> CombinedOp_SetTimeStep dt (tr_op this) = Inr op
         \<and> newton (yGF1, kGF1) = (yGF2, kGF2)
         \<and> MakeRef_loop (tr_offsets this) (tr_yGF this ! 0) yGF2 = Inr (tr_yGF this')
         \<and> MakeRef_loop (tr_offsets this) (tr_kGF this ! 0) kGF2 = Inr (tr_kGF this')
         \<and> tr_op this' = op \<and> tr_offsets this' = tr_offsets this"
  using assms
  by (auto simp: DGTransportTDO_ImplicitSolve_def Let_def split: if_splits sum.splits prod.splits)


lemma ImplicitSolve_returns_bindings:
  assumes "tr_yGF this \<noteq> []" "tr_kGF this \<noteq> []"
    and "length (tr_offsets this) - 1 \<le> length (tr_yGF this)"
    and "length (tr_offsets this) - 1 \<le> length (tr_kGF this)"
    and "\<exists>op. CombinedOp_SetTimeStep dt (tr_op this) = Inr op"
    and "\<forall>a b. length (fst (newton (a, b))) = length a \<and> length (snd (newton (a, b))) = length b"
  shows "\<exists>this' during. DGTransportTDO_ImplicitSolve newton dt y k this = Inr (this', during)"
proof -
  let ?o = "tr_offsets this"
  obtain yGF1 where y1: "MakeRef_loop ?o y (tr_yGF this) = Inr yGF1"
    using MakeRef_loop_returns [OF assms(3)] by blast
  obtain kGF1 where k1: "MakeRef_loop ?o k (tr_kGF this) = Inr kGF1"
    using MakeRef_loop_returns [OF assms(4)] by blast
  obtain op where op: "CombinedOp_SetTimeStep dt (tr_op this) = Inr op"
    using assms(5) by blast
  obtain yGF2 kGF2 where n: "newton (yGF1, kGF1) = (yGF2, kGF2)"
    by (cases "newton (yGF1, kGF1)") blast
  have "length yGF2 = length yGF1" "length kGF2 = length kGF1"
    using assms(6) [rule_format, of yGF1 kGF1] n by simp_all
  then have "length ?o - 1 \<le> length yGF2" "length ?o - 1 \<le> length kGF2"
    using MakeRef_loop_Inr(1) [OF y1] MakeRef_loop_Inr(1) [OF k1] assms(3,4) by simp_all
  then obtain yGF3 kGF3 where y3: "MakeRef_loop ?o (tr_yGF this ! 0) yGF2 = Inr yGF3"
    and k3: "MakeRef_loop ?o (tr_kGF this ! 0) kGF2 = Inr kGF3"
    using MakeRef_loop_returns by blast
  show ?thesis
    using assms(1,2) y1 k1 op n y3 k3
    by (simp add: DGTransportTDO_ImplicitSolve_def Let_def)
qed

text \<open>
  Claim C6, as amended. \<^verbatim>\<open>DGTransportTDO::ImplicitSolve(dt, y, k)\<close> re-points the
  grid functions \<^verbatim>\<open>yGF_[i]\<close> and \<^verbatim>\<open>kGF_[i]\<close>, for \<open>i\<close> below
  \<open>offsets_.Size() - 1\<close>, at the blocks \<open>y + offsets_[i]\<close> and \<open>k + offsets_[i]\<close>
  for the Newton solve, and on return at \<open>prev_y + offsets_[i]\<close> and
  \<open>prev_k + offsets_[i]\<close>, where \<open>prev_y\<close> and \<open>prev_k\<close> are the data arrays of
  \<^verbatim>\<open>yGF_[0]\<close> and \<^verbatim>\<open>kGF_[0]\<close> on entry. When on entry each of these grid functions
  referred to the block of the first one's array at its offset, each refers on
  return to the array it referred to on entry.
\<close>

theorem ImplicitSolve_bindings:
  "(DGTransportTDO_ImplicitSolve newton dt y k this = Inr (this', during) \<longrightarrow>
      (\<forall>i<length (tr_offsets this) - 1.
           fst during ! i = y + tr_offsets this ! i
         \<and> snd during ! i = k + tr_offsets this ! i
         \<and> tr_yGF this' ! i = tr_yGF this ! 0 + tr_offsets this ! i
         \<and> tr_kGF this' ! i = tr_kGF this ! 0 + tr_offsets this ! i)
    \<and> ((\<forall>i<length (tr_offsets this) - 1.
            tr_yGF this ! i = tr_yGF this ! 0 + tr_offsets this ! i
          \<and> tr_kGF this ! i = tr_kGF this ! 0 + tr_offsets this ! i)
        \<longrightarrow> (\<forall>i<length (tr_offsets this) - 1.
               tr_yGF this' ! i = tr_yGF this ! i \<and> tr_kGF this' ! i = tr_kGF this ! i)))
   \<and> (tr_yGF this \<noteq> [] \<and> tr_kGF this \<noteq> []
      \<and> length (tr_offsets this) - 1 \<le> length (tr_yGF this)
      \<and> length (tr_offsets this) - 1 \<le> length (tr_kGF this)
      \<and> (\<exists>op. CombinedOp_SetTimeStep dt (tr_op this) = Inr op)
      \<and> (\<forall>a b. length (fst (newton (a, b))) = length a \<and> length (snd (newton (a, b))) = length b)
      \<longrightarrow> (\<exists>this' during. DGTransportTDO_ImplicitSolve newton dt y k this = Inr (this', during)))"
proof (intro conjI impI)
  assume r: "DGTransportTDO_ImplicitSolve newton dt y k this = Inr (this', during)"
  from ImplicitSolve_Inr [OF r] obtain yGF1 kGF1 yGF2 kGF2 where
    y1: "MakeRef_loop (tr_offsets this) y (tr_yGF this) = Inr yGF1"
    and k1: "MakeRef_loop (tr_offsets this) k (tr_kGF this) = Inr kGF1"
    and d: "during = (yGF1, kGF1)"
    and y3: "MakeRef_loop (tr_offsets this) (tr_yGF this ! 0) yGF2 = Inr (tr_yGF this')"
    and k3: "MakeRef_loop (tr_offsets this) (tr_kGF this ! 0) kGF2 = Inr (tr_kGF this')"
    by (elim exE conjE) (rule that; assumption)
  show bound: "\<forall>i<length (tr_offsets this) - 1.
           fst during ! i = y + tr_offsets this ! i
         \<and> snd during ! i = k + tr_offsets this ! i
         \<and> tr_yGF this' ! i = tr_yGF this ! 0 + tr_offsets this ! i
         \<and> tr_kGF this' ! i = tr_kGF this ! 0 + tr_offsets this ! i"
    using MakeRef_loop_Inr(3) [OF y1] MakeRef_loop_Inr(3) [OF k1]
      MakeRef_loop_Inr(3) [OF y3] MakeRef_loop_Inr(3) [OF k3]
    by (simp add: d)
  assume layout: "\<forall>i<length (tr_offsets this) - 1.
            tr_yGF this ! i = tr_yGF this ! 0 + tr_offsets this ! i
          \<and> tr_kGF this ! i = tr_kGF this ! 0 + tr_offsets this ! i"
  show "\<forall>i<length (tr_offsets this) - 1.
               tr_yGF this' ! i = tr_yGF this ! i \<and> tr_kGF this' ! i = tr_kGF this ! i"
  proof (intro allI impI)
    fix i assume i: "i < length (tr_offsets this) - 1"
    have b: "tr_yGF this' ! i = tr_yGF this ! 0 + tr_offsets this ! i"
      "tr_kGF this' ! i = tr_kGF this ! 0 + tr_offsets this ! i"
      using bound i by blast+
    have l: "tr_yGF this ! i = tr_yGF this ! 0 + tr_offsets this ! i"
      "tr_kGF this ! i = tr_kGF this ! 0 + tr_offsets this ! i"
      using layout i by blast+
    show "tr_yGF this' ! i = tr_yGF this ! i \<and> tr_kGF this' ! i = tr_kGF this ! i"
      by (simp only: b l)
  qed
next
  assume a: "tr_yGF this \<noteq> [] \<and> tr_kGF this \<noteq> []
      \<and> length (tr_offsets this) - 1 \<le> length (tr_yGF this)
      \<and> length (tr_offsets this) - 1 \<le> length (tr_kGF this)
      \<and> (\<exists>op. CombinedOp_SetTimeStep dt (tr_op this) = Inr op)
      \<and> (\<forall>a b. length (fst (newton (a, b))) = length a \<and> length (snd (newton (a, b))) = length b)"
  show "\<exists>this' during. DGTransportTDO_ImplicitSolve newton dt y k this = Inr (this', during)"
    by (rule ImplicitSolve_returns_bindings) (use a in simp_all)
qed

lemmas example_defs = example_DGTransportTDO_def example_CombinedOp_def

lemma upt_0_5: "[0..<5] = [0, 1, 2, 3, 4]"
  by (simp add: upt_rec)

theorem ImplicitSolve_bindings_witness:
  "(\<exists>this' during.
       DGTransportTDO_ImplicitSolve id (1 / 2) 3000 4000
         (example_DGTransportTDO\<lparr>tr_yGF := [100, 108, 116, 124, 132],
                                   tr_kGF := [200, 208, 216, 224, 232]\<rparr>) = Inr (this', during)
     \<and> fst during ! 4 = 3032 \<and> snd during ! 4 = 4032
     \<and> tr_yGF this' ! 4 = 132 \<and> tr_kGF this' ! 4 = 232
     \<and> tr_yGF this' ! 1 = 108 \<and> tr_kGF this' ! 1 = 208)"
proof -
  let ?t = "example_DGTransportTDO\<lparr>tr_yGF := [100, 108, 116, 124, 132],
                                   tr_kGF := [200, 208, 216, 224, 232]\<rparr>"
  have n: "length (tr_offsets ?t) - 1 = 5"
    by (simp add: example_defs)
  have pre: "tr_yGF ?t \<noteq> [] \<and> tr_kGF ?t \<noteq> []
      \<and> length (tr_offsets ?t) - 1 \<le> length (tr_yGF ?t)
      \<and> length (tr_offsets ?t) - 1 \<le> length (tr_kGF ?t)
      \<and> (\<exists>op. CombinedOp_SetTimeStep (1 / 2) (tr_op ?t) = Inr op)
      \<and> (\<forall>a b. length (fst (id (a, b))) = length a \<and> length (snd (id (a, b))) = length b)"
    by (simp add: example_defs SetTimeStep_defs upt_0_5)
  from ImplicitSolve_bindings [where newton = id and dt = "1 / 2" and y = 3000 and k = 4000
      and this = ?t, THEN conjunct2] pre
  obtain this' during where
    r: "DGTransportTDO_ImplicitSolve id (1 / 2) 3000 4000 ?t = Inr (this', during)"
    by blast
  have layout: "\<forall>i<length (tr_offsets ?t) - 1.
            tr_yGF ?t ! i = tr_yGF ?t ! 0 + tr_offsets ?t ! i
          \<and> tr_kGF ?t ! i = tr_kGF ?t ! 0 + tr_offsets ?t ! i"
    unfolding n by (simp add: example_defs less_Suc_eq eval_nat_numeral)
  from ImplicitSolve_bindings [where newton = id and dt = "1 / 2" and y = 3000 and k = 4000
      and this = ?t and this' = this' and during = during, THEN conjunct1, rule_format, OF r]
  have during: "\<forall>i<length (tr_offsets ?t) - 1.
           fst during ! i = 3000 + tr_offsets ?t ! i \<and> snd during ! i = 4000 + tr_offsets ?t ! i"
    and kept: "\<forall>i<length (tr_offsets ?t) - 1.
           tr_yGF this' ! i = tr_yGF ?t ! i \<and> tr_kGF this' ! i = tr_kGF ?t ! i"
    using layout by blast+
  have "fst during ! 4 = 3032 \<and> snd during ! 4 = 4032"
    using during [rule_format, of 4] by (simp add: example_defs)
  moreover have "tr_yGF this' ! 4 = 132 \<and> tr_kGF this' ! 4 = 232"
    using kept [rule_format, of 4] by (simp add: example_defs)
  moreover have "tr_yGF this' ! 1 = 108 \<and> tr_kGF this' ! 1 = 208"
    using kept [rule_format, of 1] by (simp add: example_defs)
  ultimately show ?thesis
    using r by blast
qed

text \<open>
  The claim as first stated has every grid function refer on return to the array
  it referred to on entry. In the example the last grid function of \<^verbatim>\<open>yGF_\<close>
  referred to an array of its own at 500 and ends at \<open>100 + 32\<close>; the grid
  functions of \<^verbatim>\<open>kGF_\<close> had no data (\<^verbatim>\<open>NULL\<close>) and all but the first end at the
  null pointer plus their offset.
\<close>

theorem ImplicitSolve_rebinding_counterexample:
  "map_sum id (\<lambda>r. (tr_yGF (fst r), tr_kGF (fst r)))
     (DGTransportTDO_ImplicitSolve id 1 3000 4000 example_DGTransportTDO) =
   Inr ([100, 108, 116, 124, 132], [0, 8, 16, 24, 32])
   \<and> tr_yGF example_DGTransportTDO = [100, 108, 116, 124, 500]
   \<and> tr_kGF example_DGTransportTDO = [0, 0, 0, 0, 0]"
  by (simp add: example_defs DGTransportTDO_ImplicitSolve_def MakeRef_loop_def
      SetTimeStep_defs Let_def upt_0_5)

section \<open>Update\<close>

lemma PartialSum_from_length: "length (PartialSum_from acc xs) = length xs"
  by (induction xs arbitrary: acc) simp_all

lemma PartialSum_from_nth:
  "k < length xs \<Longrightarrow> PartialSum_from acc xs ! k = acc + sum_list (take (Suc k) xs)"
proof (induction xs arbitrary: acc k)
  case Nil
  then show ?case by simp
next
  case (Cons x xs)
  then show ?case
    by (cases k) (simp_all add: add.assoc)
qed

lemma PartialSum_nth:
  "k < length xs \<Longrightarrow> PartialSum xs ! k = sum_list (take (Suc k) xs)"
  by (simp add: PartialSum_def PartialSum_from_nth)

lemma fold_update_Suc_nth:
  "(fold (\<lambda>d v. v[Suc d := h d]) [0..<n] v0) ! k =
     (if 1 \<le> k \<and> k < Suc n \<and> k < length v0 then h (k - 1) else v0 ! k)"
  using fold_update_shift_nth [of 1 h n v0 k] by simp

lemma offsets_take:
  assumes "n + 1 \<le> length offs"
  shows "take (Suc n) (fold (\<lambda>i v. v[i + 1 := h i]) [0..<n] (offs[0 := 0])) = 0 # map h [0..<n]"
proof (rule nth_equalityI)
  show "length (take (Suc n) (fold (\<lambda>i v. v[i + 1 := h i]) [0..<n] (offs[0 := 0]))) =
        length (0 # map h [0..<n])"
    using assms by (simp add: fold_update_length)
next
  fix k assume "k < length (take (Suc n) (fold (\<lambda>i v. v[i + 1 := h i]) [0..<n] (offs[0 := 0])))"
  then have k: "k < Suc n"
    by simp
  have "fold (\<lambda>i v. v[i + 1 := h i]) [0..<n] (offs[0 := 0]) ! k = (0 # map h [0..<n]) ! k"
  proof -
    have pos: "0 < length offs"
      using assms by linarith
    show ?thesis
      using k assms pos by (cases k) (simp_all add: fold_update_Suc_nth)
  qed
  then show "take (Suc n) (fold (\<lambda>i v. v[i + 1 := h i]) [0..<n] (offs[0 := 0])) ! k =
        (0 # map h [0..<n]) ! k"
    using k by simp
qed

lemma updateOffsets_Inr:
  assumes "CombinedOp_updateOffsets this = Inr this'"
  shows "height this' = co_offsets this' ! co_neq this"
    and "width this' = co_offsets this' ! co_neq this"
    and "co_offsets this' ! co_neq this = (\<Sum>i<co_neq this. op_Height (co_op this ! i))"
    and "co_op this' = co_op this" and "co_neq this' = co_neq this"
proof -
  let ?n = "co_neq this"
  let ?offs = "fold (\<lambda>i offsets. offsets[i + 1 := op_Height (co_op this ! i)]) [0..<?n]
                 ((co_offsets this)[0 := 0])"
  have len: "?n + 1 \<le> length (co_offsets this)"
    and t: "this' = this\<lparr>height := PartialSum ?offs ! ?n, width := PartialSum ?offs ! ?n,
                          co_offsets := PartialSum ?offs\<rparr>"
    using assms by (auto simp: CombinedOp_updateOffsets_def Let_def split: if_splits)
  show "height this' = co_offsets this' ! co_neq this" "width this' = co_offsets this' ! co_neq this"
    "co_op this' = co_op this" "co_neq this' = co_neq this"
    by (simp_all add: t)
  have "?n < length ?offs"
    using len by (simp add: fold_update_length)
  then have "PartialSum ?offs ! ?n = sum_list (take (Suc ?n) ?offs)"
    by (rule PartialSum_nth)
  also have "\<dots> = sum_list (0 # map (\<lambda>i. op_Height (co_op this ! i)) [0..<?n])"
    by (simp only: offsets_take [OF len])
  also have "\<dots> = (\<Sum>i<?n. op_Height (co_op this ! i))"
    by (simp add: interv_sum_list_conv_sum_set_nat atLeast0LessThan)
  finally show "co_offsets this' ! co_neq this = (\<Sum>i<co_neq this. op_Height (co_op this ! i))"
    by (simp add: t)
qed

lemma updateOffsets_returns:
  "co_neq this + 1 \<le> length (co_offsets this) \<Longrightarrow> co_neq this \<le> length (co_op this)
     \<Longrightarrow> \<exists>this'. CombinedOp_updateOffsets this = Inr this'"
  by (simp add: CombinedOp_updateOffsets_def Let_def)


lemma NLOperator_Update_Inr:
  assumes "NLOperator_Update fes x = Inr (x', c)"
  shows "x' = x\<lparr>height := VSize fes, width := 5 * VSize fes\<rparr>"
    and "c = map (\<lambda>n. (n, ''Update''))
               (concat (map (\<lambda>i. if nl_blf x ! i \<noteq> None then [blf_name i] else []) [0..<5]))"
    and "5 \<le> length (nl_blf x)"
  using assms
  by (auto simp: NLOperator_Update_def map_concat comp_def if_distrib [of "map _"]
      split: if_splits cong: if_cong)

lemmas Update_defs =
  NeutralDensityOp_Update_def IonDensityOp_Update_def IonMomentumOp_Update_def
  IonStaticPressureOp_Update_def ElectronStaticPressureOp_Update_def
  Update_if_def owned_if_def op_owned_forms_def

lemma op_Update_Inr:
  assumes "op_Update fes x = Inr (x', c)"
  shows "op_Height x' = VSize fes \<and> op_Width x' = 5 * VSize fes
       \<and> (\<forall>f\<in>set (op_owned_forms x). (f, ''Update'') \<in> set c)
       \<and> (\<forall>g\<in>set (op_owned_gfs x). (g, ''Update'') \<in> set c)"
proof (cases x)
  case (NeutralDensity a)
  then obtain b c0 where b: "NLOperator_Update fes a = Inr (b, c0)"
    and x': "x' = NeutralDensity b"
    and c: "c = c0 @ Update_if (nd_DGF b) ''DGF_'' @ Update_if (nd_SGF b) ''SGF_''"
    using assms by (auto simp: NeutralDensityOp_Update_def split: sum.splits)
  show ?thesis
    unfolding x' c NLOperator_Update_Inr(2) [OF b] NeutralDensity
    by (auto simp: NLOperator_Update_Inr(1) [OF b] Update_defs)
next
  case (IonDensity a)
  then obtain b c0 where b: "NLOperator_Update fes a = Inr (b, c0)"
    and x': "x' = IonDensity b"
    and c: "c = c0 @ Update_if (id_DPerpGF b) ''DPerpGF_'' @ Update_if (id_AGF b) ''AGF_''
                   @ Update_if (id_SGF b) ''SGF_''"
    using assms by (auto simp: IonDensityOp_Update_def split: sum.splits)
  show ?thesis
    unfolding x' c NLOperator_Update_Inr(2) [OF b] IonDensity
    by (auto simp: NLOperator_Update_Inr(1) [OF b] Update_defs)
next
  case (IonMomentum a)
  then obtain b c0 where b: "NLOperator_Update fes a = Inr (b, c0)"
    and x': "x' = IonMomentum b"
    and c: "c = c0 @ Update_if (im_EtaParaGF b) ''EtaParaGF_'' @ Update_if (im_EtaPerpGF b) ''EtaPerpGF_''
                   @ Update_if (im_MomParaGF b) ''MomParaGF_'' @ Update_if (im_SGF b) ''SGF_''"
    using assms by (auto simp: IonMomentumOp_Update_def split: sum.splits)
  show ?thesis
    unfolding x' c NLOperator_Update_Inr(2) [OF b] IonMomentum
    by (auto simp: NLOperator_Update_Inr(1) [OF b] Update_defs)
next
  case (IonStaticPressure a)
  then obtain b c0 where b: "NLOperator_Update fes a = Inr (b, c0)"
    and x': "x' = IonStaticPressure b"
    and c: "c = c0 @ [(''ChiParaGF_'', ''Update''), (''ChiPerpGF_'', ''Update'')]"
    using assms by (auto simp: IonStaticPressureOp_Update_def split: sum.splits if_splits)
  show ?thesis
    unfolding x' c NLOperator_Update_Inr(2) [OF b] IonStaticPressure
    by (auto simp: NLOperator_Update_Inr(1) [OF b] Update_defs)
next
  case (ElectronStaticPressure a)
  then obtain b c0 where b: "NLOperator_Update fes a = Inr (b, c0)"
    and x': "x' = ElectronStaticPressure b"
    and c: "c = c0 @ [(''ChiParaGF_'', ''Update''), (''ChiPerpGF_'', ''Update'')]"
    using assms by (auto simp: ElectronStaticPressureOp_Update_def split: sum.splits if_splits)
  show ?thesis
    unfolding x' c NLOperator_Update_Inr(2) [OF b] ElectronStaticPressure
    by (auto simp: NLOperator_Update_Inr(1) [OF b] Update_defs)
next
  case (Dummy a)
  then have b: "NLOperator_Update fes a = Inr (case x' of Dummy b \<Rightarrow> b, c)" and x': "x' = Dummy (case x' of Dummy b \<Rightarrow> b)"
    using assms by (cases "NLOperator_Update fes a"; auto)+
  show ?thesis
    using NLOperator_Update_Inr(1,2) [OF b] x' Dummy
    by (cases x') (auto simp: Update_defs)
qed

lemma op_Update_returns:
  assumes "5 \<le> length (op_blf x)" "op_gfs_allocated x"
  shows "\<exists>r. op_Update fes x = Inr r"
  using assms
  by (cases x) (auto simp: NLOperator_Update_def Update_defs)


lemma ops_Update_Inr:
  assumes "ops_Update fes idx (ops, calls) = Inr (ops', calls')" and "distinct idx"
  shows "length ops' = length ops \<and> set calls \<subseteq> set calls'
       \<and> (\<forall>i\<in>set idx. i < length ops
             \<and> (\<exists>c. op_Update fes (ops ! i) = Inr (ops' ! i, c) \<and> set c \<subseteq> set calls'))
       \<and> (\<forall>i. i \<notin> set idx \<longrightarrow> ops' ! i = ops ! i)"
  using assms
proof (induction idx arbitrary: ops calls)
  case Nil
  then show ?case by simp
next
  case (Cons i rest)
  from Cons.prems obtain x c where i: "i < length ops"
    and x: "op_Update fes (ops ! i) = Inr (x, c)"
    and r: "ops_Update fes rest (ops[i := x], calls @ c) = Inr (ops', calls')"
    by (auto split: if_splits sum.splits)
  from Cons.prems have d: "distinct rest" and ni: "i \<notin> set rest"
    by simp_all
  from Cons.IH [OF r d]
  have len: "length ops' = length ops"
    and sub: "set (calls @ c) \<subseteq> set calls'"
    and upd: "\<forall>j\<in>set rest. j < length ops
               \<and> (\<exists>c'. op_Update fes ((ops[i := x]) ! j) = Inr (ops' ! j, c') \<and> set c' \<subseteq> set calls')"
    and keep: "\<forall>j. j \<notin> set rest \<longrightarrow> ops' ! j = (ops[i := x]) ! j"
    by simp_all
  have xi: "ops' ! i = x"
    using keep ni i by simp
  have here: "\<exists>c. op_Update fes (ops ! i) = Inr (ops' ! i, c) \<and> set c \<subseteq> set calls'"
    using x xi sub by auto
  have there: "j < length ops
      \<and> (\<exists>c'. op_Update fes (ops ! j) = Inr (ops' ! j, c') \<and> set c' \<subseteq> set calls')"
    if "j \<in> set rest" for j
  proof -
    have "j \<noteq> i" using that ni by auto
    moreover have "j < length ops
      \<and> (\<exists>c'. op_Update fes ((ops[i := x]) ! j) = Inr (ops' ! j, c') \<and> set c' \<subseteq> set calls')"
      using upd that by blast
    ultimately show ?thesis by simp
  qed
  have other: "ops' ! j = ops ! j" if "j \<notin> set (i # rest)" for j
    using keep that by simp
  show ?case
    using len sub i here there other by auto
qed

lemma op_Update_blf:
  assumes "op_Update fes x = Inr (x', c)"
  shows "op_blf x' = op_blf x \<and> op_gfs_allocated x' = op_gfs_allocated x"
  using assms
  by (cases x)
     (auto simp: NLOperator_Update_def Update_defs split: if_splits sum.splits)

lemma ops_Update_returns:
  assumes "\<forall>i\<in>set idx. i < length ops \<and> 5 \<le> length (op_blf (ops ! i)) \<and> op_gfs_allocated (ops ! i)"
  shows "\<exists>r. ops_Update fes idx (ops, calls) = Inr r"
  using assms
proof (induction idx arbitrary: ops calls)
  case Nil
  then show ?case by simp
next
  case (Cons i rest)
  then have i: "i < length ops" and l: "5 \<le> length (op_blf (ops ! i))"
    and g: "op_gfs_allocated (ops ! i)"
    by simp_all
  from op_Update_returns [OF l g] obtain x c where x: "op_Update fes (ops ! i) = Inr (x, c)"
    by (metis surj_pair)
  have "\<forall>j\<in>set rest. j < length (ops[i := x]) \<and> 5 \<le> length (op_blf ((ops[i := x]) ! j))
           \<and> op_gfs_allocated ((ops[i := x]) ! j)"
  proof
    fix j assume j: "j \<in> set rest"
    then have "j < length ops" "5 \<le> length (op_blf (ops ! j))" "op_gfs_allocated (ops ! j)"
      using Cons.prems by simp_all
    then show "j < length (ops[i := x]) \<and> 5 \<le> length (op_blf ((ops[i := x]) ! j))
           \<and> op_gfs_allocated ((ops[i := x]) ! j)"
      using op_Update_blf [OF x] l g by (cases "j = i") simp_all
  qed
  from Cons.IH [OF this] show ?case
    using i x by simp
qed

lemma CombinedOp_Update_Inr:
  assumes "CombinedOp_Update fes this = Inr (this', calls)"
  shows "height this' = width this' \<and> height this' = co_offsets this' ! co_neq this'
       \<and> height this' = (\<Sum>i<co_neq this'. op_Height (co_op this' ! i))
       \<and> height this' = co_neq this' * VSize fes
       \<and> co_neq this' = co_neq this
       \<and> (\<forall>i<co_neq this.
             op_Height (co_op this' ! i) = VSize fes
           \<and> (\<forall>f\<in>set (op_owned_forms (co_op this ! i)). (f, ''Update'') \<in> set calls)
           \<and> (\<forall>g\<in>set (op_owned_gfs (co_op this ! i)). (g, ''Update'') \<in> set calls))"
proof -
  obtain ops where u: "ops_Update fes [0..<co_neq this] (co_op this, []) = Inr (ops, calls)"
    and o: "CombinedOp_updateOffsets (this\<lparr>co_op := ops\<rparr>) = Inr this'"
    using assms by (auto simp: CombinedOp_Update_def split: sum.splits)
  from ops_Update_Inr [OF u]
  have each: "\<forall>i\<in>set [0..<co_neq this].
      (\<exists>c. op_Update fes (co_op this ! i) = Inr (ops ! i, c) \<and> set c \<subseteq> set calls)"
    by simp
  have ops: "co_op this' = ops" and neq: "co_neq this' = co_neq this"
    using updateOffsets_Inr(4,5) [OF o] by simp_all
  have per: "op_Height (co_op this' ! i) = VSize fes
           \<and> (\<forall>f\<in>set (op_owned_forms (co_op this ! i)). (f, ''Update'') \<in> set calls)
           \<and> (\<forall>g\<in>set (op_owned_gfs (co_op this ! i)). (g, ''Update'') \<in> set calls)"
    if "i < co_neq this" for i
  proof -
    have "\<exists>c. op_Update fes (co_op this ! i) = Inr (ops ! i, c) \<and> set c \<subseteq> set calls"
      using each that by simp
    then obtain c where c: "op_Update fes (co_op this ! i) = Inr (ops ! i, c)" and s: "set c \<subseteq> set calls"
      by blast
    from op_Update_Inr [OF c] s show ?thesis
      by (auto simp: ops)
  qed
  have "height this' = (\<Sum>i<co_neq this'. op_Height (co_op this' ! i))"
    using updateOffsets_Inr(1,3) [OF o] by (simp add: ops neq)
  moreover have "(\<Sum>i<co_neq this'. op_Height (co_op this' ! i)) = co_neq this' * VSize fes"
    using per by (simp add: neq)
  moreover have "height this' = width this'" "height this' = co_offsets this' ! co_neq this'"
    using updateOffsets_Inr(1,2) [OF o] by (simp_all add: neq)
  ultimately show ?thesis
    using per neq by auto
qed

lemma CombinedOp_Update_returns:
  assumes "co_neq this \<le> length (co_op this)" "co_neq this + 1 \<le> length (co_offsets this)"
    and "\<forall>i<co_neq this. 5 \<le> length (op_blf (co_op this ! i)) \<and> op_gfs_allocated (co_op this ! i)"
  shows "\<exists>r. CombinedOp_Update fes this = Inr r"
proof -
  have "\<forall>i\<in>set [0..<co_neq this]. i < length (co_op this)
          \<and> 5 \<le> length (op_blf (co_op this ! i)) \<and> op_gfs_allocated (co_op this ! i)"
    using assms(1,3) by auto
  from ops_Update_returns [OF this] obtain ops calls where
    u: "ops_Update fes [0..<co_neq this] (co_op this, []) = Inr (ops, calls)"
    by (metis surj_pair)
  have "length ops = length (co_op this)"
    using ops_Update_Inr [OF u] by simp
  then obtain this' where "CombinedOp_updateOffsets (this\<lparr>co_op := ops\<rparr>) = Inr this'"
    using updateOffsets_returns [of "this\<lparr>co_op := ops\<rparr>"] assms(1,2) by auto
  then show ?thesis
    using u by (simp add: CombinedOp_Update_def)
qed

lemma DGTransportTDO_Update_Inr:
  assumes "DGTransportTDO_Update ffes fes this = Inr (this', calls)"
  shows "tr_height this' = VSize ffes \<and> tr_width this' = VSize ffes
       \<and> (''BxyGF_'', ''Update'') \<in> set calls \<and> (''BzGF_'', ''Update'') \<in> set calls
       \<and> (\<exists>c. CombinedOp_Update fes (tr_op this) = Inr (tr_op this', c) \<and> set c \<subseteq> set calls)"
  using assms
  by (auto simp: DGTransportTDO_Update_def Let_def split: if_splits sum.splits)

lemma DGTransportTDO_Update_returns:
  assumes "tr_BxyGF this \<noteq> None" "tr_BzGF this \<noteq> None"
    and "\<exists>r. CombinedOp_Update fes (tr_op this) = Inr r"
  shows "\<exists>r. DGTransportTDO_Update ffes fes this = Inr r"
  using assms
  by (auto simp: DGTransportTDO_Update_def Let_def split: sum.splits)

lemma DGAdvectionDiffusionTDO_Update_Inr:
  assumes "DGAdvectionDiffusionTDO_Update fes this = Inr (this', calls)"
  shows "height this' = VSize fes \<and> width this' = VSize fes
       \<and> ad_RHS this' = TrueVSize fes \<and> ad_X this' = TrueVSize fes
       \<and> (\<forall>f\<in>set (DGAdvectionDiffusionTDO_owned this). (f, ''Update'') \<in> set calls)"
  using assms
  by (auto simp: DGAdvectionDiffusionTDO_Update_def DGAdvectionDiffusionTDO_owned_def Let_def
      split: option.splits if_splits)

lemma DGAdvectionDiffusionTDO_Update_returns:
  "ad_a this \<noteq> None \<Longrightarrow> \<exists>r. DGAdvectionDiffusionTDO_Update fes this = Inr r"
  by (auto simp: DGAdvectionDiffusionTDO_Update_def Let_def split: option.splits)


text \<open>
  Claim C8. After a call to \<^verbatim>\<open>Update\<close> the height and the width of the operator
  are equal and are the current size of its space.
  \<^verbatim>\<open>DGAdvectionDiffusionTDO::Update\<close> sets both to \<^verbatim>\<open>fes_->GetVSize()\<close> and
  resizes \<^verbatim>\<open>RHS_\<close> and \<^verbatim>\<open>X_\<close> to \<^verbatim>\<open>fes_->GetTrueVSize()\<close>;
  \<^verbatim>\<open>DGTransportTDO::Update\<close> sets both to \<^verbatim>\<open>ffes_.GetVSize()\<close>;
  \<^verbatim>\<open>CombinedOp::Update\<close> updates each of its operators and then sets both to
  \<^verbatim>\<open>offsets_[neq_]\<close>, the sum of the heights of the operators. In each case
  \<^verbatim>\<open>Update\<close> has been called on every form and grid function the operator owns
  and has allocated. Each function returns when the pointers it dereferences
  without a test are allocated and the arrays hold what the loops index.
\<close>

theorem Update_sizes:
  "(DGAdvectionDiffusionTDO_Update fes a = Inr (a', ca) \<longrightarrow>
      height a' = width a' \<and> height a' = VSize fes
      \<and> ad_RHS a' = TrueVSize fes \<and> ad_X a' = TrueVSize fes
      \<and> (\<forall>f\<in>set (DGAdvectionDiffusionTDO_owned a). (f, ''Update'') \<in> set ca))
   \<and> (DGTransportTDO_Update ffes fes t = Inr (t', ct) \<longrightarrow>
      tr_height t' = tr_width t' \<and> tr_height t' = VSize ffes
      \<and> (''BxyGF_'', ''Update'') \<in> set ct \<and> (''BzGF_'', ''Update'') \<in> set ct
      \<and> (\<exists>c. CombinedOp_Update fes (tr_op t) = Inr (tr_op t', c) \<and> set c \<subseteq> set ct))
   \<and> (CombinedOp_Update fes co = Inr (co', cc) \<longrightarrow>
      height co' = width co' \<and> height co' = co_offsets co' ! co_neq co'
      \<and> height co' = (\<Sum>i<co_neq co'. op_Height (co_op co' ! i))
      \<and> height co' = co_neq co' * VSize fes
      \<and> co_neq co' = co_neq co
      \<and> (\<forall>i<co_neq co.
            op_Height (co_op co' ! i) = VSize fes
          \<and> (\<forall>f\<in>set (op_owned_forms (co_op co ! i)). (f, ''Update'') \<in> set cc)
          \<and> (\<forall>g\<in>set (op_owned_gfs (co_op co ! i)). (g, ''Update'') \<in> set cc)))
   \<and> (ad_a a \<noteq> None \<longrightarrow> (\<exists>r. DGAdvectionDiffusionTDO_Update fes a = Inr r))
   \<and> (tr_BxyGF t \<noteq> None \<and> tr_BzGF t \<noteq> None
        \<and> (\<exists>r. CombinedOp_Update fes (tr_op t) = Inr r)
      \<longrightarrow> (\<exists>r. DGTransportTDO_Update ffes fes t = Inr r))
   \<and> (co_neq co \<le> length (co_op co) \<and> co_neq co + 1 \<le> length (co_offsets co)
        \<and> (\<forall>i<co_neq co. 5 \<le> length (op_blf (co_op co ! i)) \<and> op_gfs_allocated (co_op co ! i))
      \<longrightarrow> (\<exists>r. CombinedOp_Update fes co = Inr r))"
proof (intro conjI impI)
  assume r: "DGAdvectionDiffusionTDO_Update fes a = Inr (a', ca)"
  from DGAdvectionDiffusionTDO_Update_Inr [OF r]
  show "height a' = width a'" "height a' = VSize fes" "ad_RHS a' = TrueVSize fes"
    "ad_X a' = TrueVSize fes"
    "\<forall>f\<in>set (DGAdvectionDiffusionTDO_owned a). (f, ''Update'') \<in> set ca"
    by simp_all
next
  assume r: "DGTransportTDO_Update ffes fes t = Inr (t', ct)"
  from DGTransportTDO_Update_Inr [OF r]
  show "tr_height t' = tr_width t'" "tr_height t' = VSize ffes"
    "(''BxyGF_'', ''Update'') \<in> set ct" "(''BzGF_'', ''Update'') \<in> set ct"
    "\<exists>c. CombinedOp_Update fes (tr_op t) = Inr (tr_op t', c) \<and> set c \<subseteq> set ct"
    by simp_all
next
  assume r: "CombinedOp_Update fes co = Inr (co', cc)"
  from CombinedOp_Update_Inr [OF r]
  show "height co' = width co'" "height co' = co_offsets co' ! co_neq co'"
    "height co' = (\<Sum>i<co_neq co'. op_Height (co_op co' ! i))"
    "height co' = co_neq co' * VSize fes"
    "co_neq co' = co_neq co"
    "\<forall>i<co_neq co.
            op_Height (co_op co' ! i) = VSize fes
          \<and> (\<forall>f\<in>set (op_owned_forms (co_op co ! i)). (f, ''Update'') \<in> set cc)
          \<and> (\<forall>g\<in>set (op_owned_gfs (co_op co ! i)). (g, ''Update'') \<in> set cc)"
    by blast+
next
  assume "ad_a a \<noteq> None"
  then show "\<exists>r. DGAdvectionDiffusionTDO_Update fes a = Inr r"
    by (rule DGAdvectionDiffusionTDO_Update_returns)
next
  assume b: "tr_BxyGF t \<noteq> None \<and> tr_BzGF t \<noteq> None
        \<and> (\<exists>r. CombinedOp_Update fes (tr_op t) = Inr r)"
  show "\<exists>r. DGTransportTDO_Update ffes fes t = Inr r"
    by (rule DGTransportTDO_Update_returns) (use b in simp_all)
next
  assume c: "co_neq co \<le> length (co_op co) \<and> co_neq co + 1 \<le> length (co_offsets co)
        \<and> (\<forall>i<co_neq co. 5 \<le> length (op_blf (co_op co ! i)) \<and> op_gfs_allocated (co_op co ! i))"
  show "\<exists>r. CombinedOp_Update fes co = Inr r"
    by (rule CombinedOp_Update_returns) (use c in simp_all)
qed

theorem Update_sizes_witness:
  "(\<exists>a' ca.
       DGAdvectionDiffusionTDO_Update \<lparr>VSize = 12, TrueVSize = 12\<rparr>
         ((DGAdvectionDiffusionTDO_ctor \<lparr>VSize = 8, TrueVSize = 8\<rparr> True)
            \<lparr>ad_a := Some 1, ad_k := Some 2\<rparr>) = Inr (a', ca)
     \<and> height a' = 12 \<and> width a' = 12 \<and> ad_RHS a' = 12 \<and> ad_X a' = 12
     \<and> (''m_'', ''Update'') \<in> set ca \<and> (''a_'', ''Update'') \<in> set ca
     \<and> (''k_'', ''Update'') \<in> set ca \<and> (''rhs_'', ''Update'') \<in> set ca)
   \<and> (\<exists>t' ct.
       DGTransportTDO_Update \<lparr>VSize = 60, TrueVSize = 60\<rparr> \<lparr>VSize = 12, TrueVSize = 12\<rparr>
         example_DGTransportTDO = Inr (t', ct)
     \<and> tr_height t' = 60 \<and> tr_width t' = 60
     \<and> (''BxyGF_'', ''Update'') \<in> set ct \<and> (''BzGF_'', ''Update'') \<in> set ct)
   \<and> (\<exists>co' cc.
       CombinedOp_Update \<lparr>VSize = 12, TrueVSize = 12\<rparr> example_CombinedOp = Inr (co', cc)
     \<and> height co' = 60 \<and> width co' = 60 \<and> co_offsets co' ! 5 = 60
     \<and> op_Height (co_op co' ! 0) = 12
     \<and> (''blf_[0]'', ''Update'') \<in> set cc \<and> (''ChiParaGF_'', ''Update'') \<in> set cc)"
proof -
  let ?fes = "\<lparr>VSize = 12, TrueVSize = 12\<rparr>"
  let ?ffes = "\<lparr>VSize = 60, TrueVSize = 60\<rparr>"
  let ?a = "(DGAdvectionDiffusionTDO_ctor \<lparr>VSize = 8, TrueVSize = 8\<rparr> True)
            \<lparr>ad_a := Some 1, ad_k := Some 2\<rparr>"
  note inst = Update_sizes [where fes = ?fes and ffes = ?ffes and a = ?a
      and t = example_DGTransportTDO and co = example_CombinedOp]
  have pa: "ad_a ?a \<noteq> None"
    by simp
  have pc: "co_neq example_CombinedOp \<le> length (co_op example_CombinedOp)
        \<and> co_neq example_CombinedOp + 1 \<le> length (co_offsets example_CombinedOp)
        \<and> (\<forall>i<co_neq example_CombinedOp.
              5 \<le> length (op_blf (co_op example_CombinedOp ! i))
            \<and> op_gfs_allocated (co_op example_CombinedOp ! i))"
    by (simp add: example_CombinedOp_def less_Suc_eq eval_nat_numeral)
  have n: "co_neq example_CombinedOp = 5"
    by (simp add: example_CombinedOp_def)
  from inst [THEN conjunct2, THEN conjunct2, THEN conjunct2, THEN conjunct1] pa
  obtain a' ca where ra: "DGAdvectionDiffusionTDO_Update ?fes ?a = Inr (a', ca)"
    by (metis surj_pair)
  from inst [THEN conjunct2, THEN conjunct2, THEN conjunct2, THEN conjunct2, THEN conjunct2] pc
  obtain co' cc where rc: "CombinedOp_Update ?fes example_CombinedOp = Inr (co', cc)"
    by (metis surj_pair)
  have pt: "tr_BxyGF example_DGTransportTDO \<noteq> None \<and> tr_BzGF example_DGTransportTDO \<noteq> None
        \<and> (\<exists>r. CombinedOp_Update ?fes (tr_op example_DGTransportTDO) = Inr r)"
    using rc by (simp add: example_DGTransportTDO_def)
  from inst [THEN conjunct2, THEN conjunct2, THEN conjunct2, THEN conjunct2, THEN conjunct1] pt
  obtain t' ct where rt: "DGTransportTDO_Update ?ffes ?fes example_DGTransportTDO = Inr (t', ct)"
    by (metis surj_pair)
  from Update_sizes [where fes = ?fes and a = ?a and a' = a' and ca = ca, THEN conjunct1] ra
  have 1: "height a' = 12 \<and> width a' = 12 \<and> ad_RHS a' = 12 \<and> ad_X a' = 12
     \<and> (''m_'', ''Update'') \<in> set ca \<and> (''a_'', ''Update'') \<in> set ca
     \<and> (''k_'', ''Update'') \<in> set ca \<and> (''rhs_'', ''Update'') \<in> set ca"
    by (simp add: DGAdvectionDiffusionTDO_owned_def DGAdvectionDiffusionTDO_ctor_def)
  from Update_sizes [where fes = ?fes and ffes = ?ffes and t = example_DGTransportTDO
      and t' = t' and ct = ct, THEN conjunct2, THEN conjunct1] rt
  have 2: "tr_height t' = 60 \<and> tr_width t' = 60
     \<and> (''BxyGF_'', ''Update'') \<in> set ct \<and> (''BzGF_'', ''Update'') \<in> set ct"
    by simp
  from Update_sizes [where fes = ?fes and co = example_CombinedOp and co' = co' and cc = cc,
      THEN conjunct2, THEN conjunct2, THEN conjunct1] rc
  have c: "height co' = width co'" "height co' = co_offsets co' ! co_neq co'"
    "height co' = co_neq co' * 12" "co_neq co' = 5"
    and per: "\<forall>i<5. op_Height (co_op co' ! i) = 12
          \<and> (\<forall>f\<in>set (op_owned_forms (co_op example_CombinedOp ! i)). (f, ''Update'') \<in> set cc)
          \<and> (\<forall>g\<in>set (op_owned_gfs (co_op example_CombinedOp ! i)). (g, ''Update'') \<in> set cc)"
    by (auto simp: n)
  have f0: "''blf_[0]'' \<in> set (op_owned_forms (co_op example_CombinedOp ! 0))"
    by (simp add: example_CombinedOp_def op_owned_forms_def blf_name_def upt_0_5)
  have g3: "''ChiParaGF_'' \<in> set (op_owned_gfs (co_op example_CombinedOp ! 3))"
    by (simp add: example_CombinedOp_def owned_if_def)
  have 3: "height co' = 60 \<and> width co' = 60 \<and> co_offsets co' ! 5 = 60
     \<and> op_Height (co_op co' ! 0) = 12
     \<and> (''blf_[0]'', ''Update'') \<in> set cc \<and> (''ChiParaGF_'', ''Update'') \<in> set cc"
    using c per [rule_format, of 0] per [rule_format, of 3] f0 g3 by auto
  show ?thesis
    using ra 1 rt 2 rc 3 by blast
qed

section \<open>The ex1lor driver\<close>

lemmas main_defs = main_def select_pc_def solve_def save_and_send_def choose_fec_def

lemma select_pc_None:
  "select_pc t = None \<longleftrightarrow> t \<notin> {''gko:bj'', ''gko:ilu'', ''mfem:gs'', ''none''}"
  by (simp add: select_pc_def)

lemma main_rejects:
  assumes "pc_type opts \<notin> {''gko:bj'', ''gko:ilu'', ''mfem:gs'', ''none''}"
  shows "main mesh (Parsed opts) =
           (3, [PrintOptions opts, mfem_error ''Invalid Preconditioner specified''])"
  using assms by (simp add: main_def select_pc_def)

lemma main_accepts:
  assumes "pc_type opts \<in> {''gko:bj'', ''gko:ilu'', ''mfem:gs'', ''none''}"
  shows "fst (main mesh (Parsed opts)) = 0"
    and "\<forall>m. mfem_error m \<notin> set (snd (main mesh (Parsed opts)))"
  using assms by (auto simp: main_defs split: prod.splits if_splits)

lemma main_mfem_error_message:
  assumes "mfem_error m \<in> set (snd (main mesh parsed))"
  shows "m = ''Invalid Preconditioner specified''"
  using assms
  by (cases parsed) (auto simp: main_defs split: option.splits prod.splits if_splits)

lemma main_solver:
  "pc_type opts = ''gko:bj'' \<Longrightarrow>
     pcg_solve (GinkgoJacobiPreconditioner (pc_storage_opt opts) (pc_acc opts) (pc_max_bs opts))
       \<in> set (snd (main mesh (Parsed opts)))"
  "pc_type opts = ''gko:ilu'' \<Longrightarrow>
     pcg_solve GinkgoIluPreconditioner \<in> set (snd (main mesh (Parsed opts)))"
  "pc_type opts = ''mfem:gs'' \<Longrightarrow>
     pcg_solve GSSmoother \<in> set (snd (main mesh (Parsed opts)))"
  "pc_type opts = ''none'' \<Longrightarrow>
     cg_solve \<in> set (snd (main mesh (Parsed opts)))
     \<and> (\<forall>p. pcg_solve p \<notin> set (snd (main mesh (Parsed opts))))
     \<and> (\<forall>p. NewPreconditioner p \<notin> set (snd (main mesh (Parsed opts))))"
  by (auto simp: main_defs split: prod.splits if_splits)


text \<open>
  Claim C1. Once the command line has parsed, the preconditioner type is accepted
  exactly when it is one of \<^verbatim>\<open>gko:bj\<close>, \<^verbatim>\<open>gko:ilu\<close>, \<^verbatim>\<open>mfem:gs\<close> and \<^verbatim>\<open>none\<close>,
  which select the Ginkgo block Jacobi preconditioner, the Ginkgo ILU
  preconditioner, the MFEM Gauss-Seidel smoother and no preconditioner; for any
  other string \<^verbatim>\<open>main\<close> calls \<^verbatim>\<open>mfem_error("Invalid Preconditioner specified")\<close>
  and returns, and \<^verbatim>\<open>main\<close> makes no other call of \<^verbatim>\<open>mfem_error\<close>.
\<close>

theorem pc_type_accepted:
  "(select_pc (pc_type opts) \<noteq> None
      \<longleftrightarrow> pc_type opts \<in> {''gko:bj'', ''gko:ilu'', ''mfem:gs'', ''none''})
   \<and> select_pc ''gko:bj'' = Some (GKO_BLOCK_JACOBI, True)
   \<and> select_pc ''gko:ilu'' = Some (GKO_ILU, True)
   \<and> select_pc ''mfem:gs'' = Some (MFEM_GS, True)
   \<and> select_pc ''none'' = Some (NONE, False)
   \<and> (pc_type opts \<in> {''gko:bj'', ''gko:ilu'', ''mfem:gs'', ''none''} \<longrightarrow>
        fst (main mesh (Parsed opts)) = 0
        \<and> (\<forall>m. mfem_error m \<notin> set (snd (main mesh (Parsed opts)))))
   \<and> (pc_type opts \<notin> {''gko:bj'', ''gko:ilu'', ''mfem:gs'', ''none''} \<longrightarrow>
        main mesh (Parsed opts) =
          (3, [PrintOptions opts, mfem_error ''Invalid Preconditioner specified'']))
   \<and> (pc_type opts = ''gko:bj'' \<longrightarrow>
        pcg_solve (GinkgoJacobiPreconditioner (pc_storage_opt opts) (pc_acc opts) (pc_max_bs opts))
          \<in> set (snd (main mesh (Parsed opts))))
   \<and> (pc_type opts = ''gko:ilu'' \<longrightarrow>
        pcg_solve GinkgoIluPreconditioner \<in> set (snd (main mesh (Parsed opts))))
   \<and> (pc_type opts = ''mfem:gs'' \<longrightarrow>
        pcg_solve GSSmoother \<in> set (snd (main mesh (Parsed opts))))
   \<and> (pc_type opts = ''none'' \<longrightarrow>
        cg_solve \<in> set (snd (main mesh (Parsed opts)))
        \<and> (\<forall>p. pcg_solve p \<notin> set (snd (main mesh (Parsed opts))))
        \<and> (\<forall>p. NewPreconditioner p \<notin> set (snd (main mesh (Parsed opts)))))
   \<and> (\<forall>m. mfem_error m \<in> set (snd (main mesh parsed))
          \<longrightarrow> m = ''Invalid Preconditioner specified'')"
proof (intro conjI impI allI)
  show "select_pc (pc_type opts) \<noteq> None
      \<longleftrightarrow> pc_type opts \<in> {''gko:bj'', ''gko:ilu'', ''mfem:gs'', ''none''}"
    using select_pc_None [of "pc_type opts"] by (cases "select_pc (pc_type opts)") simp_all
  show "select_pc ''gko:bj'' = Some (GKO_BLOCK_JACOBI, True)"
    "select_pc ''gko:ilu'' = Some (GKO_ILU, True)"
    "select_pc ''mfem:gs'' = Some (MFEM_GS, True)"
    "select_pc ''none'' = Some (NONE, False)"
    by (simp_all add: select_pc_def)
next
  assume a: "pc_type opts \<in> {''gko:bj'', ''gko:ilu'', ''mfem:gs'', ''none''}"
  show "fst (main mesh (Parsed opts)) = 0"
    by (rule main_accepts(1) [OF a])
  show "mfem_error m \<notin> set (snd (main mesh (Parsed opts)))" for m
    using main_accepts(2) [OF a] by blast
next
  assume "pc_type opts \<notin> {''gko:bj'', ''gko:ilu'', ''mfem:gs'', ''none''}"
  then show "main mesh (Parsed opts) =
          (3, [PrintOptions opts, mfem_error ''Invalid Preconditioner specified''])"
    by (rule main_rejects)
next
  assume "pc_type opts = ''gko:bj''"
  then show "pcg_solve (GinkgoJacobiPreconditioner (pc_storage_opt opts) (pc_acc opts) (pc_max_bs opts))
          \<in> set (snd (main mesh (Parsed opts)))"
    by (rule main_solver(1))
next
  assume "pc_type opts = ''gko:ilu''"
  then show "pcg_solve GinkgoIluPreconditioner \<in> set (snd (main mesh (Parsed opts)))"
    by (rule main_solver(2))
next
  assume "pc_type opts = ''mfem:gs''"
  then show "pcg_solve GSSmoother \<in> set (snd (main mesh (Parsed opts)))"
    by (rule main_solver(3))
next
  assume n: "pc_type opts = ''none''"
  show "cg_solve \<in> set (snd (main mesh (Parsed opts)))"
    using main_solver(4) [OF n] by blast
  show "pcg_solve p \<notin> set (snd (main mesh (Parsed opts)))" for p
    using main_solver(4) [OF n] by blast
  show "NewPreconditioner p \<notin> set (snd (main mesh (Parsed opts)))" for p
    using main_solver(4) [OF n] by blast
next
  fix m assume "mfem_error m \<in> set (snd (main mesh parsed))"
  then show "m = ''Invalid Preconditioner specified''"
    by (rule main_mfem_error_message)
qed

theorem pc_type_accepted_witness:
  "pc_type (default_options\<lparr>pc_type := ''jacobi''\<rparr>) \<notin> {''gko:bj'', ''gko:ilu'', ''mfem:gs'', ''none''}
   \<and> main \<lparr>ref_levels = 2, has_nodes = False\<rparr> (Parsed (default_options\<lparr>pc_type := ''jacobi''\<rparr>)) =
       (3, [PrintOptions (default_options\<lparr>pc_type := ''jacobi''\<rparr>),
            mfem_error ''Invalid Preconditioner specified''])
   \<and> pc_type default_options = ''gko:bj''
   \<and> fst (main \<lparr>ref_levels = 2, has_nodes = False\<rparr> (Parsed default_options)) = 0
   \<and> pcg_solve (GinkgoJacobiPreconditioner ''auto'' (1 / 10) 32)
        \<in> set (snd (main \<lparr>ref_levels = 2, has_nodes = False\<rparr> (Parsed default_options)))
   \<and> pc_type (default_options\<lparr>pc_type := ''none''\<rparr>) = ''none''
   \<and> cg_solve \<in> set (snd (main \<lparr>ref_levels = 2, has_nodes = False\<rparr>
                                (Parsed (default_options\<lparr>pc_type := ''none''\<rparr>))))"
  using pc_type_accepted [of "default_options\<lparr>pc_type := ''jacobi''\<rparr>"
      "\<lparr>ref_levels = 2, has_nodes = False\<rparr>"]
    pc_type_accepted [of default_options "\<lparr>ref_levels = 2, has_nodes = False\<rparr>"]
    pc_type_accepted [of "default_options\<lparr>pc_type := ''none''\<rparr>"
      "\<lparr>ref_levels = 2, has_nodes = False\<rparr>"]
  by (simp add: default_options_def)

text \<open>
  Claim C2, as amended. A run that completes the solve writes no file: the writes
  of \<^verbatim>\<open>refined.mesh\<close> and \<^verbatim>\<open>sol.gf\<close> (and of the two files of the low-order
  refined mesh and matrix) are guarded by \<^verbatim>\<open>output_mesh\<close>, which is \<^verbatim>\<open>false\<close>.
  It sends the solution to the socket \<^verbatim>\<open>localhost:19916\<close> exactly when the
  visualisation is enabled, and opens no other socket.
\<close>

theorem no_file_written:
  "\<not> output_mesh
   \<and> (WriteFile ''refined.mesh'' \<in> set (snd (main mesh (Parsed opts)))
        \<longleftrightarrow> output_mesh \<and> fst (main mesh (Parsed opts)) = 0)
   \<and> (WriteFile ''sol.gf'' \<in> set (snd (main mesh (Parsed opts)))
        \<longleftrightarrow> output_mesh \<and> fst (main mesh (Parsed opts)) = 0)
   \<and> (\<forall>f. WriteFile f \<notin> set (snd (main mesh parsed)))
   \<and> (fst (main mesh (Parsed opts)) = 0 \<longrightarrow>
        RecoverFEMSolution \<in> set (snd (main mesh (Parsed opts)))
        \<and> (SocketSend ''localhost'' 19916 \<in> set (snd (main mesh (Parsed opts)))
             \<longleftrightarrow> visualization opts))
   \<and> (\<forall>h p. SocketSend h p \<in> set (snd (main mesh parsed)) \<longrightarrow> h = ''localhost'' \<and> p = 19916)"
proof (intro conjI allI impI)
  show "\<not> output_mesh"
    by (simp add: output_mesh_def)
  show "WriteFile ''refined.mesh'' \<in> set (snd (main mesh (Parsed opts)))
        \<longleftrightarrow> output_mesh \<and> fst (main mesh (Parsed opts)) = 0"
    by (auto simp: main_defs split: option.splits prod.splits if_splits)
  show "WriteFile ''sol.gf'' \<in> set (snd (main mesh (Parsed opts)))
        \<longleftrightarrow> output_mesh \<and> fst (main mesh (Parsed opts)) = 0"
    by (auto simp: main_defs split: option.splits prod.splits if_splits)
  show "WriteFile f \<notin> set (snd (main mesh parsed))" for f
    by (cases parsed)
       (auto simp: main_defs output_mesh_def split: option.splits prod.splits if_splits)
next
  assume "fst (main mesh (Parsed opts)) = 0"
  then show "RecoverFEMSolution \<in> set (snd (main mesh (Parsed opts)))"
    "SocketSend ''localhost'' 19916 \<in> set (snd (main mesh (Parsed opts))) \<longleftrightarrow> visualization opts"
    by (auto simp: main_defs output_mesh_def split: option.splits prod.splits if_splits)
next
  fix h p assume "SocketSend h p \<in> set (snd (main mesh parsed))"
  then show "h = ''localhost''" "p = 19916"
    by (cases parsed; auto simp: main_defs output_mesh_def split: option.splits prod.splits if_splits)+
qed

theorem no_file_written_witness:
  "fst (main \<lparr>ref_levels = 2, has_nodes = False\<rparr> (Parsed default_options)) = 0
   \<and> RecoverFEMSolution \<in> set (snd (main \<lparr>ref_levels = 2, has_nodes = False\<rparr> (Parsed default_options)))
   \<and> visualization default_options
   \<and> SocketSend ''localhost'' 19916
        \<in> set (snd (main \<lparr>ref_levels = 2, has_nodes = False\<rparr> (Parsed default_options)))
   \<and> fst (main \<lparr>ref_levels = 2, has_nodes = False\<rparr>
             (Parsed (default_options\<lparr>visualization := False\<rparr>))) = 0
   \<and> SocketSend ''localhost'' 19916
        \<notin> set (snd (main \<lparr>ref_levels = 2, has_nodes = False\<rparr>
                        (Parsed (default_options\<lparr>visualization := False\<rparr>))))"
  using no_file_written [of "\<lparr>ref_levels = 2, has_nodes = False\<rparr>" default_options]
    no_file_written [of "\<lparr>ref_levels = 2, has_nodes = False\<rparr>"
      "default_options\<lparr>visualization := False\<rparr>"]
  by (simp add: default_options_def main_defs)

text \<open>
  The claim as first stated has every completed run write \<^verbatim>\<open>refined.mesh\<close> and
  \<^verbatim>\<open>sol.gf\<close>. The run with the default options completes the solve and writes
  neither.
\<close>

theorem files_written_counterexample:
  "fst (main \<lparr>ref_levels = 2, has_nodes = False\<rparr> (Parsed default_options)) = 0
   \<and> RecoverFEMSolution \<in> set (snd (main \<lparr>ref_levels = 2, has_nodes = False\<rparr> (Parsed default_options)))
   \<and> WriteFile ''refined.mesh''
        \<notin> set (snd (main \<lparr>ref_levels = 2, has_nodes = False\<rparr> (Parsed default_options)))
   \<and> WriteFile ''sol.gf''
        \<notin> set (snd (main \<lparr>ref_levels = 2, has_nodes = False\<rparr> (Parsed default_options)))"
  by (simp add: default_options_def main_defs output_mesh_def)


text \<open>
  Claim C9, as amended. When the preconditioner type is not \<^verbatim>\<open>gko:bj\<close>, two runs
  that differ only in \<^verbatim>\<open>pc_storage_opt\<close>, \<^verbatim>\<open>pc_acc\<close> and \<^verbatim>\<open>pc_max_bs\<close> return the
  same value and ask the same of the library, with the same arguments and in the
  same order, after the first thing either of them does, which is to print its
  options, the three parameters among them; no block Jacobi preconditioner is
  built or used.
\<close>

theorem Jacobi_parameters_unused:
  assumes "pc_type opts \<noteq> ''gko:bj''"
  shows "fst (main mesh (Parsed (opts\<lparr>pc_storage_opt := so, pc_acc := acc, pc_max_bs := mbs\<rparr>)))
           = fst (main mesh (Parsed opts))
         \<and> hd (snd (main mesh (Parsed opts))) = PrintOptions opts
         \<and> hd (snd (main mesh (Parsed (opts\<lparr>pc_storage_opt := so, pc_acc := acc, pc_max_bs := mbs\<rparr>))))
           = PrintOptions (opts\<lparr>pc_storage_opt := so, pc_acc := acc, pc_max_bs := mbs\<rparr>)
         \<and> tl (snd (main mesh (Parsed (opts\<lparr>pc_storage_opt := so, pc_acc := acc, pc_max_bs := mbs\<rparr>))))
           = tl (snd (main mesh (Parsed opts)))
         \<and> (\<forall>s a b. NewPreconditioner (GinkgoJacobiPreconditioner s a b)
                       \<notin> set (snd (main mesh (Parsed opts)))
                  \<and> pcg_solve (GinkgoJacobiPreconditioner s a b)
                       \<notin> set (snd (main mesh (Parsed opts))))"
proof (intro conjI allI)
  let ?opts' = "opts\<lparr>pc_storage_opt := so, pc_acc := acc, pc_max_bs := mbs\<rparr>"
  have t: "pc_type ?opts' = pc_type opts"
    by simp
  show "fst (main mesh (Parsed ?opts')) = fst (main mesh (Parsed opts))"
    by (simp add: main_def split: option.splits prod.splits)
  show "hd (snd (main mesh (Parsed opts))) = PrintOptions opts"
    by (simp add: main_def split: option.splits prod.splits)
  show "hd (snd (main mesh (Parsed ?opts'))) = PrintOptions ?opts'"
    by (simp add: main_def split: option.splits prod.splits)
  show "tl (snd (main mesh (Parsed ?opts'))) = tl (snd (main mesh (Parsed opts)))"
    using assms
    by (auto simp: main_defs split: option.splits prod.splits if_splits)
  show "NewPreconditioner (GinkgoJacobiPreconditioner s a b) \<notin> set (snd (main mesh (Parsed opts)))"
    for s a b
    using assms
    by (auto simp: main_defs split: option.splits prod.splits if_splits)
  show "pcg_solve (GinkgoJacobiPreconditioner s a b) \<notin> set (snd (main mesh (Parsed opts)))"
    for s a b
    using assms
    by (auto simp: main_defs split: option.splits prod.splits if_splits)
qed

theorem Jacobi_parameters_unused_witness:
  "pc_type (default_options\<lparr>pc_type := ''gko:ilu''\<rparr>) \<noteq> ''gko:bj''
   \<and> fst (main \<lparr>ref_levels = 2, has_nodes = False\<rparr>
             (Parsed (default_options\<lparr>pc_type := ''gko:ilu'', pc_storage_opt := ''none'',
                                       pc_acc := 1 / 5, pc_max_bs := 16\<rparr>))) = 0
   \<and> tl (snd (main \<lparr>ref_levels = 2, has_nodes = False\<rparr>
             (Parsed (default_options\<lparr>pc_type := ''gko:ilu'', pc_storage_opt := ''none'',
                                       pc_acc := 1 / 5, pc_max_bs := 16\<rparr>))))
       = tl (snd (main \<lparr>ref_levels = 2, has_nodes = False\<rparr>
                    (Parsed (default_options\<lparr>pc_type := ''gko:ilu''\<rparr>))))
   \<and> pcg_solve GinkgoIluPreconditioner
       \<in> set (tl (snd (main \<lparr>ref_levels = 2, has_nodes = False\<rparr>
                    (Parsed (default_options\<lparr>pc_type := ''gko:ilu''\<rparr>)))))"
  using Jacobi_parameters_unused [where opts = "default_options\<lparr>pc_type := ''gko:ilu''\<rparr>"
      and mesh = "\<lparr>ref_levels = 2, has_nodes = False\<rparr>"
      and so = "''none''" and acc = "1 / 5" and mbs = 16]
  by (simp add: default_options_def main_defs)

text \<open>
  The claim as first stated has the two runs behave identically in every output.
  Without a preconditioner, the run with \<^verbatim>\<open>pc_acc\<close> 0.1 and the run with \<^verbatim>\<open>pc_acc\<close>
  0.2 both complete, and differ in the options they print.
\<close>

theorem Jacobi_parameters_printed_counterexample:
  "pc_type (default_options\<lparr>pc_type := ''none''\<rparr>) \<noteq> ''gko:bj''
   \<and> default_options\<lparr>pc_type := ''none'', pc_acc := 1 / 5\<rparr>
       = (default_options\<lparr>pc_type := ''none''\<rparr>)\<lparr>pc_acc := 1 / 5\<rparr>
   \<and> hd (snd (main \<lparr>ref_levels = 2, has_nodes = False\<rparr>
                 (Parsed (default_options\<lparr>pc_type := ''none''\<rparr>))))
       = PrintOptions (default_options\<lparr>pc_type := ''none''\<rparr>)
   \<and> hd (snd (main \<lparr>ref_levels = 2, has_nodes = False\<rparr>
                 (Parsed (default_options\<lparr>pc_type := ''none'', pc_acc := 1 / 5\<rparr>))))
       = PrintOptions (default_options\<lparr>pc_type := ''none'', pc_acc := 1 / 5\<rparr>)
   \<and> main \<lparr>ref_levels = 2, has_nodes = False\<rparr> (Parsed (default_options\<lparr>pc_type := ''none''\<rparr>))
       \<noteq> main \<lparr>ref_levels = 2, has_nodes = False\<rparr>
            (Parsed (default_options\<lparr>pc_type := ''none'', pc_acc := 1 / 5\<rparr>))"
  by (simp add: default_options_def main_defs)

end
